theory Spec2Isabelle
  imports Main "HOL-Library.Multiset" "HOL-Library.Char_ord" "HOL-Library.List_Lexorder"
    "HOL-Library.Sublist"
begin

section \<open>The chord detector of the virtual piano\<close>

text \<open>
  A shallow embedding of the chord-detection module (\<^verbatim>\<open>utils/chordDetector\<close>):
  the pitch helpers, the permutation generator, the minimum-energy stacking, the
  construction of the chord database at module load and \<^verbatim>\<open>detectChord\<close>.

  JavaScript numbers are modelled as \<open>int\<close> (every number the module computes is a small
  integer), strings as \<open>string\<close>, arrays as lists. A read outside an array yields
  \<^verbatim>\<open>undefined\<close>, modelled as \<open>None\<close>. The only operation of the module that can
  throw is the property access \<^verbatim>\<open>minEnergyChords[0].chord\<close> on an empty array, modelled as
  the error value \<open>TypeError\<close>.
\<close>

subsection \<open>JavaScript primitives used by the module\<close>

datatype error = TypeError

text \<open>The remainder operator \<^verbatim>\<open>%\<close>: the result has the sign of the dividend.\<close>

definition js_rem :: "int \<Rightarrow> int \<Rightarrow> int" where
  "js_rem a b = sgn a * (\<bar>a\<bar> mod \<bar>b\<bar>)"

text \<open>\<^verbatim>\<open>xs[i]\<close>: the element, or \<^verbatim>\<open>undefined\<close> outside the array.\<close>

definition array_get :: "'a list \<Rightarrow> int \<Rightarrow> 'a option" where
  "array_get xs i = (if 0 \<le> i \<and> i < int (length xs) then Some (xs ! nat i) else None)"

text \<open>\<^verbatim>\<open>xs.indexOf(x)\<close>: the first position of \<open>x\<close>, or \<open>-1\<close>.\<close>

fun indexOf :: "'a list \<Rightarrow> 'a \<Rightarrow> int" where
  "indexOf [] x = - 1"
| "indexOf (y # ys) x =
     (if y = x then 0 else (let r = indexOf ys x in if r < 0 then - 1 else r + 1))"

text \<open>\<^verbatim>\<open>String(n)\<close> for an integer: its decimal digits, with a sign when negative.\<close>

fun digits :: "nat \<Rightarrow> string" where
  "digits n = (if n < 10 then [''0123456789'' ! n]
               else digits (n div 10) @ [''0123456789'' ! (n mod 10)])"

declare digits.simps [simp del]

definition num_str :: "int \<Rightarrow> string" where
  "num_str i = (if i < 0 then CHR ''-'' # digits (nat (- i)) else digits (nat i))"

text \<open>\<^verbatim>\<open>xs.join(sep)\<close> on an array of strings.\<close>

fun join :: "string \<Rightarrow> string list \<Rightarrow> string" where
  "join sep [] = []"
| "join sep [x] = x"
| "join sep (x # y # ys) = x @ sep @ join sep (y # ys)"

text \<open>\<^verbatim>\<open>s.split(',')\<close>: the pieces between the separators; the empty string gives one
  empty piece.\<close>

fun split :: "char \<Rightarrow> string \<Rightarrow> string list" where
  "split c [] = [[]]"
| "split c (x # xs) =
     (if x = c then [] # split c xs
      else (case split c xs of [] \<Rightarrow> [[x]] | p # ps \<Rightarrow> (x # p) # ps))"

text \<open>\<^verbatim>\<open>s.toUpperCase()\<close>, on the ASCII letters (the module only applies it to the
  authored definitions, which are ASCII).\<close>

definition upper_char :: "char \<Rightarrow> char" where
  "upper_char c = (let i = indexOf ''abcdefghijklmnopqrstuvwxyz'' c
                   in if i < 0 then c else ''ABCDEFGHIJKLMNOPQRSTUVWXYZ'' ! nat i)"

definition toUpperCase :: "string \<Rightarrow> string" where
  "toUpperCase s = map upper_char s"

text \<open>\<^verbatim>\<open>s.replace(pat, rep)\<close> with a string pattern: only the first occurrence is
  replaced.\<close>

fun replace :: "string \<Rightarrow> string \<Rightarrow> string \<Rightarrow> string" where
  "replace pat rep [] = (if pat = [] then rep else [])"
| "replace pat rep (x # xs) =
     (if take (length pat) (x # xs) = pat then rep @ drop (length pat) (x # xs)
      else x # replace pat rep xs)"

text \<open>\<^verbatim>\<open>[...new Set(xs)]\<close>: the distinct elements in the order of their first
  occurrence.\<close>

definition new_Set :: "'a list \<Rightarrow> 'a list" where
  "new_Set xs = foldl (\<lambda>s x. if x \<in> set s then s else s @ [x]) [] xs"

subsection \<open>Music theory helpers\<close>

definition SHARP_NOTES :: "string list" where
  "SHARP_NOTES = [''C'', ''C#'', ''D'', ''D#'', ''E'', ''F'', ''F#'', ''G'', ''G#'', ''A'', ''A#'', ''B'']"

definition FLAT_NOTES :: "string list" where
  "FLAT_NOTES = [''C'', ''Db'', ''D'', ''Eb'', ''E'', ''F'', ''Gb'', ''G'', ''Ab'', ''A'', ''Bb'', ''B'']"

text \<open>
  \<^verbatim>\<open>note.match(/^([A-G]#?)([0-9])$/)\<close>: the whole string is one letter \<open>A\<close> to \<open>G\<close>, an
  optional \<open>#\<close> and one decimal digit. \<open>parseInt\<close> of the digit is its position in
  \<open>0123456789\<close>.
\<close>

definition is_letter :: "char \<Rightarrow> bool" where
  "is_letter c = (c \<in> set ''ABCDEFG'')"

definition is_digit :: "char \<Rightarrow> bool" where
  "is_digit c = (c \<in> set ''0123456789'')"

definition note_match :: "string \<Rightarrow> (string \<times> string) option" where
  "note_match note =
     (case note of
        [l, d] \<Rightarrow> if is_letter l \<and> is_digit d then Some ([l], [d]) else None
      | [l, s, d] \<Rightarrow>
          if is_letter l \<and> s = CHR ''#'' \<and> is_digit d then Some ([l, s], [d]) else None
      | _ \<Rightarrow> None)"

definition parseInt :: "string \<Rightarrow> int" where
  "parseInt octaveStr = indexOf ''0123456789'' (hd octaveStr)"

definition noteToMidi :: "string \<Rightarrow> int" where
  "noteToMidi note =
     (case note_match note of
        None \<Rightarrow> - 1
      | Some (name, octaveStr) \<Rightarrow>
          (let octave = parseInt octaveStr;
               noteIndex = indexOf SHARP_NOTES name
           in 12 * (octave + 1) + noteIndex))"

definition midiToNoteName :: "int \<Rightarrow> bool \<Rightarrow> string" where
  "midiToNoteName midi useSharps =
     (let noteIndex = js_rem (js_rem midi 12 + 12) 12
      in (if useSharps then SHARP_NOTES else FLAT_NOTES) ! nat noteIndex)"

function fold_down :: "int \<Rightarrow> int" where
  "fold_down diff = (if diff > 21 then fold_down (diff - 12) else diff)"
  by pat_completeness auto
termination
  by (relation "measure (\<lambda>diff. nat diff)") auto

declare fold_down.simps [simp del]

definition getIntervalName :: "int \<Rightarrow> string option" where
  "getIntervalName semitones =
     (let diff = fold_down \<bar>semitones\<bar>
      in if diff = 0 then Some ''Unison''
         else if diff = 1 then Some ''Minor 2nd''
         else if diff = 2 then Some ''Major 2nd''
         else if diff = 3 then Some ''Minor 3rd''
         else if diff = 4 then Some ''Major 3rd''
         else if diff = 5 then Some ''Perfect 4th''
         else if diff = 6 then Some ''Tritone''
         else if diff = 7 then Some ''Perfect 5th''
         else if diff = 8 then Some ''Minor 6th (or #5)''
         else if diff = 9 then Some ''Major 6th''
         else if diff = 10 then Some ''Minor 7th''
         else if diff = 11 then Some ''Major 7th''
         else if diff = 12 then Some ''Octave''
         else if diff = 13 then Some ''Flat 9th''
         else if diff = 14 then Some ''9th''
         else if diff = 15 then Some ''Minor 10th (or #9)''
         else if diff = 16 then Some ''Major 10th''
         else if diff = 17 then Some ''11th''
         else if diff = 18 then Some ''Augmented 11th''
         else if diff = 19 then Some ''Perfect 12th''
         else if diff = 20 then Some ''Flat 13th''
         else if diff = 21 then Some ''13th''
         else None)"

subsection \<open>Permutation and stacking logic\<close>

text \<open>
  The generator \<^verbatim>\<open>permutations(array, n)\<close> works on one shared buffer, which it
  permutes in place, and yields a copy of it at each leaf. The model returns the list of
  the yielded copies, in the order of the yields, together with the buffer as the call
  leaves it. The consumer runs the generator to its end.
\<close>

definition swap :: "'a list \<Rightarrow> nat \<Rightarrow> nat \<Rightarrow> 'a list" where
  "swap array i j = array[i := array ! j, j := array ! i]"

fun permutations_gen :: "nat \<Rightarrow> 'a list \<Rightarrow> 'a list list \<times> 'a list" where
  "permutations_gen n array =
     (if n \<le> 1 then ([array], array)
      else fold (\<lambda>i (out, a).
                   (let (ys, a') = permutations_gen (n - 1) a;
                        j = (if n mod 2 \<noteq> 0 then 0 else i)
                    in (out @ ys, swap a' (n - 1) j)))
             [0..<n] ([], array))"

declare permutations_gen.simps [simp del]

definition permutations :: "'a list \<Rightarrow> 'a list list" where
  "permutations array = fst (permutations_gen (length array) array)"

function wrap_up :: "int \<Rightarrow> int" where
  "wrap_up interval = (if interval < 0 then wrap_up (interval + 12) else interval)"
  by pat_completeness auto
termination
  by (relation "measure (\<lambda>interval. nat (- interval))") auto

declare wrap_up.simps [simp del]

definition getIntervalPattern :: "int list \<Rightarrow> int list" where
  "getIntervalPattern chord =
     (if length chord < 2 then [0]
      else map (\<lambda>i. wrap_up (chord ! (i + 1) - chord ! i)) [0..<length chord - 1])"

definition join_pattern :: "int list \<Rightarrow> string" where
  "join_pattern pattern = join '','' (map num_str pattern)"

definition energy_of :: "int list \<Rightarrow> int" where
  "energy_of pattern = foldl (\<lambda>sum val. sum + val) 0 pattern"

record candidate =
  chord :: "int list"
  patternStr :: string

text \<open>One round of the search loop, on the state \<open>(minEnergy, minEnergyChords)\<close>.\<close>

definition consider_perm :: "int list \<Rightarrow> int \<times> candidate list \<Rightarrow> int \<times> candidate list" where
  "consider_perm p st =
     (case st of (minEnergy, minEnergyChords) \<Rightarrow>
        (let pattern = getIntervalPattern p;
             energy = energy_of pattern
         in if energy < minEnergy \<or> minEnergy = - 1
            then (energy, [\<lparr>chord = p, patternStr = join_pattern pattern\<rparr>])
            else if energy = minEnergy
            then (minEnergy, minEnergyChords @ [\<lparr>chord = p, patternStr = join_pattern pattern\<rparr>])
            else (minEnergy, minEnergyChords)))"

text \<open>
  \<^verbatim>\<open>minEnergyChords.sort((a, b) => a.patternStr.localeCompare(b.patternStr))\<close>: the sort
  is stable. The pattern strings consist of decimal digits and commas only, on which the
  collation order of \<open>localeCompare\<close> is the lexicographic order of the character codes;
  the model sorts by that order.
\<close>

definition getAsStackedChord :: "int list \<Rightarrow> error + int list" where
  "getAsStackedChord noteClasses =
     (if length noteClasses \<le> 1 then Inr noteClasses
      else (let (minEnergy, minEnergyChords) =
                  fold consider_perm (permutations noteClasses) (- 1, [])
            in case sort_key patternStr minEnergyChords of
                 [] \<Rightarrow> Inl TypeError
               | c # _ \<Rightarrow> Inr (chord c)))"

subsection \<open>Chord database\<close>

record ChordFormula =
  name :: string
  pattern :: string
  rootIndex :: int

text \<open>The chain of \<^verbatim>\<open>replace\<close> calls that \<^verbatim>\<open>defineChord\<close> applies to the upper-cased note.\<close>

definition enharmonic :: "string \<Rightarrow> string" where
  "enharmonic n =
     replace ''BB'' ''A#'' (replace ''AB'' ''G#'' (replace ''GB'' ''F#''
       (replace ''EB'' ''D#'' (replace ''DB'' ''C#'' (replace ''CB'' ''B''
         (replace ''FB'' ''E'' (replace ''E#'' ''F'' (replace ''B#'' ''C''
           (toUpperCase n)))))))))"

text \<open>
  \<^verbatim>\<open>defineChord(name, noteStr)\<close> appends one formula to the database; the model takes
  the database and returns the extended one. \<^verbatim>\<open>notes[0]\<close> may be \<^verbatim>\<open>undefined\<close>,
  whose \<open>indexOf\<close> in an array of numbers is \<open>-1\<close>.
\<close>

definition defineChord :: "string \<Rightarrow> string \<Rightarrow> ChordFormula list \<Rightarrow> error + ChordFormula list" where
  "defineChord nm noteStr db =
     (let notes = map (\<lambda>n. indexOf SHARP_NOTES (enharmonic n)) (split CHR '','' noteStr)
      in case getAsStackedChord notes of
           Inl e \<Rightarrow> Inl e
         | Inr stacked \<Rightarrow>
             (let rootNote = array_get notes 0;
                  rootIdx = (case rootNote of None \<Rightarrow> - 1 | Some r \<Rightarrow> indexOf stacked r);
                  pat = join_pattern (getIntervalPattern stacked)
              in Inr (db @ [\<lparr>name = nm, pattern = pat, rootIndex = rootIdx\<rparr>])))"

text \<open>The top-level calls of \<^verbatim>\<open>defineChord\<close>, in the order of the module.\<close>

definition chord_definitions :: "(string \<times> string) list" where
  "chord_definitions =
    [
     ('''', ''c,e,g''),
     (''5'', ''c,g''),
     (''6(no3)'', ''c,g,a''),
     (''Maj7'', ''c,e,g,b''),
     (''Maj7(#11)'', ''c,e,f#,b''),
     (''add9'', ''c,e,g,d''),
     (''Maj7(9)'', ''c,d,e,b''),
     (''6(9)'', ''c,d,e,a''),
     (''+'', ''c,e,g#''),
     (''m'', ''c,eb,g''),
     (''madd9'', ''c,eb,g,d''),
     (''m7'', ''c,eb,g,bb''),
     (''m7(9)'', ''c,d,eb,bb''),
     (''mMaj7'', ''c,eb,g,b''),
     (''mMaj7(9)'', ''c,d,eb,b''),
     (''dim'', ''c,eb,f#''),
     (''dim7'', ''c,eb,f#,a''),
     (''7'', ''c,e,g,bb''),
     (''7(no5)'', ''c,e,bb''),
     (''7sus4'', ''c,f,g,bb''),
     (''7(b5)'', ''c,e,f#,bb''),
     (''7(9)'', ''c,d,e,bb''),
     (''7(13)'', ''c,e,a,bb''),
     (''7(b9)'', ''c,c#,e,bb''),
     (''+7'', ''c,e,g#,bb''),
     (''7(#9)'', ''c,eb,e,bb''),
     (''sus4'', ''c,f,g''),
     (''6add9'', ''c,e,g,a,d''),
     (''Maj9'', ''c,e,g,b,d''),
     (''9'', ''c,e,g,bb,d''),
     (''13'', ''c,e,g,bb,d,a''),
     (''13'', ''c,e,g,bb,d,f,a''),
     (''13'', ''c,e,bb,d,a''),
     (''m6'', ''c,eb,g,a''),
     (''m6add9'', ''c,eb,g,a,d''),
     (''m6/9'', ''c,eb,a,d''),
     (''m7add13'', ''c,eb,g,a,bb''),
     (''m9'', ''c,eb,g,bb,d''),
     (''m11'', ''c,eb,g,bb,d,f''),
     (''m11'', ''c,eb,bb,d,f''),
     (''m13'', ''c,eb,g,bb,d,f,a''),
     (''m9/Maj7'', ''c,eb,g,b,d''),
     (''m9(b5)'', ''c,eb,gb,bb,d''),
     (''m11(b5)'', ''c,eb,gb,bb,d,f''),
     (''Maj7(#5)'', ''c,e,g#,b''),
     (''Maj7(#11)'', ''c,e,g,b,f#''),
     (''Maj9(#11)'', ''c,e,g,b,d,f#''),
     (''7(b9)'', ''c,e,g,bb,db''),
     (''7(#9)'', ''c,e,g,bb,d#''),
     (''7(#5)(#9)'', ''c,e,g#,bb,d#''),
     (''7(#11)'', ''c,e,g,bb,f#''),
     (''9(#11)'', ''c,e,g,bb,d,f#''),
     (''7(b9)(#11)'', ''c,e,g,bb,db,f#''),
     (''13b5'', ''c,e,gb,bb,d,a''),
     (''13b5'', ''c,e,gb,bb,d,f,a''),
     (''13b9'', ''c,e,g,bb,db,a''),
     (''13b9'', ''c,e,g,bb,db,f,a''),
     (''13#11'', ''c,e,g,bb,d,f#,a''),
     (''7(no3)'', ''c,g,bb''),
     (''Maj7(no5)'', ''c,e,b'')
    ]"

text \<open>The calls inside the block guarded by \<^verbatim>\<open>CHORD_FORMULAS.length === 0\<close>.\<close>

definition supplementary_definitions :: "(string \<times> string) list" where
  "supplementary_definitions =
    [(''m(maj9)'', ''c,d#,g,b,d''),
     (''m7(b9)'', ''c,d#,g,a#,c#''),
     (''Maj7(#5)'', ''c,e,g#,b'')]"

fun define_all :: "(string \<times> string) list \<Rightarrow> ChordFormula list \<Rightarrow> error + ChordFormula list" where
  "define_all [] db = Inr db"
| "define_all ((nm, noteStr) # rest) db =
     (case defineChord nm noteStr db of
        Inl e \<Rightarrow> Inl e
      | Inr db' \<Rightarrow> define_all rest db')"

text \<open>
  The database as module initialisation leaves it: the empty array, the top-level
  definitions, then the guarded block. An exception during initialisation would leave the
  module unloaded; it is the \<open>Inl\<close> value.
\<close>

definition CHORD_FORMULAS :: "error + ChordFormula list" where
  "CHORD_FORMULAS =
     (case define_all chord_definitions [] of
        Inl e \<Rightarrow> Inl e
      | Inr db \<Rightarrow> if length db = 0 then define_all supplementary_definitions db else Inr db)"

subsection \<open>Main detection function\<close>

text \<open>
  The optional argument \<^verbatim>\<open>opts\<close> is modelled by the value of \<^verbatim>\<open>opts?.useFlats\<close>:
  \<open>None\<close> when it is \<^verbatim>\<open>undefined\<close>. The result \<open>None\<close> is \<^verbatim>\<open>null\<close>.
\<close>

definition name_or_undefined :: "int option \<Rightarrow> bool \<Rightarrow> string" where
  "name_or_undefined rootNote useSharps =
     (case rootNote of None \<Rightarrow> ''undefined'' | Some r \<Rightarrow> midiToNoteName r useSharps)"

definition compose_name :: "ChordFormula \<Rightarrow> int list \<Rightarrow> int \<Rightarrow> bool \<Rightarrow> string" where
  "compose_name formula stackedChord bassNote useSharps =
     (let rootNote0 = array_get stackedChord (rootIndex formula);
          bassNoteClass = js_rem bassNote 12;
          rootNote = (if name formula = ''dim7'' \<or> name formula = ''+''
                      then Some bassNoteClass else rootNote0);
          chordName = name_or_undefined rootNote useSharps @ name formula
      in if rootNote \<noteq> Some bassNoteClass
         then chordName @ ''/'' @ midiToNoteName bassNoteClass useSharps
         else chordName)"

definition fallback_name :: "int list \<Rightarrow> bool \<Rightarrow> string" where
  "fallback_name noteClasses useSharps =
     ''('' @ join '', '' (map (\<lambda>n. case array_get (if useSharps then SHARP_NOTES else FLAT_NOTES) n
                                    of None \<Rightarrow> [] | Some s \<Rightarrow> s) noteClasses) @ '')''"

definition detectChord :: "string list \<Rightarrow> bool option \<Rightarrow> error + string option" where
  "detectChord notes useFlats =
     (case CHORD_FORMULAS of
        Inl e \<Rightarrow> Inl e
      | Inr db \<Rightarrow>
     if length notes = 0 then Inr None
     else
       (let midiNotes = sort (map noteToMidi notes);
            bassNote = hd midiNotes;
            useSharps = (case useFlats of None \<Rightarrow> True | Some b \<Rightarrow> \<not> b)
        in if length midiNotes = 1 then Inr (Some (midiToNoteName bassNote useSharps))
           else if length midiNotes = 2 then
             (let nm = (case getIntervalName (midiNotes ! 1 - midiNotes ! 0) of
                          None \<Rightarrow> ''Interval'' | Some s \<Rightarrow> s)
              in Inr (Some (nm @ '' ('' @ midiToNoteName (midiNotes ! 0) useSharps @ '', ''
                              @ midiToNoteName (midiNotes ! 1) useSharps @ '')'')))
           else
             (let noteClasses = new_Set (map (\<lambda>n. js_rem n 12) midiNotes)
              in if length noteClasses \<ge> 9
                 then Inr (Some (midiToNoteName bassNote useSharps @ '' Note Soup''))
                 else
                   (case getAsStackedChord noteClasses of
                      Inl e \<Rightarrow> Inl e
                    | Inr stackedChord \<Rightarrow>
                        (let pat = join_pattern (getIntervalPattern stackedChord)
                         in case find (\<lambda>formula. pattern formula = pat) db of
                              Some formula \<Rightarrow>
                                Inr (Some (compose_name formula stackedChord bassNote useSharps))
                            | None \<Rightarrow> Inr (Some (fallback_name noteClasses useSharps)))))))"

subsection \<open>Auxiliary definitions for the proofs\<close>

text \<open>
  None of the following is part of the module. \<open>heap_loop\<close> is the \<^verbatim>\<open>for\<close> loop of the
  generator from iteration \<open>i\<close> on; \<open>search\<close> runs a consumer over the generator without
  building the list of its yields, which is how the concrete chords below are evaluated.
\<close>

function heap_loop :: "nat \<Rightarrow> nat \<Rightarrow> 'a list \<Rightarrow> 'a list list \<times> 'a list" where
  "heap_loop n i a =
     (if i < n then
        (let (ys, a') = permutations_gen (n - 1) a;
             (zs, a'') = heap_loop n (Suc i) (swap a' (n - 1) (if n mod 2 \<noteq> 0 then 0 else i))
         in (ys @ zs, a''))
      else ([], a))"
  by pat_completeness auto
termination
  by (relation "measure (\<lambda>(n, i, a). n - i)") auto

declare heap_loop.simps [simp del]

definition stack_energy :: "int list \<Rightarrow> int" where
  "stack_energy p = energy_of (getIntervalPattern p)"

definition pattern_key :: "int list \<Rightarrow> string" where
  "pattern_key p = join_pattern (getIntervalPattern p)"

definition candidate_of :: "int list \<Rightarrow> candidate" where
  "candidate_of p = \<lparr>chord = p, patternStr = pattern_key p\<rparr>"

definition rotR :: "'a list \<Rightarrow> 'a list" where
  "rotR xs = (if xs = [] then [] else last xs # butlast xs)"

definition search :: "('a list \<Rightarrow> 's \<Rightarrow> 's) \<Rightarrow> nat \<Rightarrow> 'a list \<Rightarrow> 's \<Rightarrow> 's \<times> 'a list" where
  "search f n a st = (fold f (fst (permutations_gen n a)) st, snd (permutations_gen n a))"

fun search_iter ::
  "('a list \<Rightarrow> 's \<Rightarrow> 's) \<Rightarrow> nat \<Rightarrow> nat \<Rightarrow> bool \<Rightarrow> nat \<Rightarrow> 's \<times> 'a list \<Rightarrow> 's \<times> 'a list" where
  "search_iter f 0 m od i (st, a) = (st, swap a m (if od then 0 else i))"
| "search_iter f (Suc r) m od i (st, a) =
     search_iter f r m od (Suc i) (search f m (swap a m (if od then 0 else i)) st)"

definition interval :: "int \<Rightarrow> int \<Rightarrow> int" where
  "interval a b = wrap_up (b - a)"

fun energy_acc :: "int \<Rightarrow> int list \<Rightarrow> int" where
  "energy_acc s (a # b # r) = energy_acc (s + interval a b) (b # r)"
| "energy_acc s r = s"

fun diffs :: "int list \<Rightarrow> int list" where
  "diffs (a # b # r) = interval a b # diffs (b # r)"
| "diffs r = []"

definition collect :: "int list \<Rightarrow> int \<Rightarrow> int \<Rightarrow> int list list \<Rightarrow> int \<times> int list list" where
  "collect p e m cs =
     (if e < m \<or> m = - 1 then (e, [p])
      else if e = m then (m, cs @ [p])
      else (m, cs))"

definition collect_step :: "int list \<Rightarrow> int \<times> int list list \<Rightarrow> int \<times> int list list" where
  "collect_step p st = (case st of (m, cs) \<Rightarrow> collect p (stack_energy p) m cs)"

definition pick_first :: "int list list \<Rightarrow> error + int list" where
  "pick_first cs =
     (case sort_key patternStr (map candidate_of cs) of
        [] \<Rightarrow> Inl TypeError
      | c # _ \<Rightarrow> Inr (chord c))"

fun parity_odd :: "nat \<Rightarrow> bool" where
  "parity_odd 0 = False"
| "parity_odd (Suc n) = (\<not> parity_odd n)"

text \<open>The strings that the regular expression of \<^verbatim>\<open>noteToMidi\<close> accepts: a letter \<open>A\<close> to
  \<open>G\<close>, an optional \<open>#\<close>, one digit.\<close>

definition note_form :: "string \<Rightarrow> bool" where
  "note_form s = (\<exists>l d. is_letter l \<and> is_digit d \<and> (s = [l, d] \<or> s = [l, CHR ''#'', d]))"

text \<open>The pitch classes that \<^verbatim>\<open>defineChord\<close> computes from its note string.\<close>

definition note_classes :: "string \<Rightarrow> int list" where
  "note_classes noteStr = map (\<lambda>n. indexOf SHARP_NOTES (enharmonic n)) (split CHR '','' noteStr)"

text \<open>The value of \<open>CHORD_FORMULAS\<close>, as lemma \<open>formulas_value\<close> computes it.\<close>

definition formula_table :: "ChordFormula list" where
  "formula_table =
    [\<lparr>name = '''', pattern = ''4,3'', rootIndex = 0\<rparr>,
     \<lparr>name = ''5'', pattern = ''5'', rootIndex = 1\<rparr>,
     \<lparr>name = ''6(no3)'', pattern = ''2,3'', rootIndex = 2\<rparr>,
     \<lparr>name = ''Maj7'', pattern = ''1,4,3'', rootIndex = 1\<rparr>,
     \<lparr>name = ''Maj7(#11)'', pattern = ''1,4,2'', rootIndex = 1\<rparr>,
     \<lparr>name = ''add9'', pattern = ''2,2,3'', rootIndex = 0\<rparr>,
     \<lparr>name = ''Maj7(9)'', pattern = ''1,2,2'', rootIndex = 1\<rparr>,
     \<lparr>name = ''6(9)'', pattern = ''3,2,2'', rootIndex = 1\<rparr>,
     \<lparr>name = ''+'', pattern = ''4,4'', rootIndex = 0\<rparr>,
     \<lparr>name = ''m'', pattern = ''3,4'', rootIndex = 0\<rparr>,
     \<lparr>name = ''madd9'', pattern = ''2,1,4'', rootIndex = 0\<rparr>,
     \<lparr>name = ''m7'', pattern = ''3,2,3'', rootIndex = 2\<rparr>,
     \<lparr>name = ''m7(9)'', pattern = ''2,2,1'', rootIndex = 1\<rparr>,
     \<lparr>name = ''mMaj7'', pattern = ''1,3,4'', rootIndex = 1\<rparr>,
     \<lparr>name = ''mMaj7(9)'', pattern = ''1,2,1'', rootIndex = 1\<rparr>,
     \<lparr>name = ''dim'', pattern = ''3,3'', rootIndex = 0\<rparr>,
     \<lparr>name = ''dim7'', pattern = ''3,3,3'', rootIndex = 0\<rparr>,
     \<lparr>name = ''7'', pattern = ''3,3,2'', rootIndex = 3\<rparr>,
     \<lparr>name = ''7(no5)'', pattern = ''2,4'', rootIndex = 1\<rparr>,
     \<lparr>name = ''7sus4'', pattern = ''2,3,2'', rootIndex = 3\<rparr>,
     \<lparr>name = ''7(b5)'', pattern = ''2,4,2'', rootIndex = 3\<rparr>,
     \<lparr>name = ''7(9)'', pattern = ''2,2,2'', rootIndex = 1\<rparr>,
     \<lparr>name = ''7(13)'', pattern = ''1,2,4'', rootIndex = 2\<rparr>,
     \<lparr>name = ''7(b9)'', pattern = ''2,1,3'', rootIndex = 1\<rparr>,
     \<lparr>name = ''+7'', pattern = ''2,2,4'', rootIndex = 2\<rparr>,
     \<lparr>name = ''7(#9)'', pattern = ''2,3,1'', rootIndex = 1\<rparr>,
     \<lparr>name = ''sus4'', pattern = ''2,5'', rootIndex = 2\<rparr>,
     \<lparr>name = ''6add9'', pattern = ''2,2,3,2'', rootIndex = 0\<rparr>,
     \<lparr>name = ''Maj9'', pattern = ''1,2,2,3'', rootIndex = 1\<rparr>,
     \<lparr>name = ''9'', pattern = ''2,2,2,3'', rootIndex = 1\<rparr>,
     \<lparr>name = ''13'', pattern = ''2,1,2,2,2'', rootIndex = 3\<rparr>,
     \<lparr>name = ''13'', pattern = ''1,2,2,1,2,2'', rootIndex = 5\<rparr>,
     \<lparr>name = ''13'', pattern = ''1,2,2,2'', rootIndex = 2\<rparr>,
     \<lparr>name = ''m6'', pattern = ''2,3,3'', rootIndex = 2\<rparr>,
     \<lparr>name = ''m6add9'', pattern = ''2,3,2,1'', rootIndex = 2\<rparr>,
     \<lparr>name = ''m6/9'', pattern = ''3,2,1'', rootIndex = 1\<rparr>,
     \<lparr>name = ''m7add13'', pattern = ''2,1,2,3'', rootIndex = 3\<rparr>,
     \<lparr>name = ''m9'', pattern = ''3,2,2,1'', rootIndex = 2\<rparr>,
     \<lparr>name = ''m11'', pattern = ''2,2,1,2,2'', rootIndex = 1\<rparr>,
     \<lparr>name = ''m11'', pattern = ''2,2,1,2'', rootIndex = 1\<rparr>,
     \<lparr>name = ''m13'', pattern = ''1,2,2,1,2,2'', rootIndex = 2\<rparr>,
     \<lparr>name = ''m9/Maj7'', pattern = ''1,2,1,4'', rootIndex = 1\<rparr>,
     \<lparr>name = ''m9(b5)'', pattern = ''2,2,1,3'', rootIndex = 1\<rparr>,
     \<lparr>name = ''m11(b5)'', pattern = ''2,2,1,2,1'', rootIndex = 1\<rparr>,
     \<lparr>name = ''Maj7(#5)'', pattern = ''3,1,4'', rootIndex = 2\<rparr>,
     \<lparr>name = ''Maj7(#11)'', pattern = ''1,4,2,1'', rootIndex = 1\<rparr>,
     \<lparr>name = ''Maj9(#11)'', pattern = ''1,2,2,2,1'', rootIndex = 1\<rparr>,
     \<lparr>name = ''7(b9)'', pattern = ''2,1,3,3'', rootIndex = 1\<rparr>,
     \<lparr>name = ''7(#9)'', pattern = ''1,3,3,2'', rootIndex = 4\<rparr>,
     \<lparr>name = ''7(#5)(#9)'', pattern = ''2,2,3,1'', rootIndex = 2\<rparr>,
     \<lparr>name = ''7(#11)'', pattern = ''2,1,3,2'', rootIndex = 4\<rparr>,
     \<lparr>name = ''9(#11)'', pattern = ''2,2,2,2,1'', rootIndex = 1\<rparr>,
     \<lparr>name = ''7(b9)(#11)'', pattern = ''2,1,3,2,1'', rootIndex = 1\<rparr>,
     \<lparr>name = ''13b5'', pattern = ''1,2,2,2,2'', rootIndex = 2\<rparr>,
     \<lparr>name = ''13b5'', pattern = ''1,2,2,2,1,1'', rootIndex = 2\<rparr>,
     \<lparr>name = ''13b9'', pattern = ''2,1,2,1,3'', rootIndex = 3\<rparr>,
     \<lparr>name = ''13b9'', pattern = ''1,2,2,1,2,1'', rootIndex = 5\<rparr>,
     \<lparr>name = ''13#11'', pattern = ''1,2,1,2,2,2'', rootIndex = 4\<rparr>,
     \<lparr>name = ''7(no3)'', pattern = ''3,2'', rootIndex = 2\<rparr>,
     \<lparr>name = ''Maj7(no5)'', pattern = ''1,4'', rootIndex = 1\<rparr>]"

text \<open>
  The notes of a definition as note identifiers: each pitch class spelled with
  \<open>SHARP_NOTES\<close>, in octave 4, in the order of the definition.
\<close>

definition definition_notes :: "string \<Rightarrow> string list" where
  "definition_notes noteStr = map (\<lambda>pc. SHARP_NOTES ! nat pc @ ''4'') (note_classes noteStr)"

text \<open>The names that \<^verbatim>\<open>getIntervalName\<close> can return, in the order of its \<^verbatim>\<open>switch\<close>.\<close>

definition interval_names :: "string list" where
  "interval_names =
     [''Unison'', ''Minor 2nd'', ''Major 2nd'', ''Minor 3rd'', ''Major 3rd'', ''Perfect 4th'',
      ''Tritone'', ''Perfect 5th'', ''Minor 6th (or #5)'', ''Major 6th'', ''Minor 7th'',
      ''Major 7th'', ''Octave'', ''Flat 9th'', ''9th'', ''Minor 10th (or #9)'', ''Major 10th'',
      ''11th'', ''Augmented 11th'', ''Perfect 12th'', ''Flat 13th'', ''13th'']"

text \<open>The table of note names that \<^verbatim>\<open>detectChord\<close> reads for a value of \<^verbatim>\<open>opts?.useFlats\<close>.\<close>

definition note_table :: "bool option \<Rightarrow> string list" where
  "note_table useFlats =
     (if (case useFlats of None \<Rightarrow> True | Some b \<Rightarrow> \<not> b) then SHARP_NOTES else FLAT_NOTES)"

section \<open>Properties\<close>

subsection \<open>Interval patterns\<close>

lemma wrap_up_nonneg: "0 \<le> wrap_up x"
  by (induction x rule: wrap_up.induct) (subst wrap_up.simps, simp)

lemma wrap_up_id: "0 \<le> x \<Longrightarrow> wrap_up x = x"
  by (subst wrap_up.simps) simp

lemma wrap_up_neg: "x < 0 \<Longrightarrow> wrap_up x = wrap_up (x + 12)"
  by (subst wrap_up.simps) simp

lemma wrap_up_mod: "- 12 \<le> x \<Longrightarrow> x < 12 \<Longrightarrow> wrap_up x = x mod 12"
proof (cases "x < 0")
  case True
  assume "- 12 \<le> x"
  with True have "wrap_up x = x + 12" by (simp add: wrap_up_neg wrap_up_id)
  moreover have "x mod 12 = x + 12"
  proof -
    have "x mod 12 = (x + 12) mod 12" by simp
    also from True \<open>- 12 \<le> x\<close> have "\<dots> = x + 12"
      by (intro mod_pos_pos_trivial) simp_all
    finally show ?thesis .
  qed
  ultimately show ?thesis by simp
next
  case False
  assume "x < 12"
  with False show ?thesis by (simp add: wrap_up_id)
qed

text \<open>
  Claim C5, as stated, asks for a pattern of length \<open>n - 1\<close> with no element \<open>0\<close> for every
  number \<open>n\<close> of pitch classes. For a single pitch class the function returns the pattern
  \<open>[0]\<close>, of length one.
\<close>

theorem C5_single_pitch_class_counterexample: "getIntervalPattern [0] = [0] \<and> length (getIntervalPattern [0]) \<noteq> length [0 :: int] - 1"
  by (simp add: getIntervalPattern_def)

text \<open>
  Claim C5, amended: for an ordering of two or more distinct pitch classes in \<open>[0, 11]\<close> the
  pattern has one element less than the ordering, and its element at position \<open>i\<close> is the
  forward distance \<open>(b - a) mod 12\<close> between the neighbours at \<open>i\<close> and \<open>i + 1\<close>, a value in
  \<open>[1, 11]\<close>; for fewer than two pitch classes the pattern is \<open>[0]\<close>.
\<close>

theorem C5_interval_pattern_shape:
  assumes "distinct ch" and "set ch \<subseteq> {0..11}"
  shows "(2 \<le> length ch \<longrightarrow>
            length (getIntervalPattern ch) = length ch - 1 \<and>
            (\<forall>i < length ch - 1.
               getIntervalPattern ch ! i = (ch ! (i + 1) - ch ! i) mod 12 \<and>
               1 \<le> getIntervalPattern ch ! i \<and> getIntervalPattern ch ! i \<le> 11)) \<and>
         (length ch < 2 \<longrightarrow> getIntervalPattern ch = [0])"
proof -
  have len: "length (getIntervalPattern ch) = length ch - 1" if "2 \<le> length ch"
    using that by (simp add: getIntervalPattern_def)
  have elem: "getIntervalPattern ch ! i = (ch ! (i + 1) - ch ! i) mod 12 \<and>
               1 \<le> getIntervalPattern ch ! i \<and> getIntervalPattern ch ! i \<le> 11"
    if l2: "2 \<le> length ch" and i: "i < length ch - 1" for i
  proof -
    let ?a = "ch ! i" and ?b = "ch ! (i + 1)"
    from i have ia: "i < length ch" and ib: "i + 1 < length ch" by simp_all
    with assms(2) have ra: "?a \<in> {0..11}" and rb: "?b \<in> {0..11}"
      using nth_mem by blast+
    from assms(1) ia ib have ne: "?a \<noteq> ?b"
      by (simp add: nth_eq_iff_index_eq)
    from ra rb have bounds: "- 12 \<le> ?b - ?a" "?b - ?a < 12" by simp_all
    have val: "getIntervalPattern ch ! i = (?b - ?a) mod 12"
      using l2 i bounds by (simp add: getIntervalPattern_def wrap_up_mod)
    have "(?b - ?a) mod 12 \<noteq> 0"
    proof
      assume "(?b - ?a) mod 12 = 0"
      then have "12 dvd (?b - ?a)" by presburger
      with ra rb have "?b - ?a = 0" by auto presburger
      with ne show False by simp
    qed
    moreover have "0 \<le> (?b - ?a) mod 12" "(?b - ?a) mod 12 < 12" by simp_all
    ultimately have "1 \<le> (?b - ?a) mod 12 \<and> (?b - ?a) mod 12 \<le> 11" by linarith
    with val show ?thesis by simp
  qed
  have small: "getIntervalPattern ch = [0]" if "length ch < 2"
    using that by (simp add: getIntervalPattern_def)
  from len elem small show ?thesis by blast
qed

theorem C5_interval_pattern_shape_witness:
  "distinct [0, 4, 7 :: int] \<and> set [0, 4, 7 :: int] \<subseteq> {0..11} \<and>
   length (getIntervalPattern [0, 4, 7]) = 2 \<and> getIntervalPattern [0, 4, 7] ! 1 = 3 \<and>
   getIntervalPattern [7] = [0]"
proof -
  have d: "distinct [0, 4, 7 :: int]" and s: "set [0, 4, 7 :: int] \<subseteq> {0..11}" by simp_all
  have s1: "set [7 :: int] \<subseteq> {0..11}" by simp
  from C5_interval_pattern_shape [OF d s] C5_interval_pattern_shape [of "[7]"] d s show ?thesis by simp
qed

subsection \<open>The permutation generator yields every ordering\<close>

lemma fold_heap_loop:
  assumes body: "\<And>i out a. body i (out, a) =
           (let (ys, a') = permutations_gen (n - 1) a;
                j = (if n mod 2 \<noteq> 0 then 0 else i)
            in (out @ ys, swap a' (n - 1) j))"
  shows "fold body [i..<n] (out, a) = (out @ fst (heap_loop n i a), snd (heap_loop n i a))"
proof (induction "n - i" arbitrary: i out a)
  case 0
  then show ?case by (simp add: heap_loop.simps [of n i])
next
  case (Suc k)
  then have lt: "i < n" and k: "k = n - Suc i" by simp_all
  from lt have upt: "[i..<n] = i # [Suc i..<n]" by (rule upt_conv_Cons)
  obtain ys a' where inner: "permutations_gen (n - 1) a = (ys, a')" by (cases "permutations_gen (n - 1) a")
  let ?a2 = "swap a' (n - 1) (if n mod 2 \<noteq> 0 then 0 else i)"
  have step: "body i (out, a) = (out @ ys, ?a2)"
    by (simp only: body inner Let_def prod.case)
  have "fold body [i..<n] (out, a) = fold body [Suc i..<n] (out @ ys, ?a2)"
    by (simp only: upt fold.simps o_apply step)
  also have "\<dots> = ((out @ ys) @ fst (heap_loop n (Suc i) ?a2), snd (heap_loop n (Suc i) ?a2))"
    by (rule Suc.hyps(1) [OF k])
  also have "\<dots> = (out @ fst (heap_loop n i a), snd (heap_loop n i a))"
    using lt inner by (subst (3 4) heap_loop.simps) (simp add: Let_def split: prod.splits)
  finally show ?case .
qed

lemma permutations_gen_loop:
  assumes "1 < n"
  shows "permutations_gen n a = heap_loop n 0 a"
proof -
  have "permutations_gen n a =
      fold (\<lambda>i (out, a).
              (let (ys, a') = permutations_gen (n - 1) a;
                   j = (if n mod 2 \<noteq> 0 then 0 else i)
               in (out @ ys, swap a' (n - 1) j))) [0..<n] ([], a)"
    using assms by (subst permutations_gen.simps) simp
  also have "\<dots> = ([] @ fst (heap_loop n 0 a), snd (heap_loop n 0 a))"
    by (rule fold_heap_loop) simp
  finally show ?thesis by simp
qed

lemma permutations_gen_leaf: "n \<le> 1 \<Longrightarrow> permutations_gen n a = ([a], a)"
  by (subst permutations_gen.simps) simp

lemma swap_same: "swap a k k = a"
  by (simp add: swap_def)

lemma swap_apart:
  "swap (P @ x # R @ z # Y) (length P + Suc (length R)) (length P) = P @ z # R @ x # Y"
  by (simp add: swap_def nth_append list_update_append)

lemma snoc_perms:
  "{b @ z # Y | b. mset b = mset W} = {c @ Y | c. mset c = mset (W @ [z]) \<and> last c = z}"
proof (intro set_eqI iffI)
  fix u assume "u \<in> {b @ z # Y | b. mset b = mset W}"
  then obtain b where "u = b @ z # Y" "mset b = mset W" by blast
  then have "u = (b @ [z]) @ Y \<and> mset (b @ [z]) = mset (W @ [z]) \<and> last (b @ [z]) = z" by simp
  then show "u \<in> {c @ Y | c. mset c = mset (W @ [z]) \<and> last c = z}" by blast
next
  fix u assume "u \<in> {c @ Y | c. mset c = mset (W @ [z]) \<and> last c = z}"
  then obtain c where c: "u = c @ Y" "mset c = mset (W @ [z])" "last c = z" by blast
  from c(2) have "c \<noteq> []" by auto
  with c(3) have split: "c = butlast c @ [z]" by (metis append_butlast_last_id)
  with c(2) have "mset (butlast c) + {#z#} = mset W + {#z#}" by (metis mset_append mset.simps(2) mset.simps(1) add_mset_add_single union_mset_add_mset_right append_Nil2 mset_append)
  then have "mset (butlast c) = mset W" by simp
  moreover from split c(1) have "u = butlast c @ z # Y" by (metis append.assoc append_Cons append_Nil)
  ultimately show "u \<in> {b @ z # Y | b. mset b = mset W}" by blast
qed

lemma heap_loop_unfold:
  "i < n \<Longrightarrow> permutations_gen (n - 1) a = (ys, a') \<Longrightarrow>
   heap_loop n i a =
     (ys @ fst (heap_loop n (Suc i) (swap a' (n - 1) (if n mod 2 \<noteq> 0 then 0 else i))),
      snd (heap_loop n (Suc i) (swap a' (n - 1) (if n mod 2 \<noteq> 0 then 0 else i))))"
  by (subst heap_loop.simps) (simp add: Let_def split: prod.splits)

lemma heap_loop_done: "\<not> i < n \<Longrightarrow> heap_loop n i a = ([], a)"
  by (subst heap_loop.simps) simp

lemma rotR_snoc: "rotR (xs @ [x]) = x # xs"
  by (simp add: rotR_def)

lemma rotR_Nil: "rotR [] = []"
  by (simp add: rotR_def)

lemma heap_loop_main:
  assumes IH: "\<And>(X :: 'a list) Y. length X = m \<Longrightarrow>
             set (fst (permutations_gen m (X @ Y))) = {b @ Y | b. mset b = mset X} \<and>
             snd (permutations_gen m (X @ Y)) = (if even m then rotR X else X) @ Y"
    and m: "1 \<le> m"
  shows "length (P :: 'a list) = i \<Longrightarrow> length P + length Q = Suc m \<Longrightarrow>
         set (fst (heap_loop (Suc m) i (P @ Q @ Y))) =
           {b @ Y | b. mset b = mset (P @ Q) \<and> last b \<in> set Q} \<and>
         snd (heap_loop (Suc m) i (P @ Q @ Y)) = (if even (Suc m) then P @ rotR Q else Q @ P) @ Y"
proof (induction "length Q" arbitrary: P Q i)
  case 0
  then have "Q = []" and "\<not> i < Suc m" by simp_all
  then show ?case by (simp add: heap_loop_done rotR_Nil)
next
  case (Suc k)
  then obtain Q' z where Q: "Q = Q' @ [z]" and k: "k = length Q'"
    by (metis length_Suc_conv_rev)
  let ?n = "Suc m"
  let ?W = "P @ Q'"
  from Suc.prems Q have lenW: "length ?W = m" and i: "i < ?n" and iP: "i = length P" by simp_all
  have arr: "P @ Q @ Y = ?W @ z # Y" by (simp add: Q)
  from IH [OF lenW, of "z # Y"]
  have outs: "set (fst (permutations_gen m (?W @ z # Y))) = {b @ z # Y | b. mset b = mset ?W}"
    and fin: "snd (permutations_gen m (?W @ z # Y)) = (if even m then rotR ?W else ?W) @ z # Y"
    by simp_all
  obtain ys a' where inner: "permutations_gen (?n - 1) (P @ Q @ Y) = (ys, a')"
    by (cases "permutations_gen (?n - 1) (P @ Q @ Y)")
  with outs fin arr have ys: "set ys = {b @ z # Y | b. mset b = mset ?W}"
    and a': "a' = (if even m then rotR ?W else ?W) @ z # Y" by simp_all
  let ?a2 = "swap a' (?n - 1) (if ?n mod 2 \<noteq> 0 then 0 else i)"
  note unf = heap_loop_unfold [OF i inner]
  have first: "set ys = {c @ Y | c. mset c = mset (P @ Q) \<and> last c = z}"
    by (simp only: ys snoc_perms Q append_assoc)
  show ?case
  proof (cases "even m")
    case True
    \<comment> \<open>The inner call rotated the first \<open>m\<close> elements; the swap with position 0 completes a
        rotation of all \<open>Suc m\<close> elements.\<close>
    from m lenW obtain W' y where W: "?W = W' @ [y]"
      by (metis One_nat_def Suc_le_lessD length_greater_0_conv rev_exhaust)
    with lenW have lW': "m = Suc (length W')" by (metis length_append_singleton)
    from True a' W have "a' = [] @ y # W' @ z # Y" by (simp add: rotR_snoc)
    moreover from True have "(if ?n mod 2 \<noteq> 0 then 0 else i) = length ([] :: 'a list)"
      by (simp add: even_iff_mod_2_eq_zero) presburger
    moreover have "?n - 1 = length ([] :: 'a list) + Suc (length W')" using lW' by simp
    ultimately have "?a2 = [] @ z # W' @ y # Y"
      by (simp only: swap_apart)
    then have a2: "?a2 = (z # P) @ Q' @ Y" using W by simp
    have "length (z # P) = Suc i" "length (z # P) + length Q' = Suc m"
      using iP lenW by simp_all
    from Suc.hyps(1) [OF k this]
    have rest: "set (fst (heap_loop ?n (Suc i) ?a2)) =
                  {b @ Y | b. mset b = mset ((z # P) @ Q') \<and> last b \<in> set Q'}"
      and fin2: "snd (heap_loop ?n (Suc i) ?a2) = (Q' @ z # P) @ Y"
      using True by (simp_all only: a2) simp_all
    have mseq: "mset ((z # P) @ Q') = mset (P @ Q)" by (simp add: Q)
    have "set (fst (heap_loop ?n i (P @ Q @ Y))) =
            {c @ Y | c. mset c = mset (P @ Q) \<and> last c = z} \<union>
            {b @ Y | b. mset b = mset (P @ Q) \<and> last b \<in> set Q'}"
      by (simp only: unf fst_conv set_append first rest mseq)
    also have "\<dots> = {b @ Y | b. mset b = mset (P @ Q) \<and> last b \<in> set Q}"
      by (auto simp: Q)
    finally have A: "set (fst (heap_loop ?n i (P @ Q @ Y))) =
                       {b @ Y | b. mset b = mset (P @ Q) \<and> last b \<in> set Q}" .
    have B: "snd (heap_loop ?n i (P @ Q @ Y)) = (Q @ P) @ Y"
      by (simp only: unf snd_conv fin2) (simp add: Q)
    from A B True show ?thesis by simp
  next
    case False
    \<comment> \<open>The inner call left the array as it was; the swap exchanges positions \<open>i\<close> and \<open>m\<close>.\<close>
    from False a' have a'_eq: "a' = P @ Q' @ z # Y" by simp
    from False have j: "(if ?n mod 2 \<noteq> 0 then 0 else i) = i"
      by (simp add: even_iff_mod_2_eq_zero) presburger
    show ?thesis
    proof (cases Q')
      case Nil
      with lenW iP have "i = m" by simp
      with j have "?a2 = a'" by (simp add: swap_same)
      with a'_eq Nil have a2: "?a2 = (P @ [z]) @ [] @ Y" by simp
      have "length (P @ [z]) = Suc i" "length (P @ [z]) + length ([] :: 'a list) = Suc m"
        using iP lenW Nil by simp_all
      from Suc.hyps(1) [OF _ this, of ] k Nil
      have rest: "set (fst (heap_loop ?n (Suc i) ?a2)) = {}"
        and fin2: "snd (heap_loop ?n (Suc i) ?a2) = (P @ [z]) @ Y"
        using False by (simp_all only: a2) (simp_all add: rotR_Nil)
      have A: "set (fst (heap_loop ?n i (P @ Q @ Y))) =
                 {b @ Y | b. mset b = mset (P @ Q) \<and> last b \<in> set Q}"
        by (simp only: unf fst_conv set_append first rest) (auto simp: Q Nil)
      have B: "snd (heap_loop ?n i (P @ Q @ Y)) = (P @ rotR Q) @ Y"
        by (simp only: unf snd_conv fin2) (simp add: Q Nil rotR_def)
      from A B False show ?thesis by simp
    next
      case (Cons x R)
      from a'_eq Cons have "a' = P @ x # R @ z # Y" by simp
      moreover from lenW Cons iP have "?n - 1 = length P + Suc (length R)" by simp
      moreover from j iP have "(if ?n mod 2 \<noteq> 0 then 0 else i) = length P" by simp
      ultimately have "?a2 = P @ z # R @ x # Y"
        by (simp only: swap_apart)
      then have a2: "?a2 = (P @ [z]) @ (R @ [x]) @ Y" by simp
      have "length (R @ [x]) = k" using k Cons by simp
      moreover have "length (P @ [z]) = Suc i" "length (P @ [z]) + length (R @ [x]) = Suc m"
        using iP lenW Cons by simp_all
      ultimately have
        "set (fst (heap_loop ?n (Suc i) ((P @ [z]) @ (R @ [x]) @ Y))) =
           {b @ Y | b. mset b = mset ((P @ [z]) @ (R @ [x])) \<and> last b \<in> set (R @ [x])} \<and>
         snd (heap_loop ?n (Suc i) ((P @ [z]) @ (R @ [x]) @ Y)) =
           (if even ?n then (P @ [z]) @ rotR (R @ [x]) else (R @ [x]) @ (P @ [z])) @ Y"
        using Suc.hyps(1) [of "R @ [x]" "P @ [z]" "Suc i"] by blast
      with False have rest: "set (fst (heap_loop ?n (Suc i) ?a2)) =
                  {b @ Y | b. mset b = mset ((P @ [z]) @ (R @ [x])) \<and> last b \<in> set (R @ [x])}"
        and fin2: "snd (heap_loop ?n (Suc i) ?a2) = ((P @ [z]) @ rotR (R @ [x])) @ Y"
        by (simp_all only: a2) simp_all
      have mseq: "mset ((P @ [z]) @ (R @ [x])) = mset (P @ Q)" by (simp add: Q Cons)
      have "set (fst (heap_loop ?n i (P @ Q @ Y))) =
              {c @ Y | c. mset c = mset (P @ Q) \<and> last c = z} \<union>
              {b @ Y | b. mset b = mset (P @ Q) \<and> last b \<in> set (R @ [x])}"
        by (simp only: unf fst_conv set_append first rest mseq)
      also have "\<dots> = {b @ Y | b. mset b = mset (P @ Q) \<and> last b \<in> set Q}"
        by (auto simp: Q Cons)
      finally have A: "set (fst (heap_loop ?n i (P @ Q @ Y))) =
                         {b @ Y | b. mset b = mset (P @ Q) \<and> last b \<in> set Q}" .
      have B: "snd (heap_loop ?n i (P @ Q @ Y)) = (P @ rotR Q) @ Y"
        by (simp only: unf snd_conv fin2) (simp add: Q Cons rotR_snoc rotR_def)
      from A B False show ?thesis by simp
    qed
  qed
qed

lemma heap_main:
  "length (X :: 'a list) = n \<Longrightarrow>
     set (fst (permutations_gen n (X @ Y))) = {b @ Y | b. mset b = mset X} \<and>
     snd (permutations_gen n (X @ Y)) = (if even n then rotR X else X) @ Y"
proof (induction n arbitrary: X Y)
  case 0
  then show ?case by (simp add: permutations_gen_leaf rotR_Nil)
next
  case (Suc m)
  show ?case
  proof (cases "m = 0")
    case True
    with Suc.prems obtain x where X: "X = [x]" by (cases X) auto
    have "{b @ Y | b. mset b = {#x#}} = {x # Y}" by auto
    with True X show ?thesis by (simp add: permutations_gen_leaf)
  next
    case False
    then have m: "1 \<le> m" and n: "1 < Suc m" by simp_all
    from Suc.prems have X: "X \<noteq> []" by auto
    have "length ([] :: 'a list) = 0" "length ([] :: 'a list) + length X = Suc m"
      using Suc.prems by simp_all
    from heap_loop_main [OF Suc.IH m this, of Y]
    have A: "set (fst (heap_loop (Suc m) 0 (X @ Y))) = {b @ Y | b. mset b = mset X \<and> last b \<in> set X}"
      and B: "snd (heap_loop (Suc m) 0 (X @ Y)) = (if even (Suc m) then rotR X else X) @ Y"
      by simp_all
    have "last b \<in> set X" if "mset b = mset X" for b
    proof -
      from that X have "b \<noteq> []" by auto
      then have "last b \<in> set b" by simp
      with that show ?thesis by (metis set_mset_mset)
    qed
    then have "{b @ Y | b. mset b = mset X \<and> last b \<in> set X} = {b @ Y | b. mset b = mset X}"
      by blast
    with A B show ?thesis by (simp only: permutations_gen_loop [OF n])
  qed
qed

lemma set_permutations: "set (permutations xs) = {b. mset b = mset xs}"
  using heap_main [of xs "length xs" "[]"] by (simp add: permutations_def)

lemma permutations_nonempty: "permutations xs \<noteq> []"
proof -
  have "xs \<in> set (permutations xs)" by (simp add: set_permutations)
  then show ?thesis by auto
qed

lemma energy_of_sum: "foldl (\<lambda>sum val. sum + val) a xs = a + sum_list xs" for a :: int
  by (induction xs arbitrary: a) simp_all

lemma stack_energy_nonneg: "0 \<le> stack_energy p"
proof -
  have "\<forall>v \<in> set (getIntervalPattern p). 0 \<le> v"
    by (auto simp: getIntervalPattern_def wrap_up_nonneg)
  then have "0 \<le> sum_list (getIntervalPattern p)" by (simp add: sum_list_nonneg)
  then show ?thesis by (simp add: stack_energy_def energy_of_def energy_of_sum)
qed

lemma consider_perm_eq:
  "consider_perm p (m, cs) =
     (if stack_energy p < m \<or> m = - 1 then (stack_energy p, [candidate_of p])
      else if stack_energy p = m then (m, cs @ [candidate_of p])
      else (m, cs))"
  by (simp add: consider_perm_def stack_energy_def candidate_of_def pattern_key_def Let_def)

lemma search_fold:
  "ps \<noteq> [] \<Longrightarrow>
   \<exists>m. fold consider_perm ps (- 1, []) =
          (m, map candidate_of (filter (\<lambda>p. stack_energy p = m) ps)) \<and>
       (\<forall>p \<in> set ps. m \<le> stack_energy p) \<and> (\<exists>p \<in> set ps. stack_energy p = m)"
proof (induction ps rule: rev_nonempty_induct)
  case (single p)
  show ?case by (simp add: consider_perm_eq)
next
  case (snoc p ps)
  then obtain m where
    st: "fold consider_perm ps (- 1, []) = (m, map candidate_of (filter (\<lambda>p. stack_energy p = m) ps))"
    and low: "\<forall>q \<in> set ps. m \<le> stack_energy q" and hit: "\<exists>q \<in> set ps. stack_energy q = m"
    by blast
  from hit obtain q0 where "stack_energy q0 = m" by blast
  with stack_energy_nonneg [of q0] have m0: "m \<noteq> - 1" by simp
  let ?e = "stack_energy p"
  consider "?e < m" | "?e = m" | "m < ?e" by linarith
  then show ?case
  proof cases
    case 1
    with low have "filter (\<lambda>q. stack_energy q = ?e) ps = []"
      by (auto simp: filter_empty_conv)
    with 1 low show ?thesis
      by (intro exI [of _ ?e]) (auto simp: st consider_perm_eq)
  next
    case 2
    with low hit show ?thesis
      by (intro exI [of _ m]) (auto simp: st consider_perm_eq m0)
  next
    case 3
    with low hit show ?thesis
      by (intro exI [of _ m]) (auto simp: st consider_perm_eq m0)
  qed
qed

lemma sort_key_head:
  fixes f :: "'b \<Rightarrow> 'k :: linorder"
  assumes "cs \<noteq> []"
  shows "\<exists>c rest. sort_key f cs = c # rest \<and> c \<in> set cs \<and> (\<forall>d \<in> set cs. f c \<le> f d)"
proof -
  from assms have "sort_key f cs \<noteq> []" by (metis length_0_conv length_sort)
  then obtain c rest where eq: "sort_key f cs = c # rest" by (cases "sort_key f cs") auto
  have mem: "set (sort_key f cs) = set cs" by simp
  have "sorted (map f (sort_key f cs))" by (rule sorted_sort_key)
  with eq have "\<forall>d \<in> set (c # rest). f c \<le> f d" by auto
  with eq mem have "\<forall>d \<in> set cs. f c \<le> f d" by metis
  moreover from eq mem have "c \<in> set cs" by (metis list.set_intros(1))
  ultimately show ?thesis using eq by blast
qed

lemma stacked_characterisation:
  assumes "2 \<le> length xs"
  shows "\<exists>r. getAsStackedChord xs = Inr r \<and> mset r = mset xs \<and>
           (\<forall>q. mset q = mset xs \<longrightarrow> stack_energy r \<le> stack_energy q) \<and>
           (\<forall>q. mset q = mset xs \<and> stack_energy q = stack_energy r \<longrightarrow>
                pattern_key r \<le> pattern_key q)"
proof -
  let ?ps = "permutations xs"
  from search_fold [OF permutations_nonempty, of xs] obtain m where
    st: "fold consider_perm ?ps (- 1, []) =
           (m, map candidate_of (filter (\<lambda>p. stack_energy p = m) ?ps))"
    and low: "\<forall>p \<in> set ?ps. m \<le> stack_energy p"
    and hit: "\<exists>p \<in> set ?ps. stack_energy p = m" by blast
  let ?cs = "map candidate_of (filter (\<lambda>p. stack_energy p = m) ?ps)"
  from hit have "?cs \<noteq> []" by (auto simp: filter_empty_conv)
  from sort_key_head [OF this, of patternStr] obtain c rest where
    srt: "sort_key patternStr ?cs = c # rest" and mem: "c \<in> set ?cs"
    and least: "\<forall>d \<in> set ?cs. patternStr c \<le> patternStr d" by blast
  from mem obtain r where r: "c = candidate_of r" "r \<in> set ?ps" "stack_energy r = m" by auto
  have res: "getAsStackedChord xs = Inr r"
    using assms by (simp add: getAsStackedChord_def st srt r(1) candidate_of_def)
  have perm: "mset r = mset xs" using r(2) by (simp add: set_permutations)
  have en: "stack_energy r \<le> stack_energy q" if "mset q = mset xs" for q
    using that low r(3) by (simp add: set_permutations)
  have key: "pattern_key r \<le> pattern_key q" if "mset q = mset xs" "stack_energy q = stack_energy r" for q
  proof -
    from that r(3) have "candidate_of q \<in> set ?cs" by (simp add: set_permutations)
    with least have "patternStr c \<le> patternStr (candidate_of q)" by blast
    then show ?thesis by (simp add: r(1) candidate_of_def)
  qed
  from res perm en key show ?thesis by blast
qed

lemma search_leaf: "n \<le> 1 \<Longrightarrow> search f n a st = (f a st, a)"
  by (simp add: search_def permutations_gen_leaf)

lemma search_loop:
  "i < n \<Longrightarrow>
   (fold f (fst (heap_loop n i a)) st, snd (heap_loop n i a)) =
     search_iter f (n - Suc i) (n - 1) (n mod 2 \<noteq> 0) i (search f (n - 1) a st)"
proof (induction "n - i" arbitrary: i a st)
  case 0
  then show ?case by simp
next
  case (Suc k)
  obtain ys a' where inner: "permutations_gen (n - 1) a = (ys, a')"
    by (cases "permutations_gen (n - 1) a")
  let ?a2 = "swap a' (n - 1) (if n mod 2 \<noteq> 0 then 0 else i)"
  let ?st1 = "fold f ys st"
  have s1: "search f (n - 1) a st = (?st1, a')" using inner by (simp add: search_def)
  note unf = heap_loop_unfold [OF Suc.prems inner]
  show ?case
  proof (cases "Suc i < n")
    case True
    with Suc.hyps(2) have k: "k = n - Suc i" by simp
    from True obtain r where r: "n - Suc i = Suc r" "n - Suc (Suc i) = r"
      by (metis Suc_diff_Suc diff_Suc_eq_diff_pred)
    from Suc.hyps(1) [OF k True, of ?a2 ?st1]
    have "(fold f (fst (heap_loop n (Suc i) ?a2)) ?st1, snd (heap_loop n (Suc i) ?a2)) =
            search_iter f r (n - 1) (n mod 2 \<noteq> 0) (Suc i) (search f (n - 1) ?a2 ?st1)"
      by (simp only: r)
    with unf s1 r show ?thesis
      by simp
  next
    case False
    with Suc.prems have z: "n - Suc i = 0" by simp
    from False have "heap_loop n (Suc i) ?a2 = ([], ?a2)" by (simp add: heap_loop_done)
    with unf s1 z show ?thesis
      by simp
  qed
qed

lemma parity_odd_mod: "parity_odd n = (n mod 2 \<noteq> 0)"
  by (induction n) (simp_all, presburger)

lemma search_rec:
  "search f (Suc (Suc m)) a st =
     search_iter f (Suc m) (Suc m) (parity_odd m) 0 (search f (Suc m) a st)"
  using search_loop [of 0 "Suc (Suc m)" f a st]
  by (simp add: search_def permutations_gen_loop parity_odd_mod)

lemma search_one: "search f (Suc 0) a st = (f a st, a)"
  by (simp add: search_leaf)

lemma diffs_pattern: "2 \<le> length p \<Longrightarrow> getIntervalPattern p = diffs p"
proof -
  have "map (\<lambda>i. wrap_up (p ! (i + 1) - p ! i)) [0..<length p - 1] = diffs p"
  proof (induction p rule: diffs.induct)
    case (1 a b r)
    have "[0..<length (a # b # r) - 1] = 0 # map Suc [0..<length (b # r) - 1]"
      by (simp add: upt_conv_Cons map_Suc_upt del: upt_Suc)
    with 1 show ?case by (simp add: comp_def interval_def del: upt_Suc)
  qed simp_all
  then show "2 \<le> length p \<Longrightarrow> getIntervalPattern p = diffs p"
    by (simp add: getIntervalPattern_def)
qed

lemma energy_acc_diffs: "energy_acc s p = s + sum_list (diffs p)"
  by (induction s p rule: energy_acc.induct) simp_all

lemma stack_energy_acc: "stack_energy (a # b # r) = energy_acc 0 (a # b # r)"
  by (simp add: stack_energy_def energy_of_def energy_of_sum diffs_pattern energy_acc_diffs)

lemma pattern_key_diffs: "pattern_key (a # b # r) = join_pattern (diffs (a # b # r))"
  by (simp add: pattern_key_def diffs_pattern)

lemma collect_step_pair: "collect_step p (m, cs) = collect p (stack_energy p) m cs"
  by (simp add: collect_step_def)

lemma collect_simulates:
  "consider_perm p (m, map candidate_of cs) =
     (case collect_step p (m, cs) of (m', cs') \<Rightarrow> (m', map candidate_of cs'))"
  by (simp add: consider_perm_eq collect_step_def collect_def)

lemma collect_fold:
  "fold consider_perm ps (m, map candidate_of cs) =
     (case fold collect_step ps (m, cs) of (m', cs') \<Rightarrow> (m', map candidate_of cs'))"
proof (induction ps arbitrary: m cs)
  case Nil
  show ?case by simp
next
  case (Cons p ps)
  obtain m1 cs1 where step: "collect_step p (m, cs) = (m1, cs1)"
    by (cases "collect_step p (m, cs)")
  then have "consider_perm p (m, map candidate_of cs) = (m1, map candidate_of cs1)"
    by (simp add: collect_simulates)
  with step Cons.IH [of m1 cs1] show ?case by simp
qed

lemma interval_table:
  "interval 0 0 = 0" "interval 0 1 = 1" "interval 0 2 = 2" "interval 0 3 = 3" "interval 0 4 = 4" "interval 0 5 = 5" "interval 0 6 = 6" "interval 0 7 = 7" "interval 0 8 = 8" "interval 0 9 = 9" "interval 0 10 = 10" "interval 0 11 = 11"
  "interval 1 0 = 11" "interval 1 1 = 0" "interval 1 2 = 1" "interval 1 3 = 2" "interval 1 4 = 3" "interval 1 5 = 4" "interval 1 6 = 5" "interval 1 7 = 6" "interval 1 8 = 7" "interval 1 9 = 8" "interval 1 10 = 9" "interval 1 11 = 10"
  "interval 2 0 = 10" "interval 2 1 = 11" "interval 2 2 = 0" "interval 2 3 = 1" "interval 2 4 = 2" "interval 2 5 = 3" "interval 2 6 = 4" "interval 2 7 = 5" "interval 2 8 = 6" "interval 2 9 = 7" "interval 2 10 = 8" "interval 2 11 = 9"
  "interval 3 0 = 9" "interval 3 1 = 10" "interval 3 2 = 11" "interval 3 3 = 0" "interval 3 4 = 1" "interval 3 5 = 2" "interval 3 6 = 3" "interval 3 7 = 4" "interval 3 8 = 5" "interval 3 9 = 6" "interval 3 10 = 7" "interval 3 11 = 8"
  "interval 4 0 = 8" "interval 4 1 = 9" "interval 4 2 = 10" "interval 4 3 = 11" "interval 4 4 = 0" "interval 4 5 = 1" "interval 4 6 = 2" "interval 4 7 = 3" "interval 4 8 = 4" "interval 4 9 = 5" "interval 4 10 = 6" "interval 4 11 = 7"
  "interval 5 0 = 7" "interval 5 1 = 8" "interval 5 2 = 9" "interval 5 3 = 10" "interval 5 4 = 11" "interval 5 5 = 0" "interval 5 6 = 1" "interval 5 7 = 2" "interval 5 8 = 3" "interval 5 9 = 4" "interval 5 10 = 5" "interval 5 11 = 6"
  "interval 6 0 = 6" "interval 6 1 = 7" "interval 6 2 = 8" "interval 6 3 = 9" "interval 6 4 = 10" "interval 6 5 = 11" "interval 6 6 = 0" "interval 6 7 = 1" "interval 6 8 = 2" "interval 6 9 = 3" "interval 6 10 = 4" "interval 6 11 = 5"
  "interval 7 0 = 5" "interval 7 1 = 6" "interval 7 2 = 7" "interval 7 3 = 8" "interval 7 4 = 9" "interval 7 5 = 10" "interval 7 6 = 11" "interval 7 7 = 0" "interval 7 8 = 1" "interval 7 9 = 2" "interval 7 10 = 3" "interval 7 11 = 4"
  "interval 8 0 = 4" "interval 8 1 = 5" "interval 8 2 = 6" "interval 8 3 = 7" "interval 8 4 = 8" "interval 8 5 = 9" "interval 8 6 = 10" "interval 8 7 = 11" "interval 8 8 = 0" "interval 8 9 = 1" "interval 8 10 = 2" "interval 8 11 = 3"
  "interval 9 0 = 3" "interval 9 1 = 4" "interval 9 2 = 5" "interval 9 3 = 6" "interval 9 4 = 7" "interval 9 5 = 8" "interval 9 6 = 9" "interval 9 7 = 10" "interval 9 8 = 11" "interval 9 9 = 0" "interval 9 10 = 1" "interval 9 11 = 2"
  "interval 10 0 = 2" "interval 10 1 = 3" "interval 10 2 = 4" "interval 10 3 = 5" "interval 10 4 = 6" "interval 10 5 = 7" "interval 10 6 = 8" "interval 10 7 = 9" "interval 10 8 = 10" "interval 10 9 = 11" "interval 10 10 = 0" "interval 10 11 = 1"
  "interval 11 0 = 1" "interval 11 1 = 2" "interval 11 2 = 3" "interval 11 3 = 4" "interval 11 4 = 5" "interval 11 5 = 6" "interval 11 6 = 7" "interval 11 7 = 8" "interval 11 8 = 9" "interval 11 9 = 10" "interval 11 10 = 11" "interval 11 11 = 0"
  by (simp_all add: interval_def wrap_up_id wrap_up_neg)

lemma len_Cons: "length (x # xs) = Suc (length xs)"
  by simp

lemma getAsStackedChord_search:
  "getAsStackedChord (a # b # r) =
     pick_first (snd (fst (search collect_step (Suc (Suc (length r))) (a # b # r) (- 1, []))))"
proof -
  let ?xs = "a # b # r"
  obtain m cs where st: "fold collect_step (permutations ?xs) (- 1, []) = (m, cs)"
    by (cases "fold collect_step (permutations ?xs) (- 1, [])")
  with collect_fold [of "permutations ?xs" "- 1" "[]"]
  have "fold consider_perm (permutations ?xs) (- 1, []) = (m, map candidate_of cs)" by simp
  then have "getAsStackedChord ?xs = pick_first cs"
    by (simp add: getAsStackedChord_def pick_first_def)
  moreover have "cs = snd (fst (search collect_step (Suc (Suc (length r))) ?xs (- 1, [])))"
    using st by (simp add: search_def permutations_def)
  ultimately show ?thesis by simp
qed

subsection \<open>The canonical stacking\<close>

lemma perm_iff_distinct_set:
  "distinct xs \<Longrightarrow> (mset q = mset xs) = (distinct q \<and> set q = set xs)"
  by (metis mset_eq_imp_distinct_iff mset_eq_setD set_eq_iff_mset_eq_distinct)

lemma mset_singleton_list: "mset q = {#x#} \<Longrightarrow> q = [x]"
  by (cases q) auto

text \<open>
  Claim C1: for a nonempty list of distinct pitch classes in \<open>[0, 11]\<close>, \<open>getAsStackedChord\<close>
  returns an ordering of exactly these pitch classes, each once; the energy of its interval
  pattern is at most the energy of every ordering of the set; and among the orderings of
  that least energy its comma-joined pattern is the least in the lexicographic order of
  strings.
\<close>

theorem C1_stacking_minimises_energy:
  assumes "xs \<noteq> []" and "distinct xs" and "set xs \<subseteq> {0..11}"
  shows "\<exists>r. getAsStackedChord xs = Inr r \<and> distinct r \<and> set r = set xs \<and>
           (\<forall>q. distinct q \<and> set q = set xs \<longrightarrow>
                energy_of (getIntervalPattern r) \<le> energy_of (getIntervalPattern q)) \<and>
           (\<forall>q. distinct q \<and> set q = set xs \<and>
                energy_of (getIntervalPattern q) = energy_of (getIntervalPattern r) \<longrightarrow>
                join_pattern (getIntervalPattern r) \<le> join_pattern (getIntervalPattern q))"
proof (cases "2 \<le> length xs")
  case True
  from stacked_characterisation [OF True] obtain r where
    "getAsStackedChord xs = Inr r" "mset r = mset xs"
    "\<forall>q. mset q = mset xs \<longrightarrow> stack_energy r \<le> stack_energy q"
    "\<forall>q. mset q = mset xs \<and> stack_energy q = stack_energy r \<longrightarrow> pattern_key r \<le> pattern_key q"
    by blast
  then show ?thesis
    using assms(2) by (intro exI [of _ r]) (simp add: perm_iff_distinct_set stack_energy_def pattern_key_def)
next
  case False
  with assms(1) have "length xs = Suc 0" by (cases xs) (auto simp: not_le less_Suc_eq)
  then obtain x where xs: "xs = [x]" by (auto simp: length_Suc_conv)
  have only: "q = [x]" if "distinct q" "set q = {x}" for q
  proof -
    from that set_eq_iff_mset_eq_distinct [of q "[x]"] have "mset q = {#x#}" by simp
    then show ?thesis by (rule mset_singleton_list)
  qed
  show ?thesis
    by (intro exI [of _ xs]) (auto simp: xs getAsStackedChord_def dest: only)
qed

text \<open>The theorem of claim C1 at the major triad \<open>[0, 4, 7]\<close>.\<close>

theorem C1_stacking_minimises_energy_witness:
  "[0, 4, 7 :: int] \<noteq> [] \<and> distinct [0, 4, 7 :: int] \<and> set [0, 4, 7 :: int] \<subseteq> {0..11} \<and>
   (\<exists>r. getAsStackedChord [0, 4, 7] = Inr r \<and> distinct r \<and> set r = set [0, 4, 7] \<and>
           (\<forall>q. distinct q \<and> set q = set [0, 4, 7] \<longrightarrow>
                energy_of (getIntervalPattern r) \<le> energy_of (getIntervalPattern q)) \<and>
           (\<forall>q. distinct q \<and> set q = set [0, 4, 7] \<and>
                energy_of (getIntervalPattern q) = energy_of (getIntervalPattern r) \<longrightarrow>
                join_pattern (getIntervalPattern r) \<le> join_pattern (getIntervalPattern q)))"
proof -
  have h1: "[0, 4, 7 :: int] \<noteq> []" and h2: "distinct [0, 4, 7 :: int]"
    and h3: "set [0, 4, 7 :: int] \<subseteq> {0..11}" by simp_all
  from C1_stacking_minimises_energy [OF h1 h2 h3] h1 h2 h3 show ?thesis by (intro conjI)
qed



subsection \<open>Evaluating concrete stackings\<close>

text \<open>
  The search itself is evaluated with a small rule set (no conditional rules, intervals
  from the table); the choice among the collected orderings with the default one.
\<close>

lemmas search_eval = getAsStackedChord_search len_Cons list.size(3) search_one search_rec
  search_iter.simps parity_odd.simps simp_thms if_True if_False swap_def nth_Cons_0 nth_Cons_Suc
  list_update_code collect_step_pair collect_def stack_energy_acc energy_acc.simps
  interval_table arith_simps arith_special rel_simps
  fst_conv snd_conv append.simps

lemmas pick_eval = pick_first_def candidate_of_def pattern_key_diffs join_pattern_def num_str_def
  digits.simps interval_table

lemma stack_0_4_8: "getAsStackedChord [0, 4, 8] = Inr [0, 4, 8]"
  by (simp only: search_eval cong: if_weak_cong) (simp add: pick_eval)



subsection \<open>Totality\<close>

lemma getAsStackedChord_total: "\<exists>r. getAsStackedChord xs = Inr r"
proof (cases "2 \<le> length xs")
  case True
  from stacked_characterisation [OF this] show ?thesis by blast
next
  case False
  then show ?thesis by (simp add: getAsStackedChord_def)
qed

lemma defineChord_total: "\<exists>f. defineChord nm ns db = Inr (db @ [f]) \<and> name f = nm"
proof -
  obtain r where "getAsStackedChord (map (\<lambda>n. indexOf SHARP_NOTES (enharmonic n)) (split CHR '','' ns)) = Inr r"
    using getAsStackedChord_total by blast
  then show ?thesis by (simp add: defineChord_def Let_def)
qed

lemma define_all_total: "\<exists>fs. define_all defs db = Inr (db @ fs) \<and> map name fs = map fst defs"
proof (induction defs arbitrary: db)
  case Nil
  show ?case by simp
next
  case (Cons d defs)
  obtain nm ns where d: "d = (nm, ns)" by (cases d)
  from defineChord_total [of nm ns db] obtain f where
    f: "defineChord nm ns db = Inr (db @ [f])" "name f = nm" by blast
  from Cons.IH [of "db @ [f]"] obtain fs where
    "define_all defs (db @ [f]) = Inr ((db @ [f]) @ fs)" "map name fs = map fst defs" by blast
  with f d show ?case by (intro exI [of _ "f # fs"]) simp
qed

lemma length_chord_definitions: "length chord_definitions = 60"
  by (simp add: chord_definitions_def)

lemma formulas_total:
  "\<exists>db. define_all chord_definitions [] = Inr db \<and> CHORD_FORMULAS = Inr db \<and>
        map name db = map fst chord_definitions"
proof -
  from define_all_total [of chord_definitions "[]"] obtain db where
    db: "define_all chord_definitions [] = Inr db" "map name db = map fst chord_definitions"
    by auto
  from db(2) have "length db = 60"
    by (metis length_map length_chord_definitions)
  with db show ?thesis by (simp add: CHORD_FORMULAS_def)
qed

subsection \<open>Dense clusters\<close>

lemma new_Set_acc:
  "distinct acc \<Longrightarrow>
   distinct (foldl (\<lambda>s x. if x \<in> set s then s else s @ [x]) acc xs) \<and>
   set (foldl (\<lambda>s x. if x \<in> set s then s else s @ [x]) acc xs) = set acc \<union> set xs"
  by (induction xs arbitrary: acc) auto

lemma length_new_Set: "length (new_Set xs) = card (set xs)"
proof -
  from new_Set_acc [of "[]" xs] have "distinct (new_Set xs)" "set (new_Set xs) = set xs"
    by (simp_all add: new_Set_def)
  then show ?thesis by (metis distinct_card)
qed

lemma hd_sort_Min: "xs \<noteq> [] \<Longrightarrow> hd (sort xs) = Min (set xs)" for xs :: "int list"
proof -
  assume "xs \<noteq> []"
  from sort_key_head [OF this, of "\<lambda>x. x"] obtain c rest where
    "sort xs = c # rest" "c \<in> set xs" "\<forall>d \<in> set xs. c \<le> d" by blast
  then show ?thesis by (simp add: Min_eqI [symmetric])
qed

lemma note_soup:
  assumes "3 \<le> length notes"
    and "9 \<le> card ((\<lambda>n. js_rem (noteToMidi n) 12) ` set notes)"
  shows "detectChord notes useFlats =
           Inr (Some (midiToNoteName (Min (noteToMidi ` set notes))
                        (case useFlats of None \<Rightarrow> True | Some b \<Rightarrow> \<not> b) @ '' Note Soup''))"
proof -
  from formulas_total obtain db where db: "CHORD_FORMULAS = Inr db" by blast
  let ?midi = "sort (map noteToMidi notes)"
  from assms(1) have nn: "notes \<noteq> []" by auto
  then have ne: "map noteToMidi notes \<noteq> []" by simp
  have bass: "hd ?midi = Min (noteToMidi ` set notes)"
    using hd_sort_Min [OF ne] by simp
  have "(\<lambda>n. js_rem n 12) ` set ?midi = (\<lambda>n. js_rem (noteToMidi n) 12) ` set notes"
    by (simp add: image_image)
  with assms(2) have nine: "9 \<le> length (new_Set (map (\<lambda>n. js_rem n 12) ?midi))"
    by (simp add: length_new_Set)
  from assms(1) nn have l: "length notes \<noteq> 0" "length notes \<noteq> 1" "length notes \<noteq> 2" by simp_all
  show ?thesis
    using nine l nn by (simp add: detectChord_def db Let_def bass split: option.splits)
qed

lemma nine_midi:
  "map noteToMidi [''C4'', ''C#4'', ''D4'', ''D#4'', ''E4'', ''F4'', ''F#4'', ''G4'', ''G#4''] =
     [60, 61, 62, 63, 64, 65, 66, 67, 68]"
  by (simp add: noteToMidi_def note_match_def is_letter_def is_digit_def parseInt_def SHARP_NOTES_def)

lemma nine_img:
  "noteToMidi ` set [''C4'', ''C#4'', ''D4'', ''D#4'', ''E4'', ''F4'', ''F#4'', ''G4'', ''G#4''] =
     {60, 61, 62, 63, 64, 65, 66, 67, 68}"
proof -
  have "noteToMidi ` set [''C4'', ''C#4'', ''D4'', ''D#4'', ''E4'', ''F4'', ''F#4'', ''G4'', ''G#4''] =
        set (map noteToMidi [''C4'', ''C#4'', ''D4'', ''D#4'', ''E4'', ''F4'', ''F#4'', ''G4'', ''G#4''])"
    by (simp only: set_map)
  also have "\<dots> = {60, 61, 62, 63, 64, 65, 66, 67, 68}"
    by (simp only: nine_midi) simp
  finally show ?thesis .
qed

lemma nine_pcs:
  "(\<lambda>n. js_rem (noteToMidi n) 12) ` set [''C4'', ''C#4'', ''D4'', ''D#4'', ''E4'', ''F4'', ''F#4'', ''G4'', ''G#4''] =
     {0, 1, 2, 3, 4, 5, 6, 7, 8}"
proof -
  have "(\<lambda>n. js_rem (noteToMidi n) 12) ` set [''C4'', ''C#4'', ''D4'', ''D#4'', ''E4'', ''F4'', ''F#4'', ''G4'', ''G#4''] =
        (\<lambda>n. js_rem n 12) ` (noteToMidi ` set [''C4'', ''C#4'', ''D4'', ''D#4'', ''E4'', ''F4'', ''F#4'', ''G4'', ''G#4''])"
    by (simp only: image_image)
  also have "\<dots> = {0, 1, 2, 3, 4, 5, 6, 7, 8}"
    by (simp only: nine_img) (simp add: js_rem_def)
  finally show ?thesis .
qed

lemma nine_card: "card {0, 1, 2, 3, 4, 5, 6, 7, 8 :: int} = 9"
  by simp

lemma nine_min: "Min {60, 61, 62, 63, 64, 65, 66, 67, 68 :: int} = 60"
  by simp

lemma name_60: "midiToNoteName 60 True = ''C''"
  by (simp add: midiToNoteName_def js_rem_def SHARP_NOTES_def)

text \<open>
  Claim C7: for three or more notes with at least nine distinct pitch classes,
  \<open>detectChord\<close> returns the name of the pitch class of the lowest note followed by
  \<open>Note Soup\<close>, whatever the database holds; for the nine notes from \<open>C4\<close> to \<open>G#4\<close> this is
  \<open>C Note Soup\<close>.
\<close>

theorem C7_note_soup:
  "(3 \<le> length notes \<and> 9 \<le> card ((\<lambda>n. js_rem (noteToMidi n) 12) ` set notes) \<longrightarrow>
      detectChord notes useFlats =
        Inr (Some (midiToNoteName (Min (noteToMidi ` set notes))
                     (case useFlats of None \<Rightarrow> True | Some b \<Rightarrow> \<not> b) @ '' Note Soup''))) \<and>
   detectChord [''C4'', ''C#4'', ''D4'', ''D#4'', ''E4'', ''F4'', ''F#4'', ''G4'', ''G#4''] None =
     Inr (Some ''C Note Soup'')"
proof
  show "3 \<le> length notes \<and> 9 \<le> card ((\<lambda>n. js_rem (noteToMidi n) 12) ` set notes) \<longrightarrow>
      detectChord notes useFlats =
        Inr (Some (midiToNoteName (Min (noteToMidi ` set notes))
                     (case useFlats of None \<Rightarrow> True | Some b \<Rightarrow> \<not> b) @ '' Note Soup''))"
    using note_soup by blast
next
  let ?ns = "[''C4'', ''C#4'', ''D4'', ''D#4'', ''E4'', ''F4'', ''F#4'', ''G4'', ''G#4'']"
  have len: "3 \<le> length ?ns" by simp
  have nine: "9 \<le> card ((\<lambda>n. js_rem (noteToMidi n) 12) ` set ?ns)"
    by (simp only: nine_pcs nine_card)
  from note_soup [OF len nine, of None]
  have "detectChord ?ns None = Inr (Some (midiToNoteName 60 True @ '' Note Soup''))"
    by (simp only: nine_img nine_min option.case)
  then show "detectChord ?ns None = Inr (Some ''C Note Soup'')"
    by (simp only: name_60) simp
qed

text \<open>The theorem of claim C7 at the nine notes, with the flat spelling selected.\<close>

theorem C7_note_soup_witness:
  "3 \<le> length [''C4'', ''C#4'', ''D4'', ''D#4'', ''E4'', ''F4'', ''F#4'', ''G4'', ''G#4''] \<and>
   9 \<le> card ((\<lambda>n. js_rem (noteToMidi n) 12) `
              set [''C4'', ''C#4'', ''D4'', ''D#4'', ''E4'', ''F4'', ''F#4'', ''G4'', ''G#4'']) \<and>
   detectChord [''C4'', ''C#4'', ''D4'', ''D#4'', ''E4'', ''F4'', ''F#4'', ''G4'', ''G#4''] (Some True) =
     Inr (Some ''C Note Soup'')"
proof -
  let ?ns = "[''C4'', ''C#4'', ''D4'', ''D#4'', ''E4'', ''F4'', ''F#4'', ''G4'', ''G#4'']"
  have len: "3 \<le> length ?ns" by simp
  have nine: "9 \<le> card ((\<lambda>n. js_rem (noteToMidi n) 12) ` set ?ns)"
    by (simp only: nine_pcs nine_card)
  from C7_note_soup [of ?ns "Some True"] len nine
  have "detectChord ?ns (Some True) = Inr (Some (midiToNoteName 60 False @ '' Note Soup''))"
    by (simp only: nine_img nine_min option.case simp_thms)
  then have "detectChord ?ns (Some True) = Inr (Some ''C Note Soup'')"
    by (simp add: midiToNoteName_def js_rem_def FLAT_NOTES_def)
  with len nine show ?thesis by (intro conjI)
qed

subsection \<open>Parsing note identifiers\<close>

text \<open>
  Claim C8, as stated, covers a signed octave and every letter with a sharp. The regular
  expression accepts no sign: \<open>C-1\<close> yields \<open>-1\<close>, not \<open>12 * (-1 + 1) + 0\<close>. It accepts \<open>E#4\<close>,
  for which \<open>indexOf\<close> is \<open>-1\<close> and the result is \<open>59\<close>, which is \<open>12 * (4 + 1) + p\<close> for no pitch
  class \<open>p\<close> in \<open>[0, 11]\<close>.
\<close>

theorem C8_sign_and_spelling_counterexample: "noteToMidi ''C-1'' = - 1 \<and> noteToMidi ''E#4'' = 59"
  by (simp add: noteToMidi_def note_match_def is_letter_def is_digit_def parseInt_def SHARP_NOTES_def)

lemma below_12: "pc < 12 \<Longrightarrow> pc \<in> {0, 1, 2, 3, 4, 5, 6, 7, 8, 9, 10, 11 :: nat}"
  by (simp only: insert_iff empty_iff) arith

lemma below_10: "k < 10 \<Longrightarrow> k \<in> {0, 1, 2, 3, 4, 5, 6, 7, 8, 9 :: nat}"
  by (simp only: insert_iff empty_iff) arith

lemma digit_value: "k < 10 \<Longrightarrow> is_digit (''0123456789'' ! k) \<and> parseInt [''0123456789'' ! k] = int k"
  by (drule below_10) (elim insertE emptyE; simp add: is_digit_def parseInt_def)

lemma sharp_name:
  "pc < 12 \<Longrightarrow> is_digit d \<Longrightarrow>
     note_match (SHARP_NOTES ! pc @ [d]) = Some (SHARP_NOTES ! pc, [d]) \<and>
     indexOf SHARP_NOTES (SHARP_NOTES ! pc) = int pc"
  by (drule below_12) (elim insertE emptyE; simp add: SHARP_NOTES_def note_match_def is_letter_def)

text \<open>
  Claim C8, amended: for each of the twelve names of \<open>SHARP_NOTES\<close> followed by one decimal
  digit, \<open>noteToMidi\<close> returns \<open>12 * (octave + 1) + pitchClass\<close>, the pitch class being the
  position of the name; for every string that is not a letter \<open>A\<close> to \<open>G\<close>, an optional \<open>#\<close>
  and one unsigned digit it returns \<open>-1\<close>.
\<close>

theorem C8_noteToMidi_sharp_names:
  "(pc < 12 \<and> k < 10 \<longrightarrow>
      noteToMidi (SHARP_NOTES ! pc @ [''0123456789'' ! k]) = 12 * (int k + 1) + int pc) \<and>
   (\<not> note_form s \<longrightarrow> noteToMidi s = - 1)"
proof (intro conjI impI)
  assume "pc < 12 \<and> k < 10"
  then have pc: "pc < 12" and k: "k < 10" by simp_all
  from digit_value [OF k] sharp_name [OF pc, of "''0123456789'' ! k"]
  show "noteToMidi (SHARP_NOTES ! pc @ [''0123456789'' ! k]) = 12 * (int k + 1) + int pc"
    by (simp add: noteToMidi_def)
next
  assume "\<not> note_form s"
  then have "note_match s = None"
    by (auto simp: note_form_def note_match_def split: list.splits)
  then show "noteToMidi s = - 1" by (simp add: noteToMidi_def)
qed

text \<open>The theorem of claim C8 at \<open>C#4\<close> and at the flat spelling \<open>Eb4\<close>.\<close>

theorem C8_noteToMidi_sharp_names_witness:
  "(1::nat) < 12 \<and> (4::nat) < 10 \<and> noteToMidi ''C#4'' = 61 \<and>
   \<not> note_form ''Eb4'' \<and> noteToMidi ''Eb4'' = - 1"
proof -
  have nf: "\<not> note_form ''Eb4''" by (simp add: note_form_def)
  from C8_noteToMidi_sharp_names [of 1 4 "''Eb4''"] nf show ?thesis
    by (simp add: SHARP_NOTES_def)
qed

subsection \<open>The stackings of the authored chords\<close>

lemma stack_0_4_7: "getAsStackedChord [0, 4, 7] = Inr [0, 4, 7]"
  by (simp only: search_eval cong: if_weak_cong) (simp add: pick_eval)

lemma stack_0_7: "getAsStackedChord [0, 7] = Inr [7, 0]"
  by (simp only: search_eval cong: if_weak_cong) (simp add: pick_eval)

lemma stack_0_7_9: "getAsStackedChord [0, 7, 9] = Inr [7, 9, 0]"
  by (simp only: search_eval cong: if_weak_cong) (simp add: pick_eval)

lemma stack_0_4_7_11: "getAsStackedChord [0, 4, 7, 11] = Inr [11, 0, 4, 7]"
  by (simp only: search_eval cong: if_weak_cong) (simp add: pick_eval)

lemma stack_0_4_6_11: "getAsStackedChord [0, 4, 6, 11] = Inr [11, 0, 4, 6]"
  by (simp only: search_eval cong: if_weak_cong) (simp add: pick_eval)

lemma stack_0_4_7_2: "getAsStackedChord [0, 4, 7, 2] = Inr [0, 2, 4, 7]"
  by (simp only: search_eval cong: if_weak_cong) (simp add: pick_eval)

lemma stack_0_2_4_11: "getAsStackedChord [0, 2, 4, 11] = Inr [11, 0, 2, 4]"
  by (simp only: search_eval cong: if_weak_cong) (simp add: pick_eval)

lemma stack_0_2_4_9: "getAsStackedChord [0, 2, 4, 9] = Inr [9, 0, 2, 4]"
  by (simp only: search_eval cong: if_weak_cong) (simp add: pick_eval)

lemma stack_0_3_7: "getAsStackedChord [0, 3, 7] = Inr [0, 3, 7]"
  by (simp only: search_eval cong: if_weak_cong) (simp add: pick_eval)

lemma stack_0_3_7_2: "getAsStackedChord [0, 3, 7, 2] = Inr [0, 2, 3, 7]"
  by (simp only: search_eval cong: if_weak_cong) (simp add: pick_eval)

lemma stack_0_3_7_10: "getAsStackedChord [0, 3, 7, 10] = Inr [7, 10, 0, 3]"
  by (simp only: search_eval cong: if_weak_cong) (simp add: pick_eval)

lemma stack_0_2_3_10: "getAsStackedChord [0, 2, 3, 10] = Inr [10, 0, 2, 3]"
  by (simp only: search_eval cong: if_weak_cong) (simp add: pick_eval)

lemma stack_0_3_7_11: "getAsStackedChord [0, 3, 7, 11] = Inr [11, 0, 3, 7]"
  by (simp only: search_eval cong: if_weak_cong) (simp add: pick_eval)

lemma stack_0_2_3_11: "getAsStackedChord [0, 2, 3, 11] = Inr [11, 0, 2, 3]"
  by (simp only: search_eval cong: if_weak_cong) (simp add: pick_eval)

lemma stack_0_3_6: "getAsStackedChord [0, 3, 6] = Inr [0, 3, 6]"
  by (simp only: search_eval cong: if_weak_cong) (simp add: pick_eval)

lemma stack_0_3_6_9: "getAsStackedChord [0, 3, 6, 9] = Inr [0, 3, 6, 9]"
  by (simp only: search_eval cong: if_weak_cong) (simp add: pick_eval)

lemma stack_0_4_7_10: "getAsStackedChord [0, 4, 7, 10] = Inr [4, 7, 10, 0]"
  by (simp only: search_eval cong: if_weak_cong) (simp add: pick_eval)

lemma stack_0_4_10: "getAsStackedChord [0, 4, 10] = Inr [10, 0, 4]"
  by (simp only: search_eval cong: if_weak_cong) (simp add: pick_eval)

lemma stack_0_5_7_10: "getAsStackedChord [0, 5, 7, 10] = Inr [5, 7, 10, 0]"
  by (simp only: search_eval cong: if_weak_cong) (simp add: pick_eval)

lemma stack_0_4_6_10: "getAsStackedChord [0, 4, 6, 10] = Inr [4, 6, 10, 0]"
  by (simp only: search_eval cong: if_weak_cong) (simp add: pick_eval)

lemma stack_0_2_4_10: "getAsStackedChord [0, 2, 4, 10] = Inr [10, 0, 2, 4]"
  by (simp only: search_eval cong: if_weak_cong) (simp add: pick_eval)

lemma stack_0_4_9_10: "getAsStackedChord [0, 4, 9, 10] = Inr [9, 10, 0, 4]"
  by (simp only: search_eval cong: if_weak_cong) (simp add: pick_eval)

lemma stack_0_1_4_10: "getAsStackedChord [0, 1, 4, 10] = Inr [10, 0, 1, 4]"
  by (simp only: search_eval cong: if_weak_cong) (simp add: pick_eval)

lemma stack_0_4_8_10: "getAsStackedChord [0, 4, 8, 10] = Inr [8, 10, 0, 4]"
  by (simp only: search_eval cong: if_weak_cong) (simp add: pick_eval)

lemma stack_0_3_4_10: "getAsStackedChord [0, 3, 4, 10] = Inr [10, 0, 3, 4]"
  by (simp only: search_eval cong: if_weak_cong) (simp add: pick_eval)

lemma stack_0_5_7: "getAsStackedChord [0, 5, 7] = Inr [5, 7, 0]"
  by (simp only: search_eval cong: if_weak_cong) (simp add: pick_eval)

lemma stack_0_4_7_9_2: "getAsStackedChord [0, 4, 7, 9, 2] = Inr [0, 2, 4, 7, 9]"
  by (simp only: search_eval cong: if_weak_cong) (simp add: pick_eval)

lemma stack_0_4_7_11_2: "getAsStackedChord [0, 4, 7, 11, 2] = Inr [11, 0, 2, 4, 7]"
  by (simp only: search_eval cong: if_weak_cong) (simp add: pick_eval)

lemma stack_0_4_7_10_2: "getAsStackedChord [0, 4, 7, 10, 2] = Inr [10, 0, 2, 4, 7]"
  by (simp only: search_eval cong: if_weak_cong) (simp add: pick_eval)

lemma stack_0_4_7_10_2_9: "getAsStackedChord [0, 4, 7, 10, 2, 9] = Inr [7, 9, 10, 0, 2, 4]"
  by (simp only: search_eval cong: if_weak_cong) (simp add: pick_eval)

lemma stack_0_4_7_10_2_5_9: "getAsStackedChord [0, 4, 7, 10, 2, 5, 9] = Inr [4, 5, 7, 9, 10, 0, 2]"
  by (simp only: search_eval cong: if_weak_cong) (simp add: pick_eval)

lemma stack_0_4_10_2_9: "getAsStackedChord [0, 4, 10, 2, 9] = Inr [9, 10, 0, 2, 4]"
  by (simp only: search_eval cong: if_weak_cong) (simp add: pick_eval)

lemma stack_0_3_7_9: "getAsStackedChord [0, 3, 7, 9] = Inr [7, 9, 0, 3]"
  by (simp only: search_eval cong: if_weak_cong) (simp add: pick_eval)

lemma stack_0_3_7_9_2: "getAsStackedChord [0, 3, 7, 9, 2] = Inr [7, 9, 0, 2, 3]"
  by (simp only: search_eval cong: if_weak_cong) (simp add: pick_eval)

lemma stack_0_3_9_2: "getAsStackedChord [0, 3, 9, 2] = Inr [9, 0, 2, 3]"
  by (simp only: search_eval cong: if_weak_cong) (simp add: pick_eval)

lemma stack_0_3_7_9_10: "getAsStackedChord [0, 3, 7, 9, 10] = Inr [7, 9, 10, 0, 3]"
  by (simp only: search_eval cong: if_weak_cong) (simp add: pick_eval)

lemma stack_0_3_7_10_2: "getAsStackedChord [0, 3, 7, 10, 2] = Inr [7, 10, 0, 2, 3]"
  by (simp only: search_eval cong: if_weak_cong) (simp add: pick_eval)

lemma stack_0_3_7_10_2_5: "getAsStackedChord [0, 3, 7, 10, 2, 5] = Inr [10, 0, 2, 3, 5, 7]"
  by (simp only: search_eval cong: if_weak_cong) (simp add: pick_eval)

lemma stack_0_3_10_2_5: "getAsStackedChord [0, 3, 10, 2, 5] = Inr [10, 0, 2, 3, 5]"
  by (simp only: search_eval cong: if_weak_cong) (simp add: pick_eval)

lemma stack_0_3_7_10_2_5_9: "getAsStackedChord [0, 3, 7, 10, 2, 5, 9] = Inr [9, 10, 0, 2, 3, 5, 7]"
  by (simp only: search_eval cong: if_weak_cong) (simp add: pick_eval)

lemma stack_0_3_7_11_2: "getAsStackedChord [0, 3, 7, 11, 2] = Inr [11, 0, 2, 3, 7]"
  by (simp only: search_eval cong: if_weak_cong) (simp add: pick_eval)

lemma stack_0_3_6_10_2: "getAsStackedChord [0, 3, 6, 10, 2] = Inr [10, 0, 2, 3, 6]"
  by (simp only: search_eval cong: if_weak_cong) (simp add: pick_eval)

lemma stack_0_3_6_10_2_5: "getAsStackedChord [0, 3, 6, 10, 2, 5] = Inr [10, 0, 2, 3, 5, 6]"
  by (simp only: search_eval cong: if_weak_cong) (simp add: pick_eval)

lemma stack_0_4_8_11: "getAsStackedChord [0, 4, 8, 11] = Inr [8, 11, 0, 4]"
  by (simp only: search_eval cong: if_weak_cong) (simp add: pick_eval)

lemma stack_0_4_7_11_6: "getAsStackedChord [0, 4, 7, 11, 6] = Inr [11, 0, 4, 6, 7]"
  by (simp only: search_eval cong: if_weak_cong) (simp add: pick_eval)

lemma stack_0_4_7_11_2_6: "getAsStackedChord [0, 4, 7, 11, 2, 6] = Inr [11, 0, 2, 4, 6, 7]"
  by (simp only: search_eval cong: if_weak_cong) (simp add: pick_eval)

lemma stack_0_4_7_10_1: "getAsStackedChord [0, 4, 7, 10, 1] = Inr [10, 0, 1, 4, 7]"
  by (simp only: search_eval cong: if_weak_cong) (simp add: pick_eval)

lemma stack_0_4_7_10_3: "getAsStackedChord [0, 4, 7, 10, 3] = Inr [3, 4, 7, 10, 0]"
  by (simp only: search_eval cong: if_weak_cong) (simp add: pick_eval)

lemma stack_0_4_8_10_3: "getAsStackedChord [0, 4, 8, 10, 3] = Inr [8, 10, 0, 3, 4]"
  by (simp only: search_eval cong: if_weak_cong) (simp add: pick_eval)

lemma stack_0_4_7_10_6: "getAsStackedChord [0, 4, 7, 10, 6] = Inr [4, 6, 7, 10, 0]"
  by (simp only: search_eval cong: if_weak_cong) (simp add: pick_eval)

lemma stack_0_4_7_10_2_6: "getAsStackedChord [0, 4, 7, 10, 2, 6] = Inr [10, 0, 2, 4, 6, 7]"
  by (simp only: search_eval cong: if_weak_cong) (simp add: pick_eval)

lemma stack_0_4_7_10_1_6: "getAsStackedChord [0, 4, 7, 10, 1, 6] = Inr [10, 0, 1, 4, 6, 7]"
  by (simp only: search_eval cong: if_weak_cong) (simp add: pick_eval)

lemma stack_0_4_6_10_2_9: "getAsStackedChord [0, 4, 6, 10, 2, 9] = Inr [9, 10, 0, 2, 4, 6]"
  by (simp only: search_eval cong: if_weak_cong) (simp add: pick_eval)

lemma stack_0_4_6_10_2_5_9: "getAsStackedChord [0, 4, 6, 10, 2, 5, 9] = Inr [9, 10, 0, 2, 4, 5, 6]"
  by (simp only: search_eval cong: if_weak_cong) (simp add: pick_eval)

lemma stack_0_4_7_10_1_9: "getAsStackedChord [0, 4, 7, 10, 1, 9] = Inr [7, 9, 10, 0, 1, 4]"
  by (simp only: search_eval cong: if_weak_cong) (simp add: pick_eval)

lemma stack_0_4_7_10_1_5_9: "getAsStackedChord [0, 4, 7, 10, 1, 5, 9] = Inr [4, 5, 7, 9, 10, 0, 1]"
  by (simp only: search_eval cong: if_weak_cong) (simp add: pick_eval)

lemma stack_0_4_7_10_2_6_9: "getAsStackedChord [0, 4, 7, 10, 2, 6, 9] = Inr [6, 7, 9, 10, 0, 2, 4]"
  by (simp only: search_eval cong: if_weak_cong) (simp add: pick_eval)

lemma stack_0_7_10: "getAsStackedChord [0, 7, 10] = Inr [7, 10, 0]"
  by (simp only: search_eval cong: if_weak_cong) (simp add: pick_eval)

lemma stack_0_4_11: "getAsStackedChord [0, 4, 11] = Inr [11, 0, 4]"
  by (simp only: search_eval cong: if_weak_cong) (simp add: pick_eval)

lemma stack_0_2_4_7: "getAsStackedChord [0, 2, 4, 7] = Inr [0, 2, 4, 7]"
  by (simp only: search_eval cong: if_weak_cong) (simp add: pick_eval)

lemma stack_0_2_3_7: "getAsStackedChord [0, 2, 3, 7] = Inr [0, 2, 3, 7]"
  by (simp only: search_eval cong: if_weak_cong) (simp add: pick_eval)

lemma stack_0_2_4_7_9: "getAsStackedChord [0, 2, 4, 7, 9] = Inr [0, 2, 4, 7, 9]"
  by (simp only: search_eval cong: if_weak_cong) (simp add: pick_eval)

lemma stack_0_2_4_7_11: "getAsStackedChord [0, 2, 4, 7, 11] = Inr [11, 0, 2, 4, 7]"
  by (simp only: search_eval cong: if_weak_cong) (simp add: pick_eval)

lemma stack_0_2_4_7_10: "getAsStackedChord [0, 2, 4, 7, 10] = Inr [10, 0, 2, 4, 7]"
  by (simp only: search_eval cong: if_weak_cong) (simp add: pick_eval)

lemma stack_0_2_4_7_9_10: "getAsStackedChord [0, 2, 4, 7, 9, 10] = Inr [7, 9, 10, 0, 2, 4]"
  by (simp only: search_eval cong: if_weak_cong) (simp add: pick_eval)

lemma stack_0_2_4_5_7_9_10: "getAsStackedChord [0, 2, 4, 5, 7, 9, 10] = Inr [4, 5, 7, 9, 10, 0, 2]"
  by (simp only: search_eval cong: if_weak_cong) (simp add: pick_eval)

lemma stack_0_2_4_9_10: "getAsStackedChord [0, 2, 4, 9, 10] = Inr [9, 10, 0, 2, 4]"
  by (simp only: search_eval cong: if_weak_cong) (simp add: pick_eval)

lemma stack_0_2_3_7_9: "getAsStackedChord [0, 2, 3, 7, 9] = Inr [7, 9, 0, 2, 3]"
  by (simp only: search_eval cong: if_weak_cong) (simp add: pick_eval)

lemma stack_0_2_3_9: "getAsStackedChord [0, 2, 3, 9] = Inr [9, 0, 2, 3]"
  by (simp only: search_eval cong: if_weak_cong) (simp add: pick_eval)

lemma stack_0_2_3_7_10: "getAsStackedChord [0, 2, 3, 7, 10] = Inr [7, 10, 0, 2, 3]"
  by (simp only: search_eval cong: if_weak_cong) (simp add: pick_eval)

lemma stack_0_2_3_5_7_10: "getAsStackedChord [0, 2, 3, 5, 7, 10] = Inr [10, 0, 2, 3, 5, 7]"
  by (simp only: search_eval cong: if_weak_cong) (simp add: pick_eval)

lemma stack_0_2_3_5_10: "getAsStackedChord [0, 2, 3, 5, 10] = Inr [10, 0, 2, 3, 5]"
  by (simp only: search_eval cong: if_weak_cong) (simp add: pick_eval)

lemma stack_0_2_3_7_11: "getAsStackedChord [0, 2, 3, 7, 11] = Inr [11, 0, 2, 3, 7]"
  by (simp only: search_eval cong: if_weak_cong) (simp add: pick_eval)

lemma stack_0_2_3_6_10: "getAsStackedChord [0, 2, 3, 6, 10] = Inr [10, 0, 2, 3, 6]"
  by (simp only: search_eval cong: if_weak_cong) (simp add: pick_eval)

lemma stack_0_2_3_5_6_10: "getAsStackedChord [0, 2, 3, 5, 6, 10] = Inr [10, 0, 2, 3, 5, 6]"
  by (simp only: search_eval cong: if_weak_cong) (simp add: pick_eval)

lemma stack_0_4_6_7_11: "getAsStackedChord [0, 4, 6, 7, 11] = Inr [11, 0, 4, 6, 7]"
  by (simp only: search_eval cong: if_weak_cong) (simp add: pick_eval)

lemma stack_0_2_4_6_7_11: "getAsStackedChord [0, 2, 4, 6, 7, 11] = Inr [11, 0, 2, 4, 6, 7]"
  by (simp only: search_eval cong: if_weak_cong) (simp add: pick_eval)

lemma stack_0_1_4_7_10: "getAsStackedChord [0, 1, 4, 7, 10] = Inr [10, 0, 1, 4, 7]"
  by (simp only: search_eval cong: if_weak_cong) (simp add: pick_eval)

lemma stack_0_3_4_7_10: "getAsStackedChord [0, 3, 4, 7, 10] = Inr [3, 4, 7, 10, 0]"
  by (simp only: search_eval cong: if_weak_cong) (simp add: pick_eval)

lemma stack_0_3_4_8_10: "getAsStackedChord [0, 3, 4, 8, 10] = Inr [8, 10, 0, 3, 4]"
  by (simp only: search_eval cong: if_weak_cong) (simp add: pick_eval)

lemma stack_0_4_6_7_10: "getAsStackedChord [0, 4, 6, 7, 10] = Inr [4, 6, 7, 10, 0]"
  by (simp only: search_eval cong: if_weak_cong) (simp add: pick_eval)

lemma stack_0_2_4_6_7_10: "getAsStackedChord [0, 2, 4, 6, 7, 10] = Inr [10, 0, 2, 4, 6, 7]"
  by (simp only: search_eval cong: if_weak_cong) (simp add: pick_eval)

lemma stack_0_2_4_6_9_10: "getAsStackedChord [0, 2, 4, 6, 9, 10] = Inr [9, 10, 0, 2, 4, 6]"
  by (simp only: search_eval cong: if_weak_cong) (simp add: pick_eval)

lemma stack_0_2_4_5_6_9_10: "getAsStackedChord [0, 2, 4, 5, 6, 9, 10] = Inr [9, 10, 0, 2, 4, 5, 6]"
  by (simp only: search_eval cong: if_weak_cong) (simp add: pick_eval)

lemma stack_0_1_4_7_9_10: "getAsStackedChord [0, 1, 4, 7, 9, 10] = Inr [7, 9, 10, 0, 1, 4]"
  by (simp only: search_eval cong: if_weak_cong) (simp add: pick_eval)

lemma stack_0_1_4_5_7_9_10: "getAsStackedChord [0, 1, 4, 5, 7, 9, 10] = Inr [4, 5, 7, 9, 10, 0, 1]"
  by (simp only: search_eval cong: if_weak_cong) (simp add: pick_eval)

lemma stack_0_2_4_6_7_9_10: "getAsStackedChord [0, 2, 4, 6, 7, 9, 10] = Inr [6, 7, 9, 10, 0, 2, 4]"
  by (simp only: search_eval cong: if_weak_cong) (simp add: pick_eval)

subsection \<open>The chord database\<close>

lemmas note_classes_eval = note_classes_def enharmonic_def toUpperCase_def upper_char_def
  SHARP_NOTES_def

lemma defineChord_classes:
  "defineChord nm noteStr db =
     (case getAsStackedChord (note_classes noteStr) of
        Inl e \<Rightarrow> Inl e
      | Inr stacked \<Rightarrow>
          Inr (db @ [\<lparr>name = nm,
                         pattern = join_pattern (getIntervalPattern stacked),
                         rootIndex = (case array_get (note_classes noteStr) 0 of
                                        None \<Rightarrow> - 1 | Some r \<Rightarrow> indexOf stacked r)\<rparr>]))"
  by (cases "getAsStackedChord (note_classes noteStr)")
     (simp_all add: defineChord_def note_classes_def Let_def)

lemmas formula_eval = array_get_def diffs_pattern join_pattern_def num_str_def digits.simps
  interval_table

lemma classes_0: "note_classes ''c,e,g'' = [0, 4, 7]"
  by (simp add: note_classes_eval)

lemma classes_1: "note_classes ''c,g'' = [0, 7]"
  by (simp add: note_classes_eval)

lemma classes_2: "note_classes ''c,g,a'' = [0, 7, 9]"
  by (simp add: note_classes_eval)

lemma classes_3: "note_classes ''c,e,g,b'' = [0, 4, 7, 11]"
  by (simp add: note_classes_eval)

lemma classes_4: "note_classes ''c,e,f#,b'' = [0, 4, 6, 11]"
  by (simp add: note_classes_eval)

lemma classes_5: "note_classes ''c,e,g,d'' = [0, 4, 7, 2]"
  by (simp add: note_classes_eval)

lemma classes_6: "note_classes ''c,d,e,b'' = [0, 2, 4, 11]"
  by (simp add: note_classes_eval)

lemma classes_7: "note_classes ''c,d,e,a'' = [0, 2, 4, 9]"
  by (simp add: note_classes_eval)

lemma classes_8: "note_classes ''c,e,g#'' = [0, 4, 8]"
  by (simp add: note_classes_eval)

lemma classes_9: "note_classes ''c,eb,g'' = [0, 3, 7]"
  by (simp add: note_classes_eval)

lemma classes_10: "note_classes ''c,eb,g,d'' = [0, 3, 7, 2]"
  by (simp add: note_classes_eval)

lemma classes_11: "note_classes ''c,eb,g,bb'' = [0, 3, 7, 10]"
  by (simp add: note_classes_eval)

lemma classes_12: "note_classes ''c,d,eb,bb'' = [0, 2, 3, 10]"
  by (simp add: note_classes_eval)

lemma classes_13: "note_classes ''c,eb,g,b'' = [0, 3, 7, 11]"
  by (simp add: note_classes_eval)

lemma classes_14: "note_classes ''c,d,eb,b'' = [0, 2, 3, 11]"
  by (simp add: note_classes_eval)

lemma classes_15: "note_classes ''c,eb,f#'' = [0, 3, 6]"
  by (simp add: note_classes_eval)

lemma classes_16: "note_classes ''c,eb,f#,a'' = [0, 3, 6, 9]"
  by (simp add: note_classes_eval)

lemma classes_17: "note_classes ''c,e,g,bb'' = [0, 4, 7, 10]"
  by (simp add: note_classes_eval)

lemma classes_18: "note_classes ''c,e,bb'' = [0, 4, 10]"
  by (simp add: note_classes_eval)

lemma classes_19: "note_classes ''c,f,g,bb'' = [0, 5, 7, 10]"
  by (simp add: note_classes_eval)

lemma classes_20: "note_classes ''c,e,f#,bb'' = [0, 4, 6, 10]"
  by (simp add: note_classes_eval)

lemma classes_21: "note_classes ''c,d,e,bb'' = [0, 2, 4, 10]"
  by (simp add: note_classes_eval)

lemma classes_22: "note_classes ''c,e,a,bb'' = [0, 4, 9, 10]"
  by (simp add: note_classes_eval)

lemma classes_23: "note_classes ''c,c#,e,bb'' = [0, 1, 4, 10]"
  by (simp add: note_classes_eval)

lemma classes_24: "note_classes ''c,e,g#,bb'' = [0, 4, 8, 10]"
  by (simp add: note_classes_eval)

lemma classes_25: "note_classes ''c,eb,e,bb'' = [0, 3, 4, 10]"
  by (simp add: note_classes_eval)

lemma classes_26: "note_classes ''c,f,g'' = [0, 5, 7]"
  by (simp add: note_classes_eval)

lemma classes_27: "note_classes ''c,e,g,a,d'' = [0, 4, 7, 9, 2]"
  by (simp add: note_classes_eval)

lemma classes_28: "note_classes ''c,e,g,b,d'' = [0, 4, 7, 11, 2]"
  by (simp add: note_classes_eval)

lemma classes_29: "note_classes ''c,e,g,bb,d'' = [0, 4, 7, 10, 2]"
  by (simp add: note_classes_eval)

lemma classes_30: "note_classes ''c,e,g,bb,d,a'' = [0, 4, 7, 10, 2, 9]"
  by (simp add: note_classes_eval)

lemma classes_31: "note_classes ''c,e,g,bb,d,f,a'' = [0, 4, 7, 10, 2, 5, 9]"
  by (simp add: note_classes_eval)

lemma classes_32: "note_classes ''c,e,bb,d,a'' = [0, 4, 10, 2, 9]"
  by (simp add: note_classes_eval)

lemma classes_33: "note_classes ''c,eb,g,a'' = [0, 3, 7, 9]"
  by (simp add: note_classes_eval)

lemma classes_34: "note_classes ''c,eb,g,a,d'' = [0, 3, 7, 9, 2]"
  by (simp add: note_classes_eval)

lemma classes_35: "note_classes ''c,eb,a,d'' = [0, 3, 9, 2]"
  by (simp add: note_classes_eval)

lemma classes_36: "note_classes ''c,eb,g,a,bb'' = [0, 3, 7, 9, 10]"
  by (simp add: note_classes_eval)

lemma classes_37: "note_classes ''c,eb,g,bb,d'' = [0, 3, 7, 10, 2]"
  by (simp add: note_classes_eval)

lemma classes_38: "note_classes ''c,eb,g,bb,d,f'' = [0, 3, 7, 10, 2, 5]"
  by (simp add: note_classes_eval)

lemma classes_39: "note_classes ''c,eb,bb,d,f'' = [0, 3, 10, 2, 5]"
  by (simp add: note_classes_eval)

lemma classes_40: "note_classes ''c,eb,g,bb,d,f,a'' = [0, 3, 7, 10, 2, 5, 9]"
  by (simp add: note_classes_eval)

lemma classes_41: "note_classes ''c,eb,g,b,d'' = [0, 3, 7, 11, 2]"
  by (simp add: note_classes_eval)

lemma classes_42: "note_classes ''c,eb,gb,bb,d'' = [0, 3, 6, 10, 2]"
  by (simp add: note_classes_eval)

lemma classes_43: "note_classes ''c,eb,gb,bb,d,f'' = [0, 3, 6, 10, 2, 5]"
  by (simp add: note_classes_eval)

lemma classes_44: "note_classes ''c,e,g#,b'' = [0, 4, 8, 11]"
  by (simp add: note_classes_eval)

lemma classes_45: "note_classes ''c,e,g,b,f#'' = [0, 4, 7, 11, 6]"
  by (simp add: note_classes_eval)

lemma classes_46: "note_classes ''c,e,g,b,d,f#'' = [0, 4, 7, 11, 2, 6]"
  by (simp add: note_classes_eval)

lemma classes_47: "note_classes ''c,e,g,bb,db'' = [0, 4, 7, 10, 1]"
  by (simp add: note_classes_eval)

lemma classes_48: "note_classes ''c,e,g,bb,d#'' = [0, 4, 7, 10, 3]"
  by (simp add: note_classes_eval)

lemma classes_49: "note_classes ''c,e,g#,bb,d#'' = [0, 4, 8, 10, 3]"
  by (simp add: note_classes_eval)

lemma classes_50: "note_classes ''c,e,g,bb,f#'' = [0, 4, 7, 10, 6]"
  by (simp add: note_classes_eval)

lemma classes_51: "note_classes ''c,e,g,bb,d,f#'' = [0, 4, 7, 10, 2, 6]"
  by (simp add: note_classes_eval)

lemma classes_52: "note_classes ''c,e,g,bb,db,f#'' = [0, 4, 7, 10, 1, 6]"
  by (simp add: note_classes_eval)

lemma classes_53: "note_classes ''c,e,gb,bb,d,a'' = [0, 4, 6, 10, 2, 9]"
  by (simp add: note_classes_eval)

lemma classes_54: "note_classes ''c,e,gb,bb,d,f,a'' = [0, 4, 6, 10, 2, 5, 9]"
  by (simp add: note_classes_eval)

lemma classes_55: "note_classes ''c,e,g,bb,db,a'' = [0, 4, 7, 10, 1, 9]"
  by (simp add: note_classes_eval)

lemma classes_56: "note_classes ''c,e,g,bb,db,f,a'' = [0, 4, 7, 10, 1, 5, 9]"
  by (simp add: note_classes_eval)

lemma classes_57: "note_classes ''c,e,g,bb,d,f#,a'' = [0, 4, 7, 10, 2, 6, 9]"
  by (simp add: note_classes_eval)

lemma classes_58: "note_classes ''c,g,bb'' = [0, 7, 10]"
  by (simp add: note_classes_eval)

lemma classes_59: "note_classes ''c,e,b'' = [0, 4, 11]"
  by (simp add: note_classes_eval)

lemma define_0: "defineChord '''' ''c,e,g'' db = Inr (db @ [\<lparr>name = '''', pattern = ''4,3'', rootIndex = 0\<rparr>])"
  by (simp add: defineChord_classes classes_0 stack_0_4_7 formula_eval)

lemma define_1: "defineChord ''5'' ''c,g'' db = Inr (db @ [\<lparr>name = ''5'', pattern = ''5'', rootIndex = 1\<rparr>])"
  by (simp add: defineChord_classes classes_1 stack_0_7 formula_eval)

lemma define_2: "defineChord ''6(no3)'' ''c,g,a'' db = Inr (db @ [\<lparr>name = ''6(no3)'', pattern = ''2,3'', rootIndex = 2\<rparr>])"
  by (simp add: defineChord_classes classes_2 stack_0_7_9 formula_eval)

lemma define_3: "defineChord ''Maj7'' ''c,e,g,b'' db = Inr (db @ [\<lparr>name = ''Maj7'', pattern = ''1,4,3'', rootIndex = 1\<rparr>])"
  by (simp add: defineChord_classes classes_3 stack_0_4_7_11 formula_eval)

lemma define_4: "defineChord ''Maj7(#11)'' ''c,e,f#,b'' db = Inr (db @ [\<lparr>name = ''Maj7(#11)'', pattern = ''1,4,2'', rootIndex = 1\<rparr>])"
  by (simp add: defineChord_classes classes_4 stack_0_4_6_11 formula_eval)

lemma define_5: "defineChord ''add9'' ''c,e,g,d'' db = Inr (db @ [\<lparr>name = ''add9'', pattern = ''2,2,3'', rootIndex = 0\<rparr>])"
  by (simp add: defineChord_classes classes_5 stack_0_4_7_2 formula_eval)

lemma define_6: "defineChord ''Maj7(9)'' ''c,d,e,b'' db = Inr (db @ [\<lparr>name = ''Maj7(9)'', pattern = ''1,2,2'', rootIndex = 1\<rparr>])"
  by (simp add: defineChord_classes classes_6 stack_0_2_4_11 formula_eval)

lemma define_7: "defineChord ''6(9)'' ''c,d,e,a'' db = Inr (db @ [\<lparr>name = ''6(9)'', pattern = ''3,2,2'', rootIndex = 1\<rparr>])"
  by (simp add: defineChord_classes classes_7 stack_0_2_4_9 formula_eval)

lemma define_8: "defineChord ''+'' ''c,e,g#'' db = Inr (db @ [\<lparr>name = ''+'', pattern = ''4,4'', rootIndex = 0\<rparr>])"
  by (simp add: defineChord_classes classes_8 stack_0_4_8 formula_eval)

lemma define_9: "defineChord ''m'' ''c,eb,g'' db = Inr (db @ [\<lparr>name = ''m'', pattern = ''3,4'', rootIndex = 0\<rparr>])"
  by (simp add: defineChord_classes classes_9 stack_0_3_7 formula_eval)

lemma define_10: "defineChord ''madd9'' ''c,eb,g,d'' db = Inr (db @ [\<lparr>name = ''madd9'', pattern = ''2,1,4'', rootIndex = 0\<rparr>])"
  by (simp add: defineChord_classes classes_10 stack_0_3_7_2 formula_eval)

lemma define_11: "defineChord ''m7'' ''c,eb,g,bb'' db = Inr (db @ [\<lparr>name = ''m7'', pattern = ''3,2,3'', rootIndex = 2\<rparr>])"
  by (simp add: defineChord_classes classes_11 stack_0_3_7_10 formula_eval)

lemma define_12: "defineChord ''m7(9)'' ''c,d,eb,bb'' db = Inr (db @ [\<lparr>name = ''m7(9)'', pattern = ''2,2,1'', rootIndex = 1\<rparr>])"
  by (simp add: defineChord_classes classes_12 stack_0_2_3_10 formula_eval)

lemma define_13: "defineChord ''mMaj7'' ''c,eb,g,b'' db = Inr (db @ [\<lparr>name = ''mMaj7'', pattern = ''1,3,4'', rootIndex = 1\<rparr>])"
  by (simp add: defineChord_classes classes_13 stack_0_3_7_11 formula_eval)

lemma define_14: "defineChord ''mMaj7(9)'' ''c,d,eb,b'' db = Inr (db @ [\<lparr>name = ''mMaj7(9)'', pattern = ''1,2,1'', rootIndex = 1\<rparr>])"
  by (simp add: defineChord_classes classes_14 stack_0_2_3_11 formula_eval)

lemma define_15: "defineChord ''dim'' ''c,eb,f#'' db = Inr (db @ [\<lparr>name = ''dim'', pattern = ''3,3'', rootIndex = 0\<rparr>])"
  by (simp add: defineChord_classes classes_15 stack_0_3_6 formula_eval)

lemma define_16: "defineChord ''dim7'' ''c,eb,f#,a'' db = Inr (db @ [\<lparr>name = ''dim7'', pattern = ''3,3,3'', rootIndex = 0\<rparr>])"
  by (simp add: defineChord_classes classes_16 stack_0_3_6_9 formula_eval)

lemma define_17: "defineChord ''7'' ''c,e,g,bb'' db = Inr (db @ [\<lparr>name = ''7'', pattern = ''3,3,2'', rootIndex = 3\<rparr>])"
  by (simp add: defineChord_classes classes_17 stack_0_4_7_10 formula_eval)

lemma define_18: "defineChord ''7(no5)'' ''c,e,bb'' db = Inr (db @ [\<lparr>name = ''7(no5)'', pattern = ''2,4'', rootIndex = 1\<rparr>])"
  by (simp add: defineChord_classes classes_18 stack_0_4_10 formula_eval)

lemma define_19: "defineChord ''7sus4'' ''c,f,g,bb'' db = Inr (db @ [\<lparr>name = ''7sus4'', pattern = ''2,3,2'', rootIndex = 3\<rparr>])"
  by (simp add: defineChord_classes classes_19 stack_0_5_7_10 formula_eval)

lemma define_20: "defineChord ''7(b5)'' ''c,e,f#,bb'' db = Inr (db @ [\<lparr>name = ''7(b5)'', pattern = ''2,4,2'', rootIndex = 3\<rparr>])"
  by (simp add: defineChord_classes classes_20 stack_0_4_6_10 formula_eval)

lemma define_21: "defineChord ''7(9)'' ''c,d,e,bb'' db = Inr (db @ [\<lparr>name = ''7(9)'', pattern = ''2,2,2'', rootIndex = 1\<rparr>])"
  by (simp add: defineChord_classes classes_21 stack_0_2_4_10 formula_eval)

lemma define_22: "defineChord ''7(13)'' ''c,e,a,bb'' db = Inr (db @ [\<lparr>name = ''7(13)'', pattern = ''1,2,4'', rootIndex = 2\<rparr>])"
  by (simp add: defineChord_classes classes_22 stack_0_4_9_10 formula_eval)

lemma define_23: "defineChord ''7(b9)'' ''c,c#,e,bb'' db = Inr (db @ [\<lparr>name = ''7(b9)'', pattern = ''2,1,3'', rootIndex = 1\<rparr>])"
  by (simp add: defineChord_classes classes_23 stack_0_1_4_10 formula_eval)

lemma define_24: "defineChord ''+7'' ''c,e,g#,bb'' db = Inr (db @ [\<lparr>name = ''+7'', pattern = ''2,2,4'', rootIndex = 2\<rparr>])"
  by (simp add: defineChord_classes classes_24 stack_0_4_8_10 formula_eval)

lemma define_25: "defineChord ''7(#9)'' ''c,eb,e,bb'' db = Inr (db @ [\<lparr>name = ''7(#9)'', pattern = ''2,3,1'', rootIndex = 1\<rparr>])"
  by (simp add: defineChord_classes classes_25 stack_0_3_4_10 formula_eval)

lemma define_26: "defineChord ''sus4'' ''c,f,g'' db = Inr (db @ [\<lparr>name = ''sus4'', pattern = ''2,5'', rootIndex = 2\<rparr>])"
  by (simp add: defineChord_classes classes_26 stack_0_5_7 formula_eval)

lemma define_27: "defineChord ''6add9'' ''c,e,g,a,d'' db = Inr (db @ [\<lparr>name = ''6add9'', pattern = ''2,2,3,2'', rootIndex = 0\<rparr>])"
  by (simp add: defineChord_classes classes_27 stack_0_4_7_9_2 formula_eval)

lemma define_28: "defineChord ''Maj9'' ''c,e,g,b,d'' db = Inr (db @ [\<lparr>name = ''Maj9'', pattern = ''1,2,2,3'', rootIndex = 1\<rparr>])"
  by (simp add: defineChord_classes classes_28 stack_0_4_7_11_2 formula_eval)

lemma define_29: "defineChord ''9'' ''c,e,g,bb,d'' db = Inr (db @ [\<lparr>name = ''9'', pattern = ''2,2,2,3'', rootIndex = 1\<rparr>])"
  by (simp add: defineChord_classes classes_29 stack_0_4_7_10_2 formula_eval)

lemma define_30: "defineChord ''13'' ''c,e,g,bb,d,a'' db = Inr (db @ [\<lparr>name = ''13'', pattern = ''2,1,2,2,2'', rootIndex = 3\<rparr>])"
  by (simp add: defineChord_classes classes_30 stack_0_4_7_10_2_9 formula_eval)

lemma define_31: "defineChord ''13'' ''c,e,g,bb,d,f,a'' db = Inr (db @ [\<lparr>name = ''13'', pattern = ''1,2,2,1,2,2'', rootIndex = 5\<rparr>])"
  by (simp add: defineChord_classes classes_31 stack_0_4_7_10_2_5_9 formula_eval)

lemma define_32: "defineChord ''13'' ''c,e,bb,d,a'' db = Inr (db @ [\<lparr>name = ''13'', pattern = ''1,2,2,2'', rootIndex = 2\<rparr>])"
  by (simp add: defineChord_classes classes_32 stack_0_4_10_2_9 formula_eval)

lemma define_33: "defineChord ''m6'' ''c,eb,g,a'' db = Inr (db @ [\<lparr>name = ''m6'', pattern = ''2,3,3'', rootIndex = 2\<rparr>])"
  by (simp add: defineChord_classes classes_33 stack_0_3_7_9 formula_eval)

lemma define_34: "defineChord ''m6add9'' ''c,eb,g,a,d'' db = Inr (db @ [\<lparr>name = ''m6add9'', pattern = ''2,3,2,1'', rootIndex = 2\<rparr>])"
  by (simp add: defineChord_classes classes_34 stack_0_3_7_9_2 formula_eval)

lemma define_35: "defineChord ''m6/9'' ''c,eb,a,d'' db = Inr (db @ [\<lparr>name = ''m6/9'', pattern = ''3,2,1'', rootIndex = 1\<rparr>])"
  by (simp add: defineChord_classes classes_35 stack_0_3_9_2 formula_eval)

lemma define_36: "defineChord ''m7add13'' ''c,eb,g,a,bb'' db = Inr (db @ [\<lparr>name = ''m7add13'', pattern = ''2,1,2,3'', rootIndex = 3\<rparr>])"
  by (simp add: defineChord_classes classes_36 stack_0_3_7_9_10 formula_eval)

lemma define_37: "defineChord ''m9'' ''c,eb,g,bb,d'' db = Inr (db @ [\<lparr>name = ''m9'', pattern = ''3,2,2,1'', rootIndex = 2\<rparr>])"
  by (simp add: defineChord_classes classes_37 stack_0_3_7_10_2 formula_eval)

lemma define_38: "defineChord ''m11'' ''c,eb,g,bb,d,f'' db = Inr (db @ [\<lparr>name = ''m11'', pattern = ''2,2,1,2,2'', rootIndex = 1\<rparr>])"
  by (simp add: defineChord_classes classes_38 stack_0_3_7_10_2_5 formula_eval)

lemma define_39: "defineChord ''m11'' ''c,eb,bb,d,f'' db = Inr (db @ [\<lparr>name = ''m11'', pattern = ''2,2,1,2'', rootIndex = 1\<rparr>])"
  by (simp add: defineChord_classes classes_39 stack_0_3_10_2_5 formula_eval)

lemma define_40: "defineChord ''m13'' ''c,eb,g,bb,d,f,a'' db = Inr (db @ [\<lparr>name = ''m13'', pattern = ''1,2,2,1,2,2'', rootIndex = 2\<rparr>])"
  by (simp add: defineChord_classes classes_40 stack_0_3_7_10_2_5_9 formula_eval)

lemma define_41: "defineChord ''m9/Maj7'' ''c,eb,g,b,d'' db = Inr (db @ [\<lparr>name = ''m9/Maj7'', pattern = ''1,2,1,4'', rootIndex = 1\<rparr>])"
  by (simp add: defineChord_classes classes_41 stack_0_3_7_11_2 formula_eval)

lemma define_42: "defineChord ''m9(b5)'' ''c,eb,gb,bb,d'' db = Inr (db @ [\<lparr>name = ''m9(b5)'', pattern = ''2,2,1,3'', rootIndex = 1\<rparr>])"
  by (simp add: defineChord_classes classes_42 stack_0_3_6_10_2 formula_eval)

lemma define_43: "defineChord ''m11(b5)'' ''c,eb,gb,bb,d,f'' db = Inr (db @ [\<lparr>name = ''m11(b5)'', pattern = ''2,2,1,2,1'', rootIndex = 1\<rparr>])"
  by (simp add: defineChord_classes classes_43 stack_0_3_6_10_2_5 formula_eval)

lemma define_44: "defineChord ''Maj7(#5)'' ''c,e,g#,b'' db = Inr (db @ [\<lparr>name = ''Maj7(#5)'', pattern = ''3,1,4'', rootIndex = 2\<rparr>])"
  by (simp add: defineChord_classes classes_44 stack_0_4_8_11 formula_eval)

lemma define_45: "defineChord ''Maj7(#11)'' ''c,e,g,b,f#'' db = Inr (db @ [\<lparr>name = ''Maj7(#11)'', pattern = ''1,4,2,1'', rootIndex = 1\<rparr>])"
  by (simp add: defineChord_classes classes_45 stack_0_4_7_11_6 formula_eval)

lemma define_46: "defineChord ''Maj9(#11)'' ''c,e,g,b,d,f#'' db = Inr (db @ [\<lparr>name = ''Maj9(#11)'', pattern = ''1,2,2,2,1'', rootIndex = 1\<rparr>])"
  by (simp add: defineChord_classes classes_46 stack_0_4_7_11_2_6 formula_eval)

lemma define_47: "defineChord ''7(b9)'' ''c,e,g,bb,db'' db = Inr (db @ [\<lparr>name = ''7(b9)'', pattern = ''2,1,3,3'', rootIndex = 1\<rparr>])"
  by (simp add: defineChord_classes classes_47 stack_0_4_7_10_1 formula_eval)

lemma define_48: "defineChord ''7(#9)'' ''c,e,g,bb,d#'' db = Inr (db @ [\<lparr>name = ''7(#9)'', pattern = ''1,3,3,2'', rootIndex = 4\<rparr>])"
  by (simp add: defineChord_classes classes_48 stack_0_4_7_10_3 formula_eval)

lemma define_49: "defineChord ''7(#5)(#9)'' ''c,e,g#,bb,d#'' db = Inr (db @ [\<lparr>name = ''7(#5)(#9)'', pattern = ''2,2,3,1'', rootIndex = 2\<rparr>])"
  by (simp add: defineChord_classes classes_49 stack_0_4_8_10_3 formula_eval)

lemma define_50: "defineChord ''7(#11)'' ''c,e,g,bb,f#'' db = Inr (db @ [\<lparr>name = ''7(#11)'', pattern = ''2,1,3,2'', rootIndex = 4\<rparr>])"
  by (simp add: defineChord_classes classes_50 stack_0_4_7_10_6 formula_eval)

lemma define_51: "defineChord ''9(#11)'' ''c,e,g,bb,d,f#'' db = Inr (db @ [\<lparr>name = ''9(#11)'', pattern = ''2,2,2,2,1'', rootIndex = 1\<rparr>])"
  by (simp add: defineChord_classes classes_51 stack_0_4_7_10_2_6 formula_eval)

lemma define_52: "defineChord ''7(b9)(#11)'' ''c,e,g,bb,db,f#'' db = Inr (db @ [\<lparr>name = ''7(b9)(#11)'', pattern = ''2,1,3,2,1'', rootIndex = 1\<rparr>])"
  by (simp add: defineChord_classes classes_52 stack_0_4_7_10_1_6 formula_eval)

lemma define_53: "defineChord ''13b5'' ''c,e,gb,bb,d,a'' db = Inr (db @ [\<lparr>name = ''13b5'', pattern = ''1,2,2,2,2'', rootIndex = 2\<rparr>])"
  by (simp add: defineChord_classes classes_53 stack_0_4_6_10_2_9 formula_eval)

lemma define_54: "defineChord ''13b5'' ''c,e,gb,bb,d,f,a'' db = Inr (db @ [\<lparr>name = ''13b5'', pattern = ''1,2,2,2,1,1'', rootIndex = 2\<rparr>])"
  by (simp add: defineChord_classes classes_54 stack_0_4_6_10_2_5_9 formula_eval)

lemma define_55: "defineChord ''13b9'' ''c,e,g,bb,db,a'' db = Inr (db @ [\<lparr>name = ''13b9'', pattern = ''2,1,2,1,3'', rootIndex = 3\<rparr>])"
  by (simp add: defineChord_classes classes_55 stack_0_4_7_10_1_9 formula_eval)

lemma define_56: "defineChord ''13b9'' ''c,e,g,bb,db,f,a'' db = Inr (db @ [\<lparr>name = ''13b9'', pattern = ''1,2,2,1,2,1'', rootIndex = 5\<rparr>])"
  by (simp add: defineChord_classes classes_56 stack_0_4_7_10_1_5_9 formula_eval)

lemma define_57: "defineChord ''13#11'' ''c,e,g,bb,d,f#,a'' db = Inr (db @ [\<lparr>name = ''13#11'', pattern = ''1,2,1,2,2,2'', rootIndex = 4\<rparr>])"
  by (simp add: defineChord_classes classes_57 stack_0_4_7_10_2_6_9 formula_eval)

lemma define_58: "defineChord ''7(no3)'' ''c,g,bb'' db = Inr (db @ [\<lparr>name = ''7(no3)'', pattern = ''3,2'', rootIndex = 2\<rparr>])"
  by (simp add: defineChord_classes classes_58 stack_0_7_10 formula_eval)

lemma define_59: "defineChord ''Maj7(no5)'' ''c,e,b'' db = Inr (db @ [\<lparr>name = ''Maj7(no5)'', pattern = ''1,4'', rootIndex = 1\<rparr>])"
  by (simp add: defineChord_classes classes_59 stack_0_4_11 formula_eval)

lemma formulas_value: "CHORD_FORMULAS = Inr formula_table"
  by (simp add: CHORD_FORMULAS_def chord_definitions_def formula_table_def
      define_0 define_1 define_2 define_3 define_4 define_5 define_6 define_7 define_8 define_9 define_10 define_11 define_12 define_13 define_14 define_15 define_16 define_17 define_18 define_19 define_20 define_21 define_22 define_23 define_24 define_25 define_26 define_27 define_28 define_29 define_30 define_31 define_32 define_33 define_34 define_35 define_36 define_37 define_38 define_39 define_40 define_41 define_42 define_43 define_44 define_45 define_46 define_47 define_48 define_49 define_50 define_51 define_52 define_53 define_54 define_55 define_56 define_57 define_58 define_59)

subsection \<open>Detection\<close>

lemma detect_match:
  assumes "CHORD_FORMULAS = Inr db"
    and "3 \<le> length notes"
    and "length (new_Set (map (\<lambda>n. js_rem n 12) (sort (map noteToMidi notes)))) < 9"
    and "getAsStackedChord (new_Set (map (\<lambda>n. js_rem n 12) (sort (map noteToMidi notes)))) = Inr stackedChord"
    and "find (\<lambda>formula. pattern formula = join_pattern (getIntervalPattern stackedChord)) db = Some formula"
  shows "detectChord notes useFlats =
           Inr (Some (compose_name formula stackedChord (hd (sort (map noteToMidi notes)))
                        (case useFlats of None \<Rightarrow> True | Some b \<Rightarrow> \<not> b)))"
proof -
  from assms(2) have nn: "notes \<noteq> []" by auto
  with assms(2) have l: "length notes \<noteq> 1" "length notes \<noteq> 2" by simp_all
  from assms(3) have few: "\<not> 9 \<le> length (new_Set (map (\<lambda>n. js_rem n 12) (sort (map noteToMidi notes))))"
    by simp
  show ?thesis
    using nn l few by (simp add: detectChord_def assms(1) assms(4) assms(5) Let_def)
qed

lemma detect_fallback:
  assumes "CHORD_FORMULAS = Inr db"
    and "3 \<le> length notes"
    and "length (new_Set (map (\<lambda>n. js_rem n 12) (sort (map noteToMidi notes)))) < 9"
    and "getAsStackedChord (new_Set (map (\<lambda>n. js_rem n 12) (sort (map noteToMidi notes)))) = Inr stackedChord"
    and "find (\<lambda>formula. pattern formula = join_pattern (getIntervalPattern stackedChord)) db = None"
  shows "detectChord notes useFlats =
           Inr (Some (fallback_name (new_Set (map (\<lambda>n. js_rem n 12) (sort (map noteToMidi notes))))
                        (case useFlats of None \<Rightarrow> True | Some b \<Rightarrow> \<not> b)))"
proof -
  from assms(2) have nn: "notes \<noteq> []" by auto
  with assms(2) have l: "length notes \<noteq> 1" "length notes \<noteq> 2" by simp_all
  from assms(3) have few: "\<not> 9 \<le> length (new_Set (map (\<lambda>n. js_rem n 12) (sort (map noteToMidi notes))))"
    by simp
  show ?thesis
    using nn l few by (simp add: detectChord_def assms(1) assms(4) assms(5) Let_def)
qed

lemma detect_eval:
  assumes "sort (map noteToMidi notes) = midi"
    and "3 \<le> length notes"
    and "new_Set (map (\<lambda>n. js_rem n 12) midi) = pcs"
    and "length pcs < 9"
    and "getAsStackedChord pcs = Inr st"
    and "join_pattern (getIntervalPattern st) = key"
    and "find (\<lambda>formula. pattern formula = key) formula_table = Some f"
    and "compose_name f st (hd midi) (case useFlats of None \<Rightarrow> True | Some b \<Rightarrow> \<not> b) = result"
  shows "detectChord notes useFlats = Inr (Some result)"
  using detect_match [OF formulas_value, of "notes" st f useFlats] assms by simp

lemmas noteToMidi_eval = noteToMidi_def note_match_def is_letter_def is_digit_def parseInt_def
  SHARP_NOTES_def

lemmas name_eval = compose_name_def name_or_undefined_def midiToNoteName_def array_get_def
  js_rem_def SHARP_NOTES_def FLAT_NOTES_def Let_def

lemmas detect_rules = noteToMidi_eval new_Set_def formula_eval formula_table_def name_eval

subsection \<open>Round trips of the definitions\<close>

lemma notes_0: "definition_notes ''c,e,g'' = [''C4'', ''E4'', ''G4'']"
  by (simp add: definition_notes_def classes_0 SHARP_NOTES_def)

lemma roundtrip_0: "detectChord (definition_notes ''c,e,g'') None = Inr (Some ''C'')"
  by (rule detect_eval [where midi = "[60, 64, 67]" and pcs = "[0, 4, 7]" and st = "[0, 4, 7]"
        and key = "''4,3''" and f = "\<lparr>name = '''', pattern = ''4,3'', rootIndex = 0\<rparr>"])
     (simp_all add: notes_0 stack_0_4_7 detect_rules)

lemma notes_2: "definition_notes ''c,g,a'' = [''C4'', ''G4'', ''A4'']"
  by (simp add: definition_notes_def classes_2 SHARP_NOTES_def)

lemma roundtrip_2: "detectChord (definition_notes ''c,g,a'') None = Inr (Some ''C6(no3)'')"
  by (rule detect_eval [where midi = "[60, 67, 69]" and pcs = "[0, 7, 9]" and st = "[7, 9, 0]"
        and key = "''2,3''" and f = "\<lparr>name = ''6(no3)'', pattern = ''2,3'', rootIndex = 2\<rparr>"])
     (simp_all add: notes_2 stack_0_7_9 detect_rules)

lemma notes_3: "definition_notes ''c,e,g,b'' = [''C4'', ''E4'', ''G4'', ''B4'']"
  by (simp add: definition_notes_def classes_3 SHARP_NOTES_def)

lemma roundtrip_3: "detectChord (definition_notes ''c,e,g,b'') None = Inr (Some ''CMaj7'')"
  by (rule detect_eval [where midi = "[60, 64, 67, 71]" and pcs = "[0, 4, 7, 11]" and st = "[11, 0, 4, 7]"
        and key = "''1,4,3''" and f = "\<lparr>name = ''Maj7'', pattern = ''1,4,3'', rootIndex = 1\<rparr>"])
     (simp_all add: notes_3 stack_0_4_7_11 detect_rules)

lemma notes_4: "definition_notes ''c,e,f#,b'' = [''C4'', ''E4'', ''F#4'', ''B4'']"
  by (simp add: definition_notes_def classes_4 SHARP_NOTES_def)

lemma roundtrip_4: "detectChord (definition_notes ''c,e,f#,b'') None = Inr (Some ''CMaj7(#11)'')"
  by (rule detect_eval [where midi = "[60, 64, 66, 71]" and pcs = "[0, 4, 6, 11]" and st = "[11, 0, 4, 6]"
        and key = "''1,4,2''" and f = "\<lparr>name = ''Maj7(#11)'', pattern = ''1,4,2'', rootIndex = 1\<rparr>"])
     (simp_all add: notes_4 stack_0_4_6_11 detect_rules)

lemma notes_5: "definition_notes ''c,e,g,d'' = [''C4'', ''E4'', ''G4'', ''D4'']"
  by (simp add: definition_notes_def classes_5 SHARP_NOTES_def)

lemma roundtrip_5: "detectChord (definition_notes ''c,e,g,d'') None = Inr (Some ''Cadd9'')"
  by (rule detect_eval [where midi = "[60, 62, 64, 67]" and pcs = "[0, 2, 4, 7]" and st = "[0, 2, 4, 7]"
        and key = "''2,2,3''" and f = "\<lparr>name = ''add9'', pattern = ''2,2,3'', rootIndex = 0\<rparr>"])
     (simp_all add: notes_5 stack_0_2_4_7 detect_rules)

lemma notes_6: "definition_notes ''c,d,e,b'' = [''C4'', ''D4'', ''E4'', ''B4'']"
  by (simp add: definition_notes_def classes_6 SHARP_NOTES_def)

lemma roundtrip_6: "detectChord (definition_notes ''c,d,e,b'') None = Inr (Some ''CMaj7(9)'')"
  by (rule detect_eval [where midi = "[60, 62, 64, 71]" and pcs = "[0, 2, 4, 11]" and st = "[11, 0, 2, 4]"
        and key = "''1,2,2''" and f = "\<lparr>name = ''Maj7(9)'', pattern = ''1,2,2'', rootIndex = 1\<rparr>"])
     (simp_all add: notes_6 stack_0_2_4_11 detect_rules)

lemma notes_7: "definition_notes ''c,d,e,a'' = [''C4'', ''D4'', ''E4'', ''A4'']"
  by (simp add: definition_notes_def classes_7 SHARP_NOTES_def)

lemma roundtrip_7: "detectChord (definition_notes ''c,d,e,a'') None = Inr (Some ''C6(9)'')"
  by (rule detect_eval [where midi = "[60, 62, 64, 69]" and pcs = "[0, 2, 4, 9]" and st = "[9, 0, 2, 4]"
        and key = "''3,2,2''" and f = "\<lparr>name = ''6(9)'', pattern = ''3,2,2'', rootIndex = 1\<rparr>"])
     (simp_all add: notes_7 stack_0_2_4_9 detect_rules)

lemma notes_8: "definition_notes ''c,e,g#'' = [''C4'', ''E4'', ''G#4'']"
  by (simp add: definition_notes_def classes_8 SHARP_NOTES_def)

lemma roundtrip_8: "detectChord (definition_notes ''c,e,g#'') None = Inr (Some ''C+'')"
  by (rule detect_eval [where midi = "[60, 64, 68]" and pcs = "[0, 4, 8]" and st = "[0, 4, 8]"
        and key = "''4,4''" and f = "\<lparr>name = ''+'', pattern = ''4,4'', rootIndex = 0\<rparr>"])
     (simp_all add: notes_8 stack_0_4_8 detect_rules)

lemma notes_9: "definition_notes ''c,eb,g'' = [''C4'', ''D#4'', ''G4'']"
  by (simp add: definition_notes_def classes_9 SHARP_NOTES_def)

lemma roundtrip_9: "detectChord (definition_notes ''c,eb,g'') None = Inr (Some ''Cm'')"
  by (rule detect_eval [where midi = "[60, 63, 67]" and pcs = "[0, 3, 7]" and st = "[0, 3, 7]"
        and key = "''3,4''" and f = "\<lparr>name = ''m'', pattern = ''3,4'', rootIndex = 0\<rparr>"])
     (simp_all add: notes_9 stack_0_3_7 detect_rules)

lemma notes_10: "definition_notes ''c,eb,g,d'' = [''C4'', ''D#4'', ''G4'', ''D4'']"
  by (simp add: definition_notes_def classes_10 SHARP_NOTES_def)

lemma roundtrip_10: "detectChord (definition_notes ''c,eb,g,d'') None = Inr (Some ''Cmadd9'')"
  by (rule detect_eval [where midi = "[60, 62, 63, 67]" and pcs = "[0, 2, 3, 7]" and st = "[0, 2, 3, 7]"
        and key = "''2,1,4''" and f = "\<lparr>name = ''madd9'', pattern = ''2,1,4'', rootIndex = 0\<rparr>"])
     (simp_all add: notes_10 stack_0_2_3_7 detect_rules)

lemma notes_11: "definition_notes ''c,eb,g,bb'' = [''C4'', ''D#4'', ''G4'', ''A#4'']"
  by (simp add: definition_notes_def classes_11 SHARP_NOTES_def)

lemma roundtrip_11: "detectChord (definition_notes ''c,eb,g,bb'') None = Inr (Some ''Cm7'')"
  by (rule detect_eval [where midi = "[60, 63, 67, 70]" and pcs = "[0, 3, 7, 10]" and st = "[7, 10, 0, 3]"
        and key = "''3,2,3''" and f = "\<lparr>name = ''m7'', pattern = ''3,2,3'', rootIndex = 2\<rparr>"])
     (simp_all add: notes_11 stack_0_3_7_10 detect_rules)

lemma notes_12: "definition_notes ''c,d,eb,bb'' = [''C4'', ''D4'', ''D#4'', ''A#4'']"
  by (simp add: definition_notes_def classes_12 SHARP_NOTES_def)

lemma roundtrip_12: "detectChord (definition_notes ''c,d,eb,bb'') None = Inr (Some ''Cm7(9)'')"
  by (rule detect_eval [where midi = "[60, 62, 63, 70]" and pcs = "[0, 2, 3, 10]" and st = "[10, 0, 2, 3]"
        and key = "''2,2,1''" and f = "\<lparr>name = ''m7(9)'', pattern = ''2,2,1'', rootIndex = 1\<rparr>"])
     (simp_all add: notes_12 stack_0_2_3_10 detect_rules)

lemma notes_13: "definition_notes ''c,eb,g,b'' = [''C4'', ''D#4'', ''G4'', ''B4'']"
  by (simp add: definition_notes_def classes_13 SHARP_NOTES_def)

lemma roundtrip_13: "detectChord (definition_notes ''c,eb,g,b'') None = Inr (Some ''CmMaj7'')"
  by (rule detect_eval [where midi = "[60, 63, 67, 71]" and pcs = "[0, 3, 7, 11]" and st = "[11, 0, 3, 7]"
        and key = "''1,3,4''" and f = "\<lparr>name = ''mMaj7'', pattern = ''1,3,4'', rootIndex = 1\<rparr>"])
     (simp_all add: notes_13 stack_0_3_7_11 detect_rules)

lemma notes_14: "definition_notes ''c,d,eb,b'' = [''C4'', ''D4'', ''D#4'', ''B4'']"
  by (simp add: definition_notes_def classes_14 SHARP_NOTES_def)

lemma roundtrip_14: "detectChord (definition_notes ''c,d,eb,b'') None = Inr (Some ''CmMaj7(9)'')"
  by (rule detect_eval [where midi = "[60, 62, 63, 71]" and pcs = "[0, 2, 3, 11]" and st = "[11, 0, 2, 3]"
        and key = "''1,2,1''" and f = "\<lparr>name = ''mMaj7(9)'', pattern = ''1,2,1'', rootIndex = 1\<rparr>"])
     (simp_all add: notes_14 stack_0_2_3_11 detect_rules)

lemma notes_15: "definition_notes ''c,eb,f#'' = [''C4'', ''D#4'', ''F#4'']"
  by (simp add: definition_notes_def classes_15 SHARP_NOTES_def)

lemma roundtrip_15: "detectChord (definition_notes ''c,eb,f#'') None = Inr (Some ''Cdim'')"
  by (rule detect_eval [where midi = "[60, 63, 66]" and pcs = "[0, 3, 6]" and st = "[0, 3, 6]"
        and key = "''3,3''" and f = "\<lparr>name = ''dim'', pattern = ''3,3'', rootIndex = 0\<rparr>"])
     (simp_all add: notes_15 stack_0_3_6 detect_rules)

lemma notes_16: "definition_notes ''c,eb,f#,a'' = [''C4'', ''D#4'', ''F#4'', ''A4'']"
  by (simp add: definition_notes_def classes_16 SHARP_NOTES_def)

lemma roundtrip_16: "detectChord (definition_notes ''c,eb,f#,a'') None = Inr (Some ''Cdim7'')"
  by (rule detect_eval [where midi = "[60, 63, 66, 69]" and pcs = "[0, 3, 6, 9]" and st = "[0, 3, 6, 9]"
        and key = "''3,3,3''" and f = "\<lparr>name = ''dim7'', pattern = ''3,3,3'', rootIndex = 0\<rparr>"])
     (simp_all add: notes_16 stack_0_3_6_9 detect_rules)

lemma notes_17: "definition_notes ''c,e,g,bb'' = [''C4'', ''E4'', ''G4'', ''A#4'']"
  by (simp add: definition_notes_def classes_17 SHARP_NOTES_def)

lemma roundtrip_17: "detectChord (definition_notes ''c,e,g,bb'') None = Inr (Some ''C7'')"
  by (rule detect_eval [where midi = "[60, 64, 67, 70]" and pcs = "[0, 4, 7, 10]" and st = "[4, 7, 10, 0]"
        and key = "''3,3,2''" and f = "\<lparr>name = ''7'', pattern = ''3,3,2'', rootIndex = 3\<rparr>"])
     (simp_all add: notes_17 stack_0_4_7_10 detect_rules)

lemma notes_18: "definition_notes ''c,e,bb'' = [''C4'', ''E4'', ''A#4'']"
  by (simp add: definition_notes_def classes_18 SHARP_NOTES_def)

lemma roundtrip_18: "detectChord (definition_notes ''c,e,bb'') None = Inr (Some ''C7(no5)'')"
  by (rule detect_eval [where midi = "[60, 64, 70]" and pcs = "[0, 4, 10]" and st = "[10, 0, 4]"
        and key = "''2,4''" and f = "\<lparr>name = ''7(no5)'', pattern = ''2,4'', rootIndex = 1\<rparr>"])
     (simp_all add: notes_18 stack_0_4_10 detect_rules)

lemma notes_19: "definition_notes ''c,f,g,bb'' = [''C4'', ''F4'', ''G4'', ''A#4'']"
  by (simp add: definition_notes_def classes_19 SHARP_NOTES_def)

lemma roundtrip_19: "detectChord (definition_notes ''c,f,g,bb'') None = Inr (Some ''C7sus4'')"
  by (rule detect_eval [where midi = "[60, 65, 67, 70]" and pcs = "[0, 5, 7, 10]" and st = "[5, 7, 10, 0]"
        and key = "''2,3,2''" and f = "\<lparr>name = ''7sus4'', pattern = ''2,3,2'', rootIndex = 3\<rparr>"])
     (simp_all add: notes_19 stack_0_5_7_10 detect_rules)

lemma notes_20: "definition_notes ''c,e,f#,bb'' = [''C4'', ''E4'', ''F#4'', ''A#4'']"
  by (simp add: definition_notes_def classes_20 SHARP_NOTES_def)

lemma roundtrip_20: "detectChord (definition_notes ''c,e,f#,bb'') None = Inr (Some ''C7(b5)'')"
  by (rule detect_eval [where midi = "[60, 64, 66, 70]" and pcs = "[0, 4, 6, 10]" and st = "[4, 6, 10, 0]"
        and key = "''2,4,2''" and f = "\<lparr>name = ''7(b5)'', pattern = ''2,4,2'', rootIndex = 3\<rparr>"])
     (simp_all add: notes_20 stack_0_4_6_10 detect_rules)

lemma notes_21: "definition_notes ''c,d,e,bb'' = [''C4'', ''D4'', ''E4'', ''A#4'']"
  by (simp add: definition_notes_def classes_21 SHARP_NOTES_def)

lemma roundtrip_21: "detectChord (definition_notes ''c,d,e,bb'') None = Inr (Some ''C7(9)'')"
  by (rule detect_eval [where midi = "[60, 62, 64, 70]" and pcs = "[0, 2, 4, 10]" and st = "[10, 0, 2, 4]"
        and key = "''2,2,2''" and f = "\<lparr>name = ''7(9)'', pattern = ''2,2,2'', rootIndex = 1\<rparr>"])
     (simp_all add: notes_21 stack_0_2_4_10 detect_rules)

lemma notes_22: "definition_notes ''c,e,a,bb'' = [''C4'', ''E4'', ''A4'', ''A#4'']"
  by (simp add: definition_notes_def classes_22 SHARP_NOTES_def)

lemma roundtrip_22: "detectChord (definition_notes ''c,e,a,bb'') None = Inr (Some ''C7(13)'')"
  by (rule detect_eval [where midi = "[60, 64, 69, 70]" and pcs = "[0, 4, 9, 10]" and st = "[9, 10, 0, 4]"
        and key = "''1,2,4''" and f = "\<lparr>name = ''7(13)'', pattern = ''1,2,4'', rootIndex = 2\<rparr>"])
     (simp_all add: notes_22 stack_0_4_9_10 detect_rules)

lemma notes_23: "definition_notes ''c,c#,e,bb'' = [''C4'', ''C#4'', ''E4'', ''A#4'']"
  by (simp add: definition_notes_def classes_23 SHARP_NOTES_def)

lemma roundtrip_23: "detectChord (definition_notes ''c,c#,e,bb'') None = Inr (Some ''C7(b9)'')"
  by (rule detect_eval [where midi = "[60, 61, 64, 70]" and pcs = "[0, 1, 4, 10]" and st = "[10, 0, 1, 4]"
        and key = "''2,1,3''" and f = "\<lparr>name = ''7(b9)'', pattern = ''2,1,3'', rootIndex = 1\<rparr>"])
     (simp_all add: notes_23 stack_0_1_4_10 detect_rules)

lemma notes_24: "definition_notes ''c,e,g#,bb'' = [''C4'', ''E4'', ''G#4'', ''A#4'']"
  by (simp add: definition_notes_def classes_24 SHARP_NOTES_def)

lemma roundtrip_24: "detectChord (definition_notes ''c,e,g#,bb'') None = Inr (Some ''C+7'')"
  by (rule detect_eval [where midi = "[60, 64, 68, 70]" and pcs = "[0, 4, 8, 10]" and st = "[8, 10, 0, 4]"
        and key = "''2,2,4''" and f = "\<lparr>name = ''+7'', pattern = ''2,2,4'', rootIndex = 2\<rparr>"])
     (simp_all add: notes_24 stack_0_4_8_10 detect_rules)

lemma notes_25: "definition_notes ''c,eb,e,bb'' = [''C4'', ''D#4'', ''E4'', ''A#4'']"
  by (simp add: definition_notes_def classes_25 SHARP_NOTES_def)

lemma roundtrip_25: "detectChord (definition_notes ''c,eb,e,bb'') None = Inr (Some ''C7(#9)'')"
  by (rule detect_eval [where midi = "[60, 63, 64, 70]" and pcs = "[0, 3, 4, 10]" and st = "[10, 0, 3, 4]"
        and key = "''2,3,1''" and f = "\<lparr>name = ''7(#9)'', pattern = ''2,3,1'', rootIndex = 1\<rparr>"])
     (simp_all add: notes_25 stack_0_3_4_10 detect_rules)

lemma notes_26: "definition_notes ''c,f,g'' = [''C4'', ''F4'', ''G4'']"
  by (simp add: definition_notes_def classes_26 SHARP_NOTES_def)

lemma roundtrip_26: "detectChord (definition_notes ''c,f,g'') None = Inr (Some ''Csus4'')"
  by (rule detect_eval [where midi = "[60, 65, 67]" and pcs = "[0, 5, 7]" and st = "[5, 7, 0]"
        and key = "''2,5''" and f = "\<lparr>name = ''sus4'', pattern = ''2,5'', rootIndex = 2\<rparr>"])
     (simp_all add: notes_26 stack_0_5_7 detect_rules)

lemma notes_27: "definition_notes ''c,e,g,a,d'' = [''C4'', ''E4'', ''G4'', ''A4'', ''D4'']"
  by (simp add: definition_notes_def classes_27 SHARP_NOTES_def)

lemma roundtrip_27: "detectChord (definition_notes ''c,e,g,a,d'') None = Inr (Some ''C6add9'')"
  by (rule detect_eval [where midi = "[60, 62, 64, 67, 69]" and pcs = "[0, 2, 4, 7, 9]" and st = "[0, 2, 4, 7, 9]"
        and key = "''2,2,3,2''" and f = "\<lparr>name = ''6add9'', pattern = ''2,2,3,2'', rootIndex = 0\<rparr>"])
     (simp_all add: notes_27 stack_0_2_4_7_9 detect_rules)

lemma notes_28: "definition_notes ''c,e,g,b,d'' = [''C4'', ''E4'', ''G4'', ''B4'', ''D4'']"
  by (simp add: definition_notes_def classes_28 SHARP_NOTES_def)

lemma roundtrip_28: "detectChord (definition_notes ''c,e,g,b,d'') None = Inr (Some ''CMaj9'')"
  by (rule detect_eval [where midi = "[60, 62, 64, 67, 71]" and pcs = "[0, 2, 4, 7, 11]" and st = "[11, 0, 2, 4, 7]"
        and key = "''1,2,2,3''" and f = "\<lparr>name = ''Maj9'', pattern = ''1,2,2,3'', rootIndex = 1\<rparr>"])
     (simp_all add: notes_28 stack_0_2_4_7_11 detect_rules)

lemma notes_29: "definition_notes ''c,e,g,bb,d'' = [''C4'', ''E4'', ''G4'', ''A#4'', ''D4'']"
  by (simp add: definition_notes_def classes_29 SHARP_NOTES_def)

lemma roundtrip_29: "detectChord (definition_notes ''c,e,g,bb,d'') None = Inr (Some ''C9'')"
  by (rule detect_eval [where midi = "[60, 62, 64, 67, 70]" and pcs = "[0, 2, 4, 7, 10]" and st = "[10, 0, 2, 4, 7]"
        and key = "''2,2,2,3''" and f = "\<lparr>name = ''9'', pattern = ''2,2,2,3'', rootIndex = 1\<rparr>"])
     (simp_all add: notes_29 stack_0_2_4_7_10 detect_rules)

lemma notes_30: "definition_notes ''c,e,g,bb,d,a'' = [''C4'', ''E4'', ''G4'', ''A#4'', ''D4'', ''A4'']"
  by (simp add: definition_notes_def classes_30 SHARP_NOTES_def)

lemma roundtrip_30: "detectChord (definition_notes ''c,e,g,bb,d,a'') None = Inr (Some ''C13'')"
  by (rule detect_eval [where midi = "[60, 62, 64, 67, 69, 70]" and pcs = "[0, 2, 4, 7, 9, 10]" and st = "[7, 9, 10, 0, 2, 4]"
        and key = "''2,1,2,2,2''" and f = "\<lparr>name = ''13'', pattern = ''2,1,2,2,2'', rootIndex = 3\<rparr>"])
     (simp_all add: notes_30 stack_0_2_4_7_9_10 detect_rules)

lemma notes_31: "definition_notes ''c,e,g,bb,d,f,a'' = [''C4'', ''E4'', ''G4'', ''A#4'', ''D4'', ''F4'', ''A4'']"
  by (simp add: definition_notes_def classes_31 SHARP_NOTES_def)

lemma roundtrip_31: "detectChord (definition_notes ''c,e,g,bb,d,f,a'') None = Inr (Some ''C13'')"
  by (rule detect_eval [where midi = "[60, 62, 64, 65, 67, 69, 70]" and pcs = "[0, 2, 4, 5, 7, 9, 10]" and st = "[4, 5, 7, 9, 10, 0, 2]"
        and key = "''1,2,2,1,2,2''" and f = "\<lparr>name = ''13'', pattern = ''1,2,2,1,2,2'', rootIndex = 5\<rparr>"])
     (simp_all add: notes_31 stack_0_2_4_5_7_9_10 detect_rules)

lemma notes_32: "definition_notes ''c,e,bb,d,a'' = [''C4'', ''E4'', ''A#4'', ''D4'', ''A4'']"
  by (simp add: definition_notes_def classes_32 SHARP_NOTES_def)

lemma roundtrip_32: "detectChord (definition_notes ''c,e,bb,d,a'') None = Inr (Some ''C13'')"
  by (rule detect_eval [where midi = "[60, 62, 64, 69, 70]" and pcs = "[0, 2, 4, 9, 10]" and st = "[9, 10, 0, 2, 4]"
        and key = "''1,2,2,2''" and f = "\<lparr>name = ''13'', pattern = ''1,2,2,2'', rootIndex = 2\<rparr>"])
     (simp_all add: notes_32 stack_0_2_4_9_10 detect_rules)

lemma notes_33: "definition_notes ''c,eb,g,a'' = [''C4'', ''D#4'', ''G4'', ''A4'']"
  by (simp add: definition_notes_def classes_33 SHARP_NOTES_def)

lemma roundtrip_33: "detectChord (definition_notes ''c,eb,g,a'') None = Inr (Some ''Cm6'')"
  by (rule detect_eval [where midi = "[60, 63, 67, 69]" and pcs = "[0, 3, 7, 9]" and st = "[7, 9, 0, 3]"
        and key = "''2,3,3''" and f = "\<lparr>name = ''m6'', pattern = ''2,3,3'', rootIndex = 2\<rparr>"])
     (simp_all add: notes_33 stack_0_3_7_9 detect_rules)

lemma notes_34: "definition_notes ''c,eb,g,a,d'' = [''C4'', ''D#4'', ''G4'', ''A4'', ''D4'']"
  by (simp add: definition_notes_def classes_34 SHARP_NOTES_def)

lemma roundtrip_34: "detectChord (definition_notes ''c,eb,g,a,d'') None = Inr (Some ''Cm6add9'')"
  by (rule detect_eval [where midi = "[60, 62, 63, 67, 69]" and pcs = "[0, 2, 3, 7, 9]" and st = "[7, 9, 0, 2, 3]"
        and key = "''2,3,2,1''" and f = "\<lparr>name = ''m6add9'', pattern = ''2,3,2,1'', rootIndex = 2\<rparr>"])
     (simp_all add: notes_34 stack_0_2_3_7_9 detect_rules)

lemma notes_35: "definition_notes ''c,eb,a,d'' = [''C4'', ''D#4'', ''A4'', ''D4'']"
  by (simp add: definition_notes_def classes_35 SHARP_NOTES_def)

lemma roundtrip_35: "detectChord (definition_notes ''c,eb,a,d'') None = Inr (Some ''Cm6/9'')"
  by (rule detect_eval [where midi = "[60, 62, 63, 69]" and pcs = "[0, 2, 3, 9]" and st = "[9, 0, 2, 3]"
        and key = "''3,2,1''" and f = "\<lparr>name = ''m6/9'', pattern = ''3,2,1'', rootIndex = 1\<rparr>"])
     (simp_all add: notes_35 stack_0_2_3_9 detect_rules)

lemma notes_36: "definition_notes ''c,eb,g,a,bb'' = [''C4'', ''D#4'', ''G4'', ''A4'', ''A#4'']"
  by (simp add: definition_notes_def classes_36 SHARP_NOTES_def)

lemma roundtrip_36: "detectChord (definition_notes ''c,eb,g,a,bb'') None = Inr (Some ''Cm7add13'')"
  by (rule detect_eval [where midi = "[60, 63, 67, 69, 70]" and pcs = "[0, 3, 7, 9, 10]" and st = "[7, 9, 10, 0, 3]"
        and key = "''2,1,2,3''" and f = "\<lparr>name = ''m7add13'', pattern = ''2,1,2,3'', rootIndex = 3\<rparr>"])
     (simp_all add: notes_36 stack_0_3_7_9_10 detect_rules)

lemma notes_37: "definition_notes ''c,eb,g,bb,d'' = [''C4'', ''D#4'', ''G4'', ''A#4'', ''D4'']"
  by (simp add: definition_notes_def classes_37 SHARP_NOTES_def)

lemma roundtrip_37: "detectChord (definition_notes ''c,eb,g,bb,d'') None = Inr (Some ''Cm9'')"
  by (rule detect_eval [where midi = "[60, 62, 63, 67, 70]" and pcs = "[0, 2, 3, 7, 10]" and st = "[7, 10, 0, 2, 3]"
        and key = "''3,2,2,1''" and f = "\<lparr>name = ''m9'', pattern = ''3,2,2,1'', rootIndex = 2\<rparr>"])
     (simp_all add: notes_37 stack_0_2_3_7_10 detect_rules)

lemma notes_38: "definition_notes ''c,eb,g,bb,d,f'' = [''C4'', ''D#4'', ''G4'', ''A#4'', ''D4'', ''F4'']"
  by (simp add: definition_notes_def classes_38 SHARP_NOTES_def)

lemma roundtrip_38: "detectChord (definition_notes ''c,eb,g,bb,d,f'') None = Inr (Some ''Cm11'')"
  by (rule detect_eval [where midi = "[60, 62, 63, 65, 67, 70]" and pcs = "[0, 2, 3, 5, 7, 10]" and st = "[10, 0, 2, 3, 5, 7]"
        and key = "''2,2,1,2,2''" and f = "\<lparr>name = ''m11'', pattern = ''2,2,1,2,2'', rootIndex = 1\<rparr>"])
     (simp_all add: notes_38 stack_0_2_3_5_7_10 detect_rules)

lemma notes_39: "definition_notes ''c,eb,bb,d,f'' = [''C4'', ''D#4'', ''A#4'', ''D4'', ''F4'']"
  by (simp add: definition_notes_def classes_39 SHARP_NOTES_def)

lemma roundtrip_39: "detectChord (definition_notes ''c,eb,bb,d,f'') None = Inr (Some ''Cm11'')"
  by (rule detect_eval [where midi = "[60, 62, 63, 65, 70]" and pcs = "[0, 2, 3, 5, 10]" and st = "[10, 0, 2, 3, 5]"
        and key = "''2,2,1,2''" and f = "\<lparr>name = ''m11'', pattern = ''2,2,1,2'', rootIndex = 1\<rparr>"])
     (simp_all add: notes_39 stack_0_2_3_5_10 detect_rules)

lemma notes_41: "definition_notes ''c,eb,g,b,d'' = [''C4'', ''D#4'', ''G4'', ''B4'', ''D4'']"
  by (simp add: definition_notes_def classes_41 SHARP_NOTES_def)

lemma roundtrip_41: "detectChord (definition_notes ''c,eb,g,b,d'') None = Inr (Some ''Cm9/Maj7'')"
  by (rule detect_eval [where midi = "[60, 62, 63, 67, 71]" and pcs = "[0, 2, 3, 7, 11]" and st = "[11, 0, 2, 3, 7]"
        and key = "''1,2,1,4''" and f = "\<lparr>name = ''m9/Maj7'', pattern = ''1,2,1,4'', rootIndex = 1\<rparr>"])
     (simp_all add: notes_41 stack_0_2_3_7_11 detect_rules)

lemma notes_42: "definition_notes ''c,eb,gb,bb,d'' = [''C4'', ''D#4'', ''F#4'', ''A#4'', ''D4'']"
  by (simp add: definition_notes_def classes_42 SHARP_NOTES_def)

lemma roundtrip_42: "detectChord (definition_notes ''c,eb,gb,bb,d'') None = Inr (Some ''Cm9(b5)'')"
  by (rule detect_eval [where midi = "[60, 62, 63, 66, 70]" and pcs = "[0, 2, 3, 6, 10]" and st = "[10, 0, 2, 3, 6]"
        and key = "''2,2,1,3''" and f = "\<lparr>name = ''m9(b5)'', pattern = ''2,2,1,3'', rootIndex = 1\<rparr>"])
     (simp_all add: notes_42 stack_0_2_3_6_10 detect_rules)

lemma notes_43: "definition_notes ''c,eb,gb,bb,d,f'' = [''C4'', ''D#4'', ''F#4'', ''A#4'', ''D4'', ''F4'']"
  by (simp add: definition_notes_def classes_43 SHARP_NOTES_def)

lemma roundtrip_43: "detectChord (definition_notes ''c,eb,gb,bb,d,f'') None = Inr (Some ''Cm11(b5)'')"
  by (rule detect_eval [where midi = "[60, 62, 63, 65, 66, 70]" and pcs = "[0, 2, 3, 5, 6, 10]" and st = "[10, 0, 2, 3, 5, 6]"
        and key = "''2,2,1,2,1''" and f = "\<lparr>name = ''m11(b5)'', pattern = ''2,2,1,2,1'', rootIndex = 1\<rparr>"])
     (simp_all add: notes_43 stack_0_2_3_5_6_10 detect_rules)

lemma notes_44: "definition_notes ''c,e,g#,b'' = [''C4'', ''E4'', ''G#4'', ''B4'']"
  by (simp add: definition_notes_def classes_44 SHARP_NOTES_def)

lemma roundtrip_44: "detectChord (definition_notes ''c,e,g#,b'') None = Inr (Some ''CMaj7(#5)'')"
  by (rule detect_eval [where midi = "[60, 64, 68, 71]" and pcs = "[0, 4, 8, 11]" and st = "[8, 11, 0, 4]"
        and key = "''3,1,4''" and f = "\<lparr>name = ''Maj7(#5)'', pattern = ''3,1,4'', rootIndex = 2\<rparr>"])
     (simp_all add: notes_44 stack_0_4_8_11 detect_rules)

lemma notes_45: "definition_notes ''c,e,g,b,f#'' = [''C4'', ''E4'', ''G4'', ''B4'', ''F#4'']"
  by (simp add: definition_notes_def classes_45 SHARP_NOTES_def)

lemma roundtrip_45: "detectChord (definition_notes ''c,e,g,b,f#'') None = Inr (Some ''CMaj7(#11)'')"
  by (rule detect_eval [where midi = "[60, 64, 66, 67, 71]" and pcs = "[0, 4, 6, 7, 11]" and st = "[11, 0, 4, 6, 7]"
        and key = "''1,4,2,1''" and f = "\<lparr>name = ''Maj7(#11)'', pattern = ''1,4,2,1'', rootIndex = 1\<rparr>"])
     (simp_all add: notes_45 stack_0_4_6_7_11 detect_rules)

lemma notes_46: "definition_notes ''c,e,g,b,d,f#'' = [''C4'', ''E4'', ''G4'', ''B4'', ''D4'', ''F#4'']"
  by (simp add: definition_notes_def classes_46 SHARP_NOTES_def)

lemma roundtrip_46: "detectChord (definition_notes ''c,e,g,b,d,f#'') None = Inr (Some ''CMaj9(#11)'')"
  by (rule detect_eval [where midi = "[60, 62, 64, 66, 67, 71]" and pcs = "[0, 2, 4, 6, 7, 11]" and st = "[11, 0, 2, 4, 6, 7]"
        and key = "''1,2,2,2,1''" and f = "\<lparr>name = ''Maj9(#11)'', pattern = ''1,2,2,2,1'', rootIndex = 1\<rparr>"])
     (simp_all add: notes_46 stack_0_2_4_6_7_11 detect_rules)

lemma notes_47: "definition_notes ''c,e,g,bb,db'' = [''C4'', ''E4'', ''G4'', ''A#4'', ''C#4'']"
  by (simp add: definition_notes_def classes_47 SHARP_NOTES_def)

lemma roundtrip_47: "detectChord (definition_notes ''c,e,g,bb,db'') None = Inr (Some ''C7(b9)'')"
  by (rule detect_eval [where midi = "[60, 61, 64, 67, 70]" and pcs = "[0, 1, 4, 7, 10]" and st = "[10, 0, 1, 4, 7]"
        and key = "''2,1,3,3''" and f = "\<lparr>name = ''7(b9)'', pattern = ''2,1,3,3'', rootIndex = 1\<rparr>"])
     (simp_all add: notes_47 stack_0_1_4_7_10 detect_rules)

lemma notes_48: "definition_notes ''c,e,g,bb,d#'' = [''C4'', ''E4'', ''G4'', ''A#4'', ''D#4'']"
  by (simp add: definition_notes_def classes_48 SHARP_NOTES_def)

lemma roundtrip_48: "detectChord (definition_notes ''c,e,g,bb,d#'') None = Inr (Some ''C7(#9)'')"
  by (rule detect_eval [where midi = "[60, 63, 64, 67, 70]" and pcs = "[0, 3, 4, 7, 10]" and st = "[3, 4, 7, 10, 0]"
        and key = "''1,3,3,2''" and f = "\<lparr>name = ''7(#9)'', pattern = ''1,3,3,2'', rootIndex = 4\<rparr>"])
     (simp_all add: notes_48 stack_0_3_4_7_10 detect_rules)

lemma notes_49: "definition_notes ''c,e,g#,bb,d#'' = [''C4'', ''E4'', ''G#4'', ''A#4'', ''D#4'']"
  by (simp add: definition_notes_def classes_49 SHARP_NOTES_def)

lemma roundtrip_49: "detectChord (definition_notes ''c,e,g#,bb,d#'') None = Inr (Some ''C7(#5)(#9)'')"
  by (rule detect_eval [where midi = "[60, 63, 64, 68, 70]" and pcs = "[0, 3, 4, 8, 10]" and st = "[8, 10, 0, 3, 4]"
        and key = "''2,2,3,1''" and f = "\<lparr>name = ''7(#5)(#9)'', pattern = ''2,2,3,1'', rootIndex = 2\<rparr>"])
     (simp_all add: notes_49 stack_0_3_4_8_10 detect_rules)

lemma notes_50: "definition_notes ''c,e,g,bb,f#'' = [''C4'', ''E4'', ''G4'', ''A#4'', ''F#4'']"
  by (simp add: definition_notes_def classes_50 SHARP_NOTES_def)

lemma roundtrip_50: "detectChord (definition_notes ''c,e,g,bb,f#'') None = Inr (Some ''C7(#11)'')"
  by (rule detect_eval [where midi = "[60, 64, 66, 67, 70]" and pcs = "[0, 4, 6, 7, 10]" and st = "[4, 6, 7, 10, 0]"
        and key = "''2,1,3,2''" and f = "\<lparr>name = ''7(#11)'', pattern = ''2,1,3,2'', rootIndex = 4\<rparr>"])
     (simp_all add: notes_50 stack_0_4_6_7_10 detect_rules)

lemma notes_51: "definition_notes ''c,e,g,bb,d,f#'' = [''C4'', ''E4'', ''G4'', ''A#4'', ''D4'', ''F#4'']"
  by (simp add: definition_notes_def classes_51 SHARP_NOTES_def)

lemma roundtrip_51: "detectChord (definition_notes ''c,e,g,bb,d,f#'') None = Inr (Some ''C9(#11)'')"
  by (rule detect_eval [where midi = "[60, 62, 64, 66, 67, 70]" and pcs = "[0, 2, 4, 6, 7, 10]" and st = "[10, 0, 2, 4, 6, 7]"
        and key = "''2,2,2,2,1''" and f = "\<lparr>name = ''9(#11)'', pattern = ''2,2,2,2,1'', rootIndex = 1\<rparr>"])
     (simp_all add: notes_51 stack_0_2_4_6_7_10 detect_rules)

lemma notes_53: "definition_notes ''c,e,gb,bb,d,a'' = [''C4'', ''E4'', ''F#4'', ''A#4'', ''D4'', ''A4'']"
  by (simp add: definition_notes_def classes_53 SHARP_NOTES_def)

lemma roundtrip_53: "detectChord (definition_notes ''c,e,gb,bb,d,a'') None = Inr (Some ''C13b5'')"
  by (rule detect_eval [where midi = "[60, 62, 64, 66, 69, 70]" and pcs = "[0, 2, 4, 6, 9, 10]" and st = "[9, 10, 0, 2, 4, 6]"
        and key = "''1,2,2,2,2''" and f = "\<lparr>name = ''13b5'', pattern = ''1,2,2,2,2'', rootIndex = 2\<rparr>"])
     (simp_all add: notes_53 stack_0_2_4_6_9_10 detect_rules)

lemma notes_54: "definition_notes ''c,e,gb,bb,d,f,a'' = [''C4'', ''E4'', ''F#4'', ''A#4'', ''D4'', ''F4'', ''A4'']"
  by (simp add: definition_notes_def classes_54 SHARP_NOTES_def)

lemma roundtrip_54: "detectChord (definition_notes ''c,e,gb,bb,d,f,a'') None = Inr (Some ''C13b5'')"
  by (rule detect_eval [where midi = "[60, 62, 64, 65, 66, 69, 70]" and pcs = "[0, 2, 4, 5, 6, 9, 10]" and st = "[9, 10, 0, 2, 4, 5, 6]"
        and key = "''1,2,2,2,1,1''" and f = "\<lparr>name = ''13b5'', pattern = ''1,2,2,2,1,1'', rootIndex = 2\<rparr>"])
     (simp_all add: notes_54 stack_0_2_4_5_6_9_10 detect_rules)

lemma notes_55: "definition_notes ''c,e,g,bb,db,a'' = [''C4'', ''E4'', ''G4'', ''A#4'', ''C#4'', ''A4'']"
  by (simp add: definition_notes_def classes_55 SHARP_NOTES_def)

lemma roundtrip_55: "detectChord (definition_notes ''c,e,g,bb,db,a'') None = Inr (Some ''C13b9'')"
  by (rule detect_eval [where midi = "[60, 61, 64, 67, 69, 70]" and pcs = "[0, 1, 4, 7, 9, 10]" and st = "[7, 9, 10, 0, 1, 4]"
        and key = "''2,1,2,1,3''" and f = "\<lparr>name = ''13b9'', pattern = ''2,1,2,1,3'', rootIndex = 3\<rparr>"])
     (simp_all add: notes_55 stack_0_1_4_7_9_10 detect_rules)

lemma notes_56: "definition_notes ''c,e,g,bb,db,f,a'' = [''C4'', ''E4'', ''G4'', ''A#4'', ''C#4'', ''F4'', ''A4'']"
  by (simp add: definition_notes_def classes_56 SHARP_NOTES_def)

lemma roundtrip_56: "detectChord (definition_notes ''c,e,g,bb,db,f,a'') None = Inr (Some ''C13b9'')"
  by (rule detect_eval [where midi = "[60, 61, 64, 65, 67, 69, 70]" and pcs = "[0, 1, 4, 5, 7, 9, 10]" and st = "[4, 5, 7, 9, 10, 0, 1]"
        and key = "''1,2,2,1,2,1''" and f = "\<lparr>name = ''13b9'', pattern = ''1,2,2,1,2,1'', rootIndex = 5\<rparr>"])
     (simp_all add: notes_56 stack_0_1_4_5_7_9_10 detect_rules)

lemma notes_57: "definition_notes ''c,e,g,bb,d,f#,a'' = [''C4'', ''E4'', ''G4'', ''A#4'', ''D4'', ''F#4'', ''A4'']"
  by (simp add: definition_notes_def classes_57 SHARP_NOTES_def)

lemma roundtrip_57: "detectChord (definition_notes ''c,e,g,bb,d,f#,a'') None = Inr (Some ''C13#11'')"
  by (rule detect_eval [where midi = "[60, 62, 64, 66, 67, 69, 70]" and pcs = "[0, 2, 4, 6, 7, 9, 10]" and st = "[6, 7, 9, 10, 0, 2, 4]"
        and key = "''1,2,1,2,2,2''" and f = "\<lparr>name = ''13#11'', pattern = ''1,2,1,2,2,2'', rootIndex = 4\<rparr>"])
     (simp_all add: notes_57 stack_0_2_4_6_7_9_10 detect_rules)

lemma notes_58: "definition_notes ''c,g,bb'' = [''C4'', ''G4'', ''A#4'']"
  by (simp add: definition_notes_def classes_58 SHARP_NOTES_def)

lemma roundtrip_58: "detectChord (definition_notes ''c,g,bb'') None = Inr (Some ''C7(no3)'')"
  by (rule detect_eval [where midi = "[60, 67, 70]" and pcs = "[0, 7, 10]" and st = "[7, 10, 0]"
        and key = "''3,2''" and f = "\<lparr>name = ''7(no3)'', pattern = ''3,2'', rootIndex = 2\<rparr>"])
     (simp_all add: notes_58 stack_0_7_10 detect_rules)

lemma notes_59: "definition_notes ''c,e,b'' = [''C4'', ''E4'', ''B4'']"
  by (simp add: definition_notes_def classes_59 SHARP_NOTES_def)

lemma roundtrip_59: "detectChord (definition_notes ''c,e,b'') None = Inr (Some ''CMaj7(no5)'')"
  by (rule detect_eval [where midi = "[60, 64, 71]" and pcs = "[0, 4, 11]" and st = "[11, 0, 4]"
        and key = "''1,4''" and f = "\<lparr>name = ''Maj7(no5)'', pattern = ''1,4'', rootIndex = 1\<rparr>"])
     (simp_all add: notes_59 stack_0_4_11 detect_rules)

subsection \<open>The root of a matched formula\<close>

lemma digits_chars: "set (digits n) \<subseteq> set ''0123456789''"
proof (induction n rule: digits.induct)
  case (1 n)
  have d: "''0123456789'' ! k \<in> set ''0123456789''" if "k < 10" for k
    using that by (intro nth_mem) simp
  show ?case
  proof (cases "n < 10")
    case True
    with d [of n] show ?thesis by (subst digits.simps) simp
  next
    case False
    have "n mod 10 < 10" by simp
    with d [of "n mod 10"] 1 False show ?thesis by (subst digits.simps) simp
  qed
qed

lemma num_str_no_comma: "CHR '','' \<notin> set (num_str i)"
proof -
  have "CHR '','' \<notin> set ''0123456789''" by simp
  with digits_chars have "CHR '','' \<notin> set (digits n)" for n by blast
  then show ?thesis by (simp add: num_str_def)
qed

lemma count_join:
  "\<forall>x \<in> set xs. c \<notin> set x \<Longrightarrow> count_list (join [c] xs) c = length xs - 1"
  by (induction "[c]" xs rule: join.induct) (simp_all add: count_notin)

lemma key_commas: "count_list (join_pattern p) CHR '','' = length p - 1"
  by (simp add: join_pattern_def count_join num_str_no_comma)

lemma table_roots:
  "\<forall>f \<in> set formula_table.
     0 \<le> rootIndex f \<and> rootIndex f < int (count_list (pattern f) CHR '','') + 2 \<and> pattern f \<noteq> ''0''"
  by (simp add: formula_table_def)

lemma root_in_range:
  assumes "find (\<lambda>formula. pattern formula = join_pattern (getIntervalPattern st)) formula_table = Some f"
  shows "0 \<le> rootIndex f \<and> rootIndex f < int (length st)"
proof -
  from assms have mem: "f \<in> set formula_table"
    and key: "pattern f = join_pattern (getIntervalPattern st)"
    by (auto simp: find_Some_iff)
  from table_roots mem have r: "0 \<le> rootIndex f"
    "rootIndex f < int (count_list (pattern f) CHR '','') + 2" "pattern f \<noteq> ''0''" by auto
  have "2 \<le> length st"
  proof (rule ccontr)
    assume "\<not> 2 \<le> length st"
    then have "join_pattern (getIntervalPattern st) = ''0''"
      by (simp add: getIntervalPattern_def join_pattern_def num_str_def digits.simps)
    with key r(3) show False by simp
  qed
  then have "count_list (pattern f) CHR '','' = length st - 2"
    by (simp add: key key_commas getIntervalPattern_def)
  with r \<open>2 \<le> length st\<close> show ?thesis by simp
qed

text \<open>
  Claim C3: when the lookup finds a formula for three or more notes (with fewer than nine
  pitch classes), the position \<open>rootIndex\<close> of the formula lies inside the canonical
  ordering, the root is the element there, except for the formulas named \<open>dim7\<close> and \<open>+\<close>,
  whose root is the pitch class of the bass, and the result is the name of the root, the
  name of the formula and, exactly when the root differs from the pitch class of the bass,
  \<open>/\<close> and the name of the bass.
\<close>

theorem C3_chord_name_composition:
  assumes "CHORD_FORMULAS = Inr db"
    and "3 \<le> length notes"
    and "length (new_Set (map (\<lambda>n. js_rem n 12) (sort (map noteToMidi notes)))) < 9"
    and "getAsStackedChord (new_Set (map (\<lambda>n. js_rem n 12) (sort (map noteToMidi notes)))) = Inr stackedChord"
    and "find (\<lambda>formula. pattern formula = join_pattern (getIntervalPattern stackedChord)) db = Some formula"
  shows "0 \<le> rootIndex formula \<and> rootIndex formula < int (length stackedChord) \<and>
         (let useSharps = (case useFlats of None \<Rightarrow> True | Some b \<Rightarrow> \<not> b);
              bassClass = js_rem (Min (noteToMidi ` set notes)) 12;
              root = (if name formula = ''dim7'' \<or> name formula = ''+'' then bassClass
                      else stackedChord ! nat (rootIndex formula))
          in detectChord notes useFlats =
               Inr (Some (midiToNoteName root useSharps @ name formula @
                          (if root \<noteq> bassClass then ''/'' @ midiToNoteName bassClass useSharps
                           else []))))"
proof -
  from assms(1) have db: "db = formula_table" unfolding formulas_value by simp
  from assms(5) have range: "0 \<le> rootIndex formula \<and> rootIndex formula < int (length stackedChord)"
    unfolding db by (rule root_in_range)
  from assms(2) have "map noteToMidi notes \<noteq> []" by auto
  then have bass: "hd (sort (map noteToMidi notes)) = Min (noteToMidi ` set notes)"
    using hd_sort_Min [of "map noteToMidi notes"] by simp
  from range have get: "array_get stackedChord (rootIndex formula) = Some (stackedChord ! nat (rootIndex formula))"
    by (simp add: array_get_def)
  have "detectChord notes useFlats =
          Inr (Some (compose_name formula stackedChord (Min (noteToMidi ` set notes))
                       (case useFlats of None \<Rightarrow> True | Some b \<Rightarrow> \<not> b)))"
    using detect_match [OF assms, of useFlats] by (simp only: bass)
  with range show ?thesis
    by (simp add: compose_name_def get name_or_undefined_def Let_def)
qed

lemma stack_4_7_0: "getAsStackedChord [4, 7, 0] = Inr [0, 4, 7]"
  by (simp only: search_eval cong: if_weak_cong) (simp add: pick_eval)

text \<open>The theorem of claim C3 at the first inversion of the C major triad.\<close>

theorem C3_chord_name_composition_witness:
  "CHORD_FORMULAS = Inr formula_table \<and> 3 \<le> length [''E4'', ''G4'', ''C5''] \<and>
   length (new_Set (map (\<lambda>n. js_rem n 12) (sort (map noteToMidi [''E4'', ''G4'', ''C5''])))) < 9 \<and>
   getAsStackedChord (new_Set (map (\<lambda>n. js_rem n 12) (sort (map noteToMidi [''E4'', ''G4'', ''C5''])))) =
     Inr [0, 4, 7] \<and>
   find (\<lambda>formula. pattern formula = join_pattern (getIntervalPattern [0, 4, 7])) formula_table =
     Some \<lparr>name = '''', pattern = ''4,3'', rootIndex = 0\<rparr> \<and>
   detectChord [''E4'', ''G4'', ''C5''] None = Inr (Some ''C/E'')"
proof -
  let ?ns = "[''E4'', ''G4'', ''C5'']"
  have midi: "sort (map noteToMidi ?ns) = [64, 67, 72]" by (simp add: noteToMidi_eval)
  have pcs: "new_Set (map (\<lambda>n. js_rem n 12) [64, 67, 72]) = [4, 7, 0]"
    by (simp add: new_Set_def js_rem_def)
  have h2: "3 \<le> length ?ns" by simp
  have h3: "length (new_Set (map (\<lambda>n. js_rem n 12) (sort (map noteToMidi ?ns)))) < 9"
    by (simp only: midi pcs) simp
  have h4: "getAsStackedChord (new_Set (map (\<lambda>n. js_rem n 12) (sort (map noteToMidi ?ns)))) = Inr [0, 4, 7]"
    by (simp only: midi pcs stack_4_7_0)
  have h5: "find (\<lambda>formula. pattern formula = join_pattern (getIntervalPattern [0, 4, 7])) formula_table =
              Some \<lparr>name = '''', pattern = ''4,3'', rootIndex = 0\<rparr>"
    by (simp add: formula_eval formula_table_def)
  have set_ns: "noteToMidi ` set ?ns = {64, 67, 72}" by (simp add: noteToMidi_eval)
  from C3_chord_name_composition [OF formulas_value h2 h3 h4 h5, of None]
  have "detectChord ?ns None = Inr (Some ''C/E'')"
    by (simp only: set_ns) (simp add: Let_def js_rem_def midiToNoteName_def SHARP_NOTES_def)
  with formulas_value h2 h3 h4 h5 show ?thesis by (intro conjI)
qed

subsection \<open>Flat spellings\<close>

lemma stack_m1_0_7: "getAsStackedChord [- 1, 0, 7] = Inr [7, - 1, 0]"
  by (simp add: search_eval pick_eval interval_def wrap_up_id wrap_up_neg)

text \<open>
  Claim C4, as stated, passes the flat spellings \<open>Eb4\<close> and \<open>Bb4\<close>, which the regular expression
  of \<open>noteToMidi\<close> rejects: both become \<open>-1\<close>, the pitch classes are \<open>-1, 0, 7\<close>, no formula
  matches, and the fallback lists them.
\<close>

theorem C4_flat_identifiers_counterexample:
  "detectChord [''C4'', ''Eb4'', ''G4'', ''Bb4''] None = Inr (Some ''(, C, G)'') \<and>
   detectChord [''C4'', ''Eb4'', ''G4'', ''Bb4''] None \<noteq> Inr (Some ''Cm7'')"
proof -
  let ?ns = "[''C4'', ''Eb4'', ''G4'', ''Bb4'']"
  have midi: "sort (map noteToMidi ?ns) = [- 1, - 1, 60, 67]" by (simp add: noteToMidi_eval)
  have pcs: "new_Set (map (\<lambda>n. js_rem n 12) [- 1, - 1, 60, 67]) = [- 1, 0, 7]"
    by (simp add: new_Set_def js_rem_def)
  have h2: "3 \<le> length ?ns" by simp
  have h3: "length (new_Set (map (\<lambda>n. js_rem n 12) (sort (map noteToMidi ?ns)))) < 9"
    by (simp only: midi pcs) simp
  have h4: "getAsStackedChord (new_Set (map (\<lambda>n. js_rem n 12) (sort (map noteToMidi ?ns)))) = Inr [7, - 1, 0]"
    by (simp only: midi pcs stack_m1_0_7)
  have key: "join_pattern (getIntervalPattern [7, - 1, 0]) = ''4,1''"
    by (simp add: getIntervalPattern_def join_pattern_def num_str_def digits.simps wrap_up_id wrap_up_neg
        upt_rec)
  have h5: "find (\<lambda>formula. pattern formula = join_pattern (getIntervalPattern [7, - 1, 0])) formula_table = None"
    by (simp only: key) (simp add: formula_table_def)
  from detect_fallback [OF formulas_value h2 h3 h4 h5, of None]
  have "detectChord ?ns None = Inr (Some (fallback_name [- 1, 0, 7] True))"
    by (simp only: midi pcs option.case)
  then have "detectChord ?ns None = Inr (Some ''(, C, G)'')"
    by (simp add: fallback_name_def array_get_def SHARP_NOTES_def)
  then show ?thesis by simp
qed

text \<open>
  Claim C4, amended: with the two notes spelled as the module spells them, \<open>D#4\<close> and \<open>A#4\<close>,
  the result is \<open>Cm7\<close>.
\<close>

theorem C4_Cm7_from_sharp_identifiers: "detectChord [''C4'', ''D#4'', ''G4'', ''A#4''] None = Inr (Some ''Cm7'')"
  using roundtrip_11 by (simp only: notes_11)

subsection \<open>Round trip\<close>

text \<open>
  The notes of the formulas \<open>m13\<close> and \<open>7(b9)(#11)\<close>. The pattern of \<open>m13\<close> is that of the
  seven-note formula \<open>13\<close>, which comes first in the database.
\<close>

lemma stack_0_2_3_5_7_9_10: "getAsStackedChord [0, 2, 3, 5, 7, 9, 10] = Inr [9, 10, 0, 2, 3, 5, 7]"
  by (simp only: search_eval cong: if_weak_cong) (simp add: pick_eval)

lemma stack_0_1_4_6_7_10: "getAsStackedChord [0, 1, 4, 6, 7, 10] = Inr [4, 6, 7, 10, 0, 1]"
  by (simp only: search_eval cong: if_weak_cong) (simp add: pick_eval)

lemma notes_40: "definition_notes ''c,eb,g,bb,d,f,a'' = [''C4'', ''D#4'', ''G4'', ''A#4'', ''D4'', ''F4'', ''A4'']"
  by (simp add: definition_notes_def classes_40 SHARP_NOTES_def)

lemma roundtrip_40: "detectChord (definition_notes ''c,eb,g,bb,d,f,a'') None = Inr (Some ''F13/C'')"
  by (rule detect_eval [where midi = "[60, 62, 63, 65, 67, 69, 70]" and pcs = "[0, 2, 3, 5, 7, 9, 10]" and st = "[9, 10, 0, 2, 3, 5, 7]"
        and key = "''1,2,2,1,2,2''" and f = "\<lparr>name = ''13'', pattern = ''1,2,2,1,2,2'', rootIndex = 5\<rparr>"])
     (simp_all add: notes_40 stack_0_2_3_5_7_9_10 detect_rules)

lemma notes_52: "definition_notes ''c,e,g,bb,db,f#'' = [''C4'', ''E4'', ''G4'', ''A#4'', ''C#4'', ''F#4'']"
  by (simp add: definition_notes_def classes_52 SHARP_NOTES_def)

lemma roundtrip_52: "detectChord (definition_notes ''c,e,g,bb,db,f#'') None = Inr (Some ''F#7(b9)(#11)/C'')"
  by (rule detect_eval [where midi = "[60, 61, 64, 66, 67, 70]" and pcs = "[0, 1, 4, 6, 7, 10]" and st = "[4, 6, 7, 10, 0, 1]"
        and key = "''2,1,3,2,1''" and f = "\<lparr>name = ''7(b9)(#11)'', pattern = ''2,1,3,2,1'', rootIndex = 1\<rparr>"])
     (simp_all add: notes_52 stack_0_1_4_6_7_10 detect_rules)

lemma length_formula_table: "length formula_table = 60"
  by (simp add: formula_table_def)

text \<open>
  Claim C9, as stated, covers the formula \<open>5\<close>, defined by the two notes \<open>c,g\<close>: two notes
  are named as an interval before any lookup. It also covers the formula \<open>m13\<close>: the lookup
  returns the first formula of the database with the pattern, which is \<open>13\<close>, and the name
  returned for the notes of \<open>m13\<close> does not contain \<open>m13\<close>.
\<close>

theorem C9_round_trip_fails_counterexample:
  "(''5'', ''c,g'') \<in> set chord_definitions \<and>
   detectChord (definition_notes ''c,g'') None = Inr (Some ''Perfect 5th (C, G)'') \<and>
   (''m13'', ''c,eb,g,bb,d,f,a'') \<in> set chord_definitions \<and>
   detectChord (definition_notes ''c,eb,g,bb,d,f,a'') None = Inr (Some ''F13/C'') \<and>
   \<not> sublist ''m13'' ''F13/C''"
proof (intro conjI)
  show "(''5'', ''c,g'') \<in> set chord_definitions" by (simp add: chord_definitions_def)
  show "(''m13'', ''c,eb,g,bb,d,f,a'') \<in> set chord_definitions" by (simp add: chord_definitions_def)
  have two: "definition_notes ''c,g'' = [''C4'', ''G4'']"
    by (simp add: definition_notes_def classes_1 SHARP_NOTES_def)
  have iv: "getIntervalName 7 = Some ''Perfect 5th''"
    by (simp add: getIntervalName_def fold_down.simps)
  show "detectChord (definition_notes ''c,g'') None = Inr (Some ''Perfect 5th (C, G)'')"
    by (simp add: two detectChord_def formulas_value noteToMidi_eval iv midiToNoteName_def
        js_rem_def)
  show "detectChord (definition_notes ''c,eb,g,bb,d,f,a'') None = Inr (Some ''F13/C'')"
    by (rule roundtrip_40)
  show "\<not> sublist ''m13'' ''F13/C''" by (simp add: sublist_Cons_right)
qed

text \<open>
  The lookup of \<open>detectChord\<close> returns the first formula with the pattern it looks for. The
  template \<open>m13\<close> is the only one of the database that a template with the same pattern
  precedes.
\<close>

lemma shadowed_templates:
  "filter (\<lambda>t. find (\<lambda>f. pattern f = pattern t) formula_table \<noteq> Some t) formula_table =
     [\<lparr>name = ''m13'', pattern = ''1,2,2,1,2,2'', rootIndex = 2\<rparr>]"
  by code_simp

text \<open>
  Claim C9, amended. Each definition is paired with the template that \<^verbatim>\<open>defineChord\<close> builds
  from it, which bears its name. For every definition of three or more notes whose template
  is the first of the database with its pattern, \<open>detectChord\<close> applied to the notes of the
  definition returns the name of a root note followed by the name of the definition,
  followed by \<open>/C\<close> when the root is not \<open>C\<close>.
\<close>

theorem C9_round_trip:
  "CHORD_FORMULAS = Inr formula_table \<and> length formula_table = length chord_definitions \<and>
   (\<forall>((nm, noteStr), t) \<in> set (zip chord_definitions formula_table).
      defineChord nm noteStr [] = Inr [t] \<and> name t = nm \<and>
      (3 \<le> length (note_classes noteStr) \<and>
       find (\<lambda>f. pattern f = pattern t) formula_table = Some t \<longrightarrow>
       (\<exists>root \<in> set SHARP_NOTES.
          detectChord (definition_notes noteStr) None =
            Inr (Some (root @ nm @ (if root = ''C'' then [] else ''/C''))))))"
proof (intro conjI)
  show "CHORD_FORMULAS = Inr formula_table" by (rule formulas_value)
  show "length formula_table = length chord_definitions"
    by (simp only: length_formula_table length_chord_definitions)
  show "\<forall>((nm, noteStr), t) \<in> set (zip chord_definitions formula_table).
      defineChord nm noteStr [] = Inr [t] \<and> name t = nm \<and>
      (3 \<le> length (note_classes noteStr) \<and>
       find (\<lambda>f. pattern f = pattern t) formula_table = Some t \<longrightarrow>
       (\<exists>root \<in> set SHARP_NOTES.
          detectChord (definition_notes noteStr) None =
            Inr (Some (root @ nm @ (if root = ''C'' then [] else ''/C'')))))"
    by (simp add: chord_definitions_def formula_table_def SHARP_NOTES_def
         define_0 define_1 define_2 define_3 define_4 define_5 define_6 define_7 define_8 define_9 define_10 define_11 define_12 define_13 define_14 define_15 define_16 define_17 define_18 define_19 define_20 define_21 define_22 define_23 define_24 define_25 define_26 define_27 define_28 define_29 define_30 define_31 define_32 define_33 define_34 define_35 define_36 define_37 define_38 define_39 define_40 define_41 define_42 define_43 define_44 define_45 define_46 define_47 define_48 define_49 define_50 define_51 define_52 define_53 define_54 define_55 define_56 define_57 define_58 define_59
         classes_0 classes_1 classes_2 classes_3 classes_4 classes_5 classes_6 classes_7 classes_8 classes_9 classes_10 classes_11 classes_12 classes_13 classes_14 classes_15 classes_16 classes_17 classes_18 classes_19 classes_20 classes_21 classes_22 classes_23 classes_24 classes_25 classes_26 classes_27 classes_28 classes_29 classes_30 classes_31 classes_32 classes_33 classes_34 classes_35 classes_36 classes_37 classes_38 classes_39 classes_40 classes_41 classes_42 classes_43 classes_44 classes_45 classes_46 classes_47 classes_48 classes_49 classes_50 classes_51 classes_52 classes_53 classes_54 classes_55 classes_56 classes_57 classes_58 classes_59
         roundtrip_0 roundtrip_2 roundtrip_3 roundtrip_4 roundtrip_5 roundtrip_6 roundtrip_7 roundtrip_8 roundtrip_9 roundtrip_10 roundtrip_11 roundtrip_12 roundtrip_13 roundtrip_14 roundtrip_15 roundtrip_16 roundtrip_17 roundtrip_18 roundtrip_19 roundtrip_20 roundtrip_21 roundtrip_22 roundtrip_23 roundtrip_24 roundtrip_25 roundtrip_26 roundtrip_27 roundtrip_28 roundtrip_29 roundtrip_30 roundtrip_31 roundtrip_32 roundtrip_33 roundtrip_34 roundtrip_35 roundtrip_36 roundtrip_37 roundtrip_38 roundtrip_39 roundtrip_41 roundtrip_42 roundtrip_43 roundtrip_44 roundtrip_45 roundtrip_46 roundtrip_47 roundtrip_48 roundtrip_49 roundtrip_50 roundtrip_51 roundtrip_53 roundtrip_54 roundtrip_55 roundtrip_56 roundtrip_57 roundtrip_58 roundtrip_59 roundtrip_40 roundtrip_52)
qed

text \<open>
  The theorem of claim C9 at the definitions of \<open>m7\<close>, detected as \<open>Cm7\<close>, and of
  \<open>7(b9)(#11)\<close>, detected as \<open>F#7(b9)(#11)/C\<close>.
\<close>

theorem C9_round_trip_witness:
  "((''m7'', ''c,eb,g,bb''), \<lparr>name = ''m7'', pattern = ''3,2,3'', rootIndex = 2\<rparr>)
     \<in> set (zip chord_definitions formula_table) \<and>
   3 \<le> length (note_classes ''c,eb,g,bb'') \<and>
   find (\<lambda>f. pattern f = ''3,2,3'') formula_table =
     Some \<lparr>name = ''m7'', pattern = ''3,2,3'', rootIndex = 2\<rparr> \<and>
   (\<exists>root \<in> set SHARP_NOTES.
      detectChord (definition_notes ''c,eb,g,bb'') None =
        Inr (Some (root @ ''m7'' @ (if root = ''C'' then [] else ''/C'')))) \<and>
   detectChord (definition_notes ''c,eb,g,bb'') None = Inr (Some ''Cm7'') \<and>
   ((''7(b9)(#11)'', ''c,e,g,bb,db,f#''), \<lparr>name = ''7(b9)(#11)'', pattern = ''2,1,3,2,1'', rootIndex = 1\<rparr>)
     \<in> set (zip chord_definitions formula_table) \<and>
   3 \<le> length (note_classes ''c,e,g,bb,db,f#'') \<and>
   find (\<lambda>f. pattern f = ''2,1,3,2,1'') formula_table =
     Some \<lparr>name = ''7(b9)(#11)'', pattern = ''2,1,3,2,1'', rootIndex = 1\<rparr> \<and>
   (\<exists>root \<in> set SHARP_NOTES.
      detectChord (definition_notes ''c,e,g,bb,db,f#'') None =
        Inr (Some (root @ ''7(b9)(#11)'' @ (if root = ''C'' then [] else ''/C'')))) \<and>
   detectChord (definition_notes ''c,e,g,bb,db,f#'') None = Inr (Some ''F#7(b9)(#11)/C'')"
proof -
  let ?t1 = "\<lparr>name = ''m7'', pattern = ''3,2,3'', rootIndex = 2\<rparr>"
  let ?t2 = "\<lparr>name = ''7(b9)(#11)'', pattern = ''2,1,3,2,1'', rootIndex = 1\<rparr>"
  have m1: "((''m7'', ''c,eb,g,bb''), ?t1) \<in> set (zip chord_definitions formula_table)"
    by (simp add: chord_definitions_def formula_table_def)
  have m2: "((''7(b9)(#11)'', ''c,e,g,bb,db,f#''), ?t2) \<in> set (zip chord_definitions formula_table)"
    by (simp add: chord_definitions_def formula_table_def)
  have l1: "3 \<le> length (note_classes ''c,eb,g,bb'')" by (simp add: classes_11)
  have l2: "3 \<le> length (note_classes ''c,e,g,bb,db,f#'')" by (simp add: classes_52)
  have f1: "find (\<lambda>f. pattern f = ''3,2,3'') formula_table = Some ?t1"
    by (simp add: formula_table_def)
  have f2: "find (\<lambda>f. pattern f = ''2,1,3,2,1'') formula_table = Some ?t2"
    by (simp add: formula_table_def)
  have all: "\<forall>((nm, noteStr), t) \<in> set (zip chord_definitions formula_table).
      defineChord nm noteStr [] = Inr [t] \<and> name t = nm \<and>
      (3 \<le> length (note_classes noteStr) \<and>
       find (\<lambda>f. pattern f = pattern t) formula_table = Some t \<longrightarrow>
       (\<exists>root \<in> set SHARP_NOTES.
          detectChord (definition_notes noteStr) None =
            Inr (Some (root @ nm @ (if root = ''C'' then [] else ''/C'')))))"
    using C9_round_trip by (elim conjE)
  from all m1 have "3 \<le> length (note_classes ''c,eb,g,bb'') \<and>
       find (\<lambda>f. pattern f = pattern ?t1) formula_table = Some ?t1 \<longrightarrow>
       (\<exists>root \<in> set SHARP_NOTES.
          detectChord (definition_notes ''c,eb,g,bb'') None =
            Inr (Some (root @ ''m7'' @ (if root = ''C'' then [] else ''/C''))))"
    by fast
  with l1 f1 have r1: "\<exists>root \<in> set SHARP_NOTES.
          detectChord (definition_notes ''c,eb,g,bb'') None =
            Inr (Some (root @ ''m7'' @ (if root = ''C'' then [] else ''/C'')))"
    by simp
  from all m2 have "3 \<le> length (note_classes ''c,e,g,bb,db,f#'') \<and>
       find (\<lambda>f. pattern f = pattern ?t2) formula_table = Some ?t2 \<longrightarrow>
       (\<exists>root \<in> set SHARP_NOTES.
          detectChord (definition_notes ''c,e,g,bb,db,f#'') None =
            Inr (Some (root @ ''7(b9)(#11)'' @ (if root = ''C'' then [] else ''/C''))))"
    by fast
  with l2 f2 have r2: "\<exists>root \<in> set SHARP_NOTES.
          detectChord (definition_notes ''c,e,g,bb,db,f#'') None =
            Inr (Some (root @ ''7(b9)(#11)'' @ (if root = ''C'' then [] else ''/C'')))"
    by simp
  from m1 l1 f1 r1 roundtrip_11 m2 l2 f2 r2 roundtrip_52 show ?thesis by (intro conjI)
qed

subsection \<open>The database after initialisation\<close>

text \<open>
  The strings that \<open>detectChord\<close> returns are assembled from the two tables of note names,
  the interval names, the names of the database and fixed punctuation. The lemmas below
  follow an occurrence of a name through such a concatenation.
\<close>

lemma prefix_sep:
  assumes "prefix p (a @ x # b)" and "x \<notin> set p"
  shows "prefix p a"
proof -
  from assms(1) consider "prefix p a" | us where "p = a @ us" "prefix us (x # b)"
    by (auto simp add: prefix_append)
  then show ?thesis
  proof cases
    case 1
    then show ?thesis .
  next
    case 2
    with assms(2) have "us = []" by (cases us) auto
    with 2 show ?thesis by simp
  qed
qed

lemma sublist_sep:
  "x \<notin> set p \<Longrightarrow> sublist p (a @ x # b) \<Longrightarrow> sublist p a \<or> sublist p b"
proof (induction a)
  case Nil
  then show ?case by (cases p) (auto simp add: sublist_Cons_right)
next
  case (Cons y a)
  from Cons.prems(2) have "prefix p ((y # a) @ x # b) \<or> sublist p (a @ x # b)"
    by (simp add: sublist_Cons_right)
  then show ?case
  proof
    assume "prefix p ((y # a) @ x # b)"
    from prefix_sep [OF this Cons.prems(1)] show ?thesis by (auto intro: prefix_imp_sublist)
  next
    assume "sublist p (a @ x # b)"
    from Cons.IH [OF Cons.prems(1) this] show ?thesis by (auto simp add: sublist_Cons_right)
  qed
qed

lemma sublist_skip:
  "p \<noteq> [] \<Longrightarrow> hd p \<notin> set a \<Longrightarrow> sublist p (a @ b) \<Longrightarrow> sublist p b"
proof (induction a)
  case Nil
  then show ?case by simp
next
  case (Cons y a)
  from Cons.prems have "\<not> prefix p ((y # a) @ b)" by (cases p) auto
  with Cons.prems(3) have "sublist p (a @ b)" by (simp add: sublist_Cons_right)
  with Cons show ?case by simp
qed

lemma sublist_char: "sublist p s \<Longrightarrow> c \<in> set p \<Longrightarrow> c \<in> set s"
  using set_mono_sublist by blast

lemma set_join: "set (join sep xs) \<subseteq> set sep \<union> \<Union> (set ` set xs)"
  by (induction sep xs rule: join.induct) auto

lemma js_rem_range: "0 \<le> js_rem (js_rem midi 12 + 12) 12 \<and> js_rem (js_rem midi 12 + 12) 12 < 12"
  by (simp add: js_rem_def sgn_if)

lemma note_name_mem: "midiToNoteName midi useSharps \<in> set SHARP_NOTES \<union> set FLAT_NOTES"
proof -
  let ?i = "js_rem (js_rem midi 12 + 12) 12"
  from js_rem_range [of midi] have "nat ?i < 12" by linarith
  then have "nat ?i < length SHARP_NOTES" "nat ?i < length FLAT_NOTES"
    by (simp_all add: SHARP_NOTES_def FLAT_NOTES_def)
  then have "SHARP_NOTES ! nat ?i \<in> set SHARP_NOTES" "FLAT_NOTES ! nat ?i \<in> set FLAT_NOTES"
    by (simp_all only: nth_mem)
  then show ?thesis by (simp add: midiToNoteName_def Let_def)
qed

lemma note_name_chars:
  "s \<in> set SHARP_NOTES \<union> set FLAT_NOTES \<Longrightarrow> CHR ''m'' \<notin> set s"
  by (auto simp add: SHARP_NOTES_def FLAT_NOTES_def)

lemma note_name_no_m: "CHR ''m'' \<notin> set (midiToNoteName midi useSharps)"
  using note_name_mem note_name_chars by blast

lemma root_name_no_m: "CHR ''m'' \<notin> set (name_or_undefined r useSharps)"
  by (cases r) (simp_all add: name_or_undefined_def note_name_no_m)

lemma authored_names_free:
  "\<forall>nm \<in> set (map fst chord_definitions). \<not> sublist ''m(maj9)'' nm \<and> \<not> sublist ''m7(b9)'' nm"
  by (simp add: chord_definitions_def sublist_Cons_right)

lemma interval_name_mem:
  "(case getIntervalName d of None \<Rightarrow> ''Interval'' | Some s \<Rightarrow> s) \<in>
   set [''Unison'', ''Minor 2nd'', ''Major 2nd'', ''Minor 3rd'', ''Major 3rd'', ''Perfect 4th'',
        ''Tritone'', ''Perfect 5th'', ''Minor 6th (or #5)'', ''Major 6th'', ''Minor 7th'',
        ''Major 7th'', ''Octave'', ''Flat 9th'', ''9th'', ''Minor 10th (or #9)'', ''Major 10th'',
        ''11th'', ''Augmented 11th'', ''Perfect 12th'', ''Flat 13th'', ''13th'', ''Interval'']"
  unfolding getIntervalName_def Let_def by (simp only: if_distrib [of "case_option _ _"] option.case list.set insert_iff simp_thms if_cancel split: if_split)

lemma interval_names_free:
  assumes "p = ''m(maj9)'' \<or> p = ''m7(b9)''"
  shows "\<not> sublist p (case getIntervalName d of None \<Rightarrow> ''Interval'' | Some s \<Rightarrow> s)"
proof -
  have "\<forall>nm \<in> set [''Unison'', ''Minor 2nd'', ''Major 2nd'', ''Minor 3rd'', ''Major 3rd'',
        ''Perfect 4th'', ''Tritone'', ''Perfect 5th'', ''Minor 6th (or #5)'', ''Major 6th'',
        ''Minor 7th'', ''Major 7th'', ''Octave'', ''Flat 9th'', ''9th'', ''Minor 10th (or #9)'',
        ''Major 10th'', ''11th'', ''Augmented 11th'', ''Perfect 12th'', ''Flat 13th'', ''13th'',
        ''Interval'']. \<not> sublist ''m(maj9)'' nm \<and> \<not> sublist ''m7(b9)'' nm"
    by (simp add: sublist_Cons_right)
  with interval_name_mem [of d] assms show ?thesis by blast
qed

lemma compose_name_free:
  assumes "name f \<in> set (map fst chord_definitions)"
    and "p = ''m(maj9)'' \<or> p = ''m7(b9)''"
  shows "\<not> sublist p (compose_name f st bass us)"
proof
  assume sub: "sublist p (compose_name f st bass us)"
  from assms(2) have p: "p \<noteq> []" "hd p = CHR ''m''" "CHR ''/'' \<notin> set p" "CHR ''m'' \<in> set p"
    by auto
  from assms authored_names_free have nm: "\<not> sublist p (name f)" by blast
  define r where "r = (if name f = ''dim7'' \<or> name f = ''+''
                      then Some (js_rem bass 12) else array_get st (rootIndex f))"
  have eq: "compose_name f st bass us =
          (if r \<noteq> Some (js_rem bass 12)
           then name_or_undefined r us @ (name f @ CHR ''/'' # midiToNoteName (js_rem bass 12) us)
           else name_or_undefined r us @ name f)"
    by (simp add: compose_name_def Let_def r_def)
  from p(2) root_name_no_m [of r us] have hd: "hd p \<notin> set (name_or_undefined r us)" by simp
  show False
  proof (cases "r \<noteq> Some (js_rem bass 12)")
    case False
    with eq sub have "sublist p (name_or_undefined r us @ name f)" by simp
    from sublist_skip [OF p(1) hd this] nm show False by simp
  next
    case True
    with eq sub have
      "sublist p (name_or_undefined r us @ (name f @ CHR ''/'' # midiToNoteName (js_rem bass 12) us))"
      by simp
    from sublist_skip [OF p(1) hd this]
    have "sublist p (name f @ CHR ''/'' # midiToNoteName (js_rem bass 12) us)" .
    from sublist_sep [OF p(3) this] nm have "sublist p (midiToNoteName (js_rem bass 12) us)" by blast
    from sublist_char [OF this p(4)] note_name_no_m show False by blast
  qed
qed

lemma fallback_name_no_m: "CHR ''m'' \<notin> set (fallback_name ncs us)"
proof -
  define tbl where "tbl = (if us then SHARP_NOTES else FLAT_NOTES)"
  define xs where "xs = map (\<lambda>n. case array_get tbl n of None \<Rightarrow> [] | Some s \<Rightarrow> s) ncs"
  have each: "CHR ''m'' \<notin> set x" if "x \<in> set xs" for x
  proof -
    from that obtain n where x: "x = (case array_get tbl n of None \<Rightarrow> [] | Some s \<Rightarrow> s)"
      unfolding xs_def by auto
    show ?thesis
    proof (cases "array_get tbl n")
      case None
      with x show ?thesis by simp
    next
      case (Some s)
      then have "s \<in> set tbl" by (auto simp add: array_get_def split: if_splits)
      then have "s \<in> set SHARP_NOTES \<union> set FLAT_NOTES" by (simp add: tbl_def split: if_splits)
      with note_name_chars x Some show ?thesis by simp
    qed
  qed
  have "CHR ''m'' \<notin> set '', ''" by simp
  moreover from each have "CHR ''m'' \<notin> \<Union> (set ` set xs)" by blast
  moreover note set_join [of "'', ''" xs]
  ultimately have "CHR ''m'' \<notin> set (join '', '' xs)" by blast
  moreover have "fallback_name ncs us = ''('' @ join '', '' xs @ '')''"
    by (simp add: fallback_name_def xs_def tbl_def)
  ultimately show ?thesis by simp
qed

lemma detect_single:
  assumes "CHORD_FORMULAS = Inr db" and "length notes = 1"
  shows "detectChord notes useFlats =
           Inr (Some (midiToNoteName (hd (sort (map noteToMidi notes)))
                        (case useFlats of None \<Rightarrow> True | Some b \<Rightarrow> \<not> b)))"
proof -
  from assms(2) have nn: "notes \<noteq> []" by auto
  show ?thesis using nn assms(2) by (simp add: detectChord_def assms(1) Let_def)
qed

lemma detect_pair:
  assumes "CHORD_FORMULAS = Inr db" and "length notes = 2"
  shows "detectChord notes useFlats =
           Inr (Some ((case getIntervalName (sort (map noteToMidi notes) ! 1 - sort (map noteToMidi notes) ! 0)
                        of None \<Rightarrow> ''Interval'' | Some s \<Rightarrow> s) @ '' ('' @
                      midiToNoteName (sort (map noteToMidi notes) ! 0)
                        (case useFlats of None \<Rightarrow> True | Some b \<Rightarrow> \<not> b) @ '', '' @
                      midiToNoteName (sort (map noteToMidi notes) ! 1)
                        (case useFlats of None \<Rightarrow> True | Some b \<Rightarrow> \<not> b) @ '')''))"
proof -
  from assms(2) have nn: "notes \<noteq> []" by auto
  show ?thesis using nn assms(2) by (simp add: detectChord_def assms(1) Let_def)
qed

lemma detect_soup:
  assumes "CHORD_FORMULAS = Inr db" and "3 \<le> length notes"
    and "9 \<le> length (new_Set (map (\<lambda>n. js_rem n 12) (sort (map noteToMidi notes))))"
  shows "detectChord notes useFlats =
           Inr (Some (midiToNoteName (hd (sort (map noteToMidi notes)))
                        (case useFlats of None \<Rightarrow> True | Some b \<Rightarrow> \<not> b) @ '' Note Soup''))"
proof -
  from assms(2) have nn: "notes \<noteq> []" by auto
  with assms(2) have l: "length notes \<noteq> 1" "length notes \<noteq> 2" by simp_all
  show ?thesis using nn l assms(3) by (simp add: detectChord_def assms(1) Let_def)
qed

lemma detect_free:
  assumes res: "detectChord notes useFlats = Inr (Some s)"
    and p: "p = ''m(maj9)'' \<or> p = ''m7(b9)''"
  shows "\<not> sublist p s"
proof
  assume sub: "sublist p s"
  from p have pm: "CHR ''m'' \<in> set p" "CHR '' '' \<notin> set p" by auto
  from formulas_total obtain db where db: "CHORD_FORMULAS = Inr db"
    "map name db = map fst chord_definitions" by blast
  define midi where "midi = sort (map noteToMidi notes)"
  define us where "us = (case useFlats of None \<Rightarrow> True | Some b \<Rightarrow> \<not> b)"
  define ncs where "ncs = new_Set (map (\<lambda>n. js_rem n 12) midi)"
  obtain st where st: "getAsStackedChord ncs = Inr st" using getAsStackedChord_total by blast
  have nn: "length notes \<noteq> 0"
  proof
    assume "length notes = 0"
    then have "detectChord notes useFlats = Inr None" by (simp add: detectChord_def db(1))
    with res show False by simp
  qed
  then have len: "length notes = 1 \<or> length notes = 2 \<or> 3 \<le> length notes" by arith
  have few: "9 \<le> length ncs \<or> length ncs < 9" by arith
  have fnd: "find (\<lambda>formula. pattern formula = join_pattern (getIntervalPattern st)) db = None \<or>
             (\<exists>f. find (\<lambda>formula. pattern formula = join_pattern (getIntervalPattern st)) db = Some f)"
    by (cases "find (\<lambda>formula. pattern formula = join_pattern (getIntervalPattern st)) db") simp_all
  from len few fnd consider (one) "length notes = 1" | (two) "length notes = 2"
    | (soup) "3 \<le> length notes" "9 \<le> length ncs"
    | (hit) f where "3 \<le> length notes" "length ncs < 9"
        "find (\<lambda>formula. pattern formula = join_pattern (getIntervalPattern st)) db = Some f"
    | (miss) "3 \<le> length notes" "length ncs < 9"
        "find (\<lambda>formula. pattern formula = join_pattern (getIntervalPattern st)) db = None"
    by blast
  then show False
  proof cases
    case one
    from detect_single [OF db(1) one, of useFlats] res
    have "s = midiToNoteName (hd midi) us" by (simp add: midi_def us_def)
    with sublist_char [OF sub pm(1)] note_name_no_m show False by blast
  next
    case two
    from detect_pair [OF db(1) two, of useFlats] res
    have "s = (case getIntervalName (midi ! 1 - midi ! 0) of None \<Rightarrow> ''Interval'' | Some s \<Rightarrow> s)
              @ CHR '' '' # (''('' @ midiToNoteName (midi ! 0) us @ '', ''
                              @ midiToNoteName (midi ! 1) us @ '')'')"
      by (simp add: midi_def us_def)
    with sub have "sublist p ((case getIntervalName (midi ! 1 - midi ! 0) of None \<Rightarrow> ''Interval'' | Some s \<Rightarrow> s)
              @ CHR '' '' # (''('' @ midiToNoteName (midi ! 0) us @ '', ''
                              @ midiToNoteName (midi ! 1) us @ '')''))" by simp
    from sublist_sep [OF pm(2) this] interval_names_free [OF p]
    have "sublist p (''('' @ midiToNoteName (midi ! 0) us @ '', ''
                              @ midiToNoteName (midi ! 1) us @ '')'')" by blast
    from sublist_char [OF this pm(1)] note_name_no_m [of "midi ! 0" us] note_name_no_m [of "midi ! 1" us]
    show False by simp
  next
    case soup
    from detect_soup [OF db(1) soup(1), of useFlats] soup(2) res
    have "s = midiToNoteName (hd midi) us @ '' Note Soup''" by (simp add: midi_def us_def ncs_def)
    with sublist_char [OF sub pm(1)] note_name_no_m [of "hd midi" us] show False by simp
  next
    case hit
    from hit(3) have "f \<in> set db" by (auto simp add: find_Some_iff)
    with db(2) have nm: "name f \<in> set (map fst chord_definitions)"
      by (metis image_eqI set_map)
    from detect_match [OF db(1) hit(1), of st f useFlats] hit(2) hit(3) st res
    have "s = compose_name f st (hd midi) us" by (simp add: midi_def us_def ncs_def)
    with compose_name_free [OF nm p] sub show False by blast
  next
    case miss
    from detect_fallback [OF db(1) miss(1), of st useFlats] miss(2) miss(3) st res
    have "s = fallback_name ncs us" by (simp add: midi_def us_def ncs_def)
    with sublist_char [OF sub pm(1)] fallback_name_no_m show False by blast
  qed
qed

text \<open>
  Claim C10: after module initialisation \<open>CHORD_FORMULAS\<close> holds the templates of the 60
  top-level \<^verbatim>\<open>defineChord\<close> calls, in their order, and nothing else: the guard
  \<^verbatim>\<open>CHORD_FORMULAS.length === 0\<close> is false, so the three supplementary definitions are
  not appended. The names \<open>m(maj9)\<close> and \<open>m7(b9)\<close> are not in the database, \<open>Maj7(#5)\<close> is
  there once, and no string that \<open>detectChord\<close> returns contains \<open>m(maj9)\<close> or \<open>m7(b9)\<close>.
  \<open>detectChord\<close> only reads the database.
\<close>

theorem C10_database_is_the_top_level_definitions:
  "length chord_definitions = 60 \<and>
   map fst supplementary_definitions = [''m(maj9)'', ''m7(b9)'', ''Maj7(#5)''] \<and>
   define_all chord_definitions [] = Inr formula_table \<and>
   CHORD_FORMULAS = define_all chord_definitions [] \<and>
   length formula_table = 60 \<and>
   map name formula_table = map fst chord_definitions \<and>
   ''m(maj9)'' \<notin> set (map name formula_table) \<and>
   ''m7(b9)'' \<notin> set (map name formula_table) \<and>
   length (filter (\<lambda>nm. nm = ''Maj7(#5)'') (map name formula_table)) = 1 \<and>
   (\<forall>notes useFlats s. detectChord notes useFlats = Inr (Some s) \<longrightarrow>
      \<not> sublist ''m(maj9)'' s \<and> \<not> sublist ''m7(b9)'' s)"
proof -
  from formulas_total obtain db where db: "define_all chord_definitions [] = Inr db"
    "CHORD_FORMULAS = Inr db" "map name db = map fst chord_definitions" by blast
  from db(2) have tbl: "db = formula_table" unfolding formulas_value by simp
  have c1: "length chord_definitions = 60" by (rule length_chord_definitions)
  have c2: "map fst supplementary_definitions = [''m(maj9)'', ''m7(b9)'', ''Maj7(#5)'']"
    by (simp add: supplementary_definitions_def)
  from db(1) tbl have c3: "define_all chord_definitions [] = Inr formula_table" by simp
  from c3 have c4: "CHORD_FORMULAS = define_all chord_definitions []"
    by (simp only: formulas_value)
  from db(3) tbl have c6: "map name formula_table = map fst chord_definitions" by simp
  from c6 have c5: "length formula_table = 60" by (metis length_map length_chord_definitions)
  have names: "''m(maj9)'' \<notin> set (map fst chord_definitions)"
    "''m7(b9)'' \<notin> set (map fst chord_definitions)"
    "length (filter (\<lambda>nm. nm = ''Maj7(#5)'') (map fst chord_definitions)) = 1"
    by (simp_all add: chord_definitions_def)
  have c7: "''m(maj9)'' \<notin> set (map name formula_table)" unfolding c6 by (rule names(1))
  have c8: "''m7(b9)'' \<notin> set (map name formula_table)" unfolding c6 by (rule names(2))
  have c9: "length (filter (\<lambda>nm. nm = ''Maj7(#5)'') (map name formula_table)) = 1"
    unfolding c6 by (rule names(3))
  have c10: "\<forall>notes useFlats s. detectChord notes useFlats = Inr (Some s) \<longrightarrow>
      \<not> sublist ''m(maj9)'' s \<and> \<not> sublist ''m7(b9)'' s"
    using detect_free by blast
  from c1 c2 c3 c4 c5 c6 c7 c8 c9 c10 show ?thesis by (intro conjI)
qed

text \<open>
  The theorem of claim C10 at the notes of the supplementary definition of \<open>m(maj9)\<close>: they
  are those of the top-level definition \<open>m9/Maj7\<close>, under whose name they are detected.
\<close>

theorem C10_database_is_the_top_level_definitions_witness:
  "(''m(maj9)'', ''c,d#,g,b,d'') \<in> set supplementary_definitions \<and>
   detectChord (definition_notes ''c,d#,g,b,d'') None = Inr (Some ''Cm9/Maj7'') \<and>
   \<not> sublist ''m(maj9)'' ''Cm9/Maj7'' \<and> \<not> sublist ''m7(b9)'' ''Cm9/Maj7''"
proof -
  have mem: "(''m(maj9)'', ''c,d#,g,b,d'') \<in> set supplementary_definitions"
    by (simp add: supplementary_definitions_def)
  have "note_classes ''c,d#,g,b,d'' = [0, 3, 7, 11, 2]" by (simp add: note_classes_eval)
  then have "definition_notes ''c,d#,g,b,d'' = definition_notes ''c,eb,g,b,d''"
    by (simp only: definition_notes_def classes_41)
  with roundtrip_41 have res: "detectChord (definition_notes ''c,d#,g,b,d'') None = Inr (Some ''Cm9/Maj7'')"
    by (simp only:)
  from C10_database_is_the_top_level_definitions have
    "detectChord (definition_notes ''c,d#,g,b,d'') None = Inr (Some ''Cm9/Maj7'') \<longrightarrow>
     \<not> sublist ''m(maj9)'' ''Cm9/Maj7'' \<and> \<not> sublist ''m7(b9)'' ''Cm9/Maj7''"
    by blast
  with res mem show ?thesis by (simp only: simp_thms)
qed

subsection \<open>The forms of the result\<close>

lemma fold_down_range: "0 \<le> d \<Longrightarrow> 0 \<le> fold_down d \<and> fold_down d \<le> 21"
proof (induction d rule: fold_down.induct)
  case (1 diff)
  show ?case
  proof (cases "diff > 21")
    case True
    with 1 show ?thesis by (simp add: fold_down.simps [of diff])
  next
    case False
    with 1 show ?thesis by (simp add: fold_down.simps [of diff])
  qed
qed

lemma note_name_table:
  "midiToNoteName midi useSharps \<in> set (if useSharps then SHARP_NOTES else FLAT_NOTES)"
proof -
  let ?i = "js_rem (js_rem midi 12 + 12) 12"
  from js_rem_range [of midi] have "nat ?i < 12" by linarith
  then have "nat ?i < length SHARP_NOTES" "nat ?i < length FLAT_NOTES"
    by (simp_all add: SHARP_NOTES_def FLAT_NOTES_def)
  then have "SHARP_NOTES ! nat ?i \<in> set SHARP_NOTES" "FLAT_NOTES ! nat ?i \<in> set FLAT_NOTES"
    by (simp_all only: nth_mem)
  then show ?thesis by (simp add: midiToNoteName_def Let_def)
qed

lemma interval_name_some: "\<exists>iv \<in> set interval_names. getIntervalName d = Some iv"
proof -
  define v where "v = fold_down \<bar>d\<bar>"
  from fold_down_range [of "\<bar>d\<bar>"] have "0 \<le> v" "v \<le> 21" by (simp_all add: v_def)
  then have "v = 0 \<or> v = 1 \<or> v = 2 \<or> v = 3 \<or> v = 4 \<or> v = 5 \<or> v = 6 \<or> v = 7 \<or> v = 8 \<or> v = 9 \<or>
             v = 10 \<or> v = 11 \<or> v = 12 \<or> v = 13 \<or> v = 14 \<or> v = 15 \<or> v = 16 \<or> v = 17 \<or> v = 18 \<or>
             v = 19 \<or> v = 20 \<or> v = 21" by arith
  moreover have "getIntervalName d =
     (if v = 0 then Some ''Unison''
         else if v = 1 then Some ''Minor 2nd''
         else if v = 2 then Some ''Major 2nd''
         else if v = 3 then Some ''Minor 3rd''
         else if v = 4 then Some ''Major 3rd''
         else if v = 5 then Some ''Perfect 4th''
         else if v = 6 then Some ''Tritone''
         else if v = 7 then Some ''Perfect 5th''
         else if v = 8 then Some ''Minor 6th (or #5)''
         else if v = 9 then Some ''Major 6th''
         else if v = 10 then Some ''Minor 7th''
         else if v = 11 then Some ''Major 7th''
         else if v = 12 then Some ''Octave''
         else if v = 13 then Some ''Flat 9th''
         else if v = 14 then Some ''9th''
         else if v = 15 then Some ''Minor 10th (or #9)''
         else if v = 16 then Some ''Major 10th''
         else if v = 17 then Some ''11th''
         else if v = 18 then Some ''Augmented 11th''
         else if v = 19 then Some ''Perfect 12th''
         else if v = 20 then Some ''Flat 13th''
         else if v = 21 then Some ''13th''
         else None)"
    unfolding getIntervalName_def v_def Let_def by (rule refl)
  ultimately show ?thesis by (elim disjE) (simp_all add: interval_names_def)
qed

lemma compose_name_form:
  assumes "find (\<lambda>formula. pattern formula = join_pattern (getIntervalPattern st)) formula_table = Some f"
  shows "\<exists>root \<in> set (if us then SHARP_NOTES else FLAT_NOTES).
         \<exists>bass \<in> set (if us then SHARP_NOTES else FLAT_NOTES).
           compose_name f st b us = root @ name f \<or>
           compose_name f st b us = root @ name f @ ''/'' @ bass"
proof -
  from root_in_range [OF assms] have "array_get st (rootIndex f) = Some (st ! nat (rootIndex f))"
    by (simp add: array_get_def)
  then have "\<exists>r. (if name f = ''dim7'' \<or> name f = ''+''
                      then Some (js_rem b 12) else array_get st (rootIndex f)) = Some r"
    by auto
  then obtain r where r: "(if name f = ''dim7'' \<or> name f = ''+''
                      then Some (js_rem b 12) else array_get st (rootIndex f)) = Some r"
    by blast
  have "compose_name f st b us =
          (if Some r \<noteq> Some (js_rem b 12)
           then midiToNoteName r us @ name f @ ''/'' @ midiToNoteName (js_rem b 12) us
           else midiToNoteName r us @ name f)"
    unfolding compose_name_def Let_def r by (simp add: name_or_undefined_def)
  with note_name_table [of r us] note_name_table [of "js_rem b 12" us] show ?thesis
    by (metis (full_types))
qed

lemma fallback_name_form:
  "\<exists>ps. set ps \<subseteq> insert [] (set (if us then SHARP_NOTES else FLAT_NOTES)) \<and>
        fallback_name ncs us = ''('' @ join '', '' ps @ '')''"
proof -
  define tbl where "tbl = (if us then SHARP_NOTES else FLAT_NOTES)"
  define xs where "xs = map (\<lambda>n. case array_get tbl n of None \<Rightarrow> [] | Some s \<Rightarrow> s) ncs"
  have each: "x \<in> insert [] (set tbl)" if "x \<in> set xs" for x
  proof -
    from that obtain n where x: "x = (case array_get tbl n of None \<Rightarrow> [] | Some s \<Rightarrow> s)"
      unfolding xs_def by auto
    show ?thesis
    proof (cases "array_get tbl n")
      case None
      with x show ?thesis by simp
    next
      case (Some s)
      then have "s \<in> set tbl" by (auto simp add: array_get_def split: if_splits)
      with x Some show ?thesis by simp
    qed
  qed
  then have "set xs \<subseteq> insert [] (set tbl)" by blast
  moreover have "fallback_name ncs us = ''('' @ join '', '' xs @ '')''"
    by (simp add: fallback_name_def xs_def tbl_def)
  ultimately show ?thesis unfolding tbl_def by blast
qed

text \<open>
  Claim C6: \<open>detectChord\<close> returns \<open>null\<close> for the empty list. For every nonempty list of
  strings it returns a string and never throws: for one note the name of a note; for two
  notes the name of an interval followed by two note names in parentheses; for three or more
  notes a note name followed by \<open>Note Soup\<close>, or a chord name, made of the name of a root
  note and the name of a formula of the database, with a slash and the name of the bass note
  when the root is not the bass, or the parenthesised list of the names of the pitch classes,
  where a string that is not a note identifier leaves an empty name.
\<close>

theorem C6_null_exactly_when_empty:
  "CHORD_FORMULAS = Inr formula_table \<and>
   detectChord [] useFlats = Inr None \<and>
   (notes \<noteq> [] \<longrightarrow>
     (\<exists>s. detectChord notes useFlats = Inr (Some s) \<and>
        (if length notes = 1 then s \<in> set (note_table useFlats)
         else if length notes = 2 then
           (\<exists>iv \<in> set interval_names. \<exists>a \<in> set (note_table useFlats). \<exists>b \<in> set (note_table useFlats).
              s = iv @ '' ('' @ a @ '', '' @ b @ '')'')
         else
           (\<exists>a \<in> set (note_table useFlats). s = a @ '' Note Soup'') \<or>
           (\<exists>f \<in> set formula_table. \<exists>root \<in> set (note_table useFlats).
              \<exists>bass \<in> set (note_table useFlats).
                s = root @ name f \<or> s = root @ name f @ ''/'' @ bass) \<or>
           (\<exists>ps. set ps \<subseteq> insert [] (set (note_table useFlats)) \<and>
                 s = ''('' @ join '', '' ps @ '')''))))"
proof (intro conjI impI)
  show "CHORD_FORMULAS = Inr formula_table" by (rule formulas_value)
  show "detectChord [] useFlats = Inr None" by (simp add: detectChord_def formulas_value)
next
  assume ne: "notes \<noteq> []"
  define midi where "midi = sort (map noteToMidi notes)"
  define us where "us = (case useFlats of None \<Rightarrow> True | Some b \<Rightarrow> \<not> b)"
  define ncs where "ncs = new_Set (map (\<lambda>n. js_rem n 12) midi)"
  have tbl: "note_table useFlats = (if us then SHARP_NOTES else FLAT_NOTES)"
    by (simp add: note_table_def us_def)
  obtain st where st: "getAsStackedChord ncs = Inr st" using getAsStackedChord_total by blast
  from ne have "length notes \<noteq> 0" by simp
  then have len: "length notes = 1 \<or> length notes = 2 \<or> 3 \<le> length notes" by arith
  have few: "9 \<le> length ncs \<or> length ncs < 9" by arith
  have fnd: "find (\<lambda>formula. pattern formula = join_pattern (getIntervalPattern st)) formula_table = None \<or>
             (\<exists>f. find (\<lambda>formula. pattern formula = join_pattern (getIntervalPattern st)) formula_table = Some f)"
    by (cases "find (\<lambda>formula. pattern formula = join_pattern (getIntervalPattern st)) formula_table") simp_all
  from len few fnd consider (one) "length notes = 1" | (two) "length notes = 2"
    | (soup) "3 \<le> length notes" "9 \<le> length ncs"
    | (hit) f where "3 \<le> length notes" "length ncs < 9"
        "find (\<lambda>formula. pattern formula = join_pattern (getIntervalPattern st)) formula_table = Some f"
    | (miss) "3 \<le> length notes" "length ncs < 9"
        "find (\<lambda>formula. pattern formula = join_pattern (getIntervalPattern st)) formula_table = None"
    by blast
  then show "\<exists>s. detectChord notes useFlats = Inr (Some s) \<and>
        (if length notes = 1 then s \<in> set (note_table useFlats)
         else if length notes = 2 then
           (\<exists>iv \<in> set interval_names. \<exists>a \<in> set (note_table useFlats). \<exists>b \<in> set (note_table useFlats).
              s = iv @ '' ('' @ a @ '', '' @ b @ '')'')
         else
           (\<exists>a \<in> set (note_table useFlats). s = a @ '' Note Soup'') \<or>
           (\<exists>f \<in> set formula_table. \<exists>root \<in> set (note_table useFlats).
              \<exists>bass \<in> set (note_table useFlats).
                s = root @ name f \<or> s = root @ name f @ ''/'' @ bass) \<or>
           (\<exists>ps. set ps \<subseteq> insert [] (set (note_table useFlats)) \<and>
                 s = ''('' @ join '', '' ps @ '')''))"
  proof cases
    case one
    from detect_single [OF formulas_value one, of useFlats]
    have "detectChord notes useFlats = Inr (Some (midiToNoteName (hd midi) us))"
      by (simp add: midi_def us_def)
    with note_name_table [of "hd midi" us] one show ?thesis by (simp add: tbl)
  next
    case two
    obtain iv where iv: "iv \<in> set interval_names" "getIntervalName (midi ! 1 - midi ! 0) = Some iv"
      using interval_name_some by blast
    from detect_pair [OF formulas_value two, of useFlats] iv(2)
    have "detectChord notes useFlats =
            Inr (Some (iv @ '' ('' @ midiToNoteName (midi ! 0) us @ '', '' @ midiToNoteName (midi ! 1) us @ '')''))"
      by (simp add: midi_def us_def)
    moreover from iv(1) note_name_table [of "midi ! 0" us] note_name_table [of "midi ! 1" us]
    have "\<exists>iv' \<in> set interval_names. \<exists>a \<in> set (note_table useFlats). \<exists>b \<in> set (note_table useFlats).
            iv @ '' ('' @ midiToNoteName (midi ! 0) us @ '', '' @ midiToNoteName (midi ! 1) us @ '')'' =
            iv' @ '' ('' @ a @ '', '' @ b @ '')''"
      unfolding tbl by blast
    ultimately show ?thesis using two by simp
  next
    case soup
    from detect_soup [OF formulas_value soup(1), of useFlats] soup(2)
    have "detectChord notes useFlats = Inr (Some (midiToNoteName (hd midi) us @ '' Note Soup''))"
      by (simp add: midi_def us_def ncs_def)
    moreover from note_name_table [of "hd midi" us]
    have "\<exists>a \<in> set (note_table useFlats). midiToNoteName (hd midi) us @ '' Note Soup'' = a @ '' Note Soup''"
      unfolding tbl by blast
    ultimately show ?thesis using soup(1) by simp
  next
    case hit
    from hit(3) have mem: "f \<in> set formula_table" by (auto simp add: find_Some_iff)
    from detect_match [OF formulas_value hit(1), of st f useFlats] hit(2) hit(3) st
    have "detectChord notes useFlats = Inr (Some (compose_name f st (hd midi) us))"
      by (simp add: midi_def us_def ncs_def)
    moreover from compose_name_form [OF hit(3), of us "hd midi"] mem
    have "\<exists>g \<in> set formula_table. \<exists>root \<in> set (note_table useFlats).
              \<exists>bass \<in> set (note_table useFlats).
                compose_name f st (hd midi) us = root @ name g \<or>
                compose_name f st (hd midi) us = root @ name g @ ''/'' @ bass"
      unfolding tbl by blast
    ultimately show ?thesis using hit(1) by simp
  next
    case miss
    from detect_fallback [OF formulas_value miss(1), of st useFlats] miss(2) miss(3) st
    have "detectChord notes useFlats = Inr (Some (fallback_name ncs us))"
      by (simp add: midi_def us_def ncs_def)
    moreover from fallback_name_form [of us ncs]
    have "\<exists>ps. set ps \<subseteq> insert [] (set (note_table useFlats)) \<and>
                 fallback_name ncs us = ''('' @ join '', '' ps @ '')''"
      unfolding tbl by blast
    ultimately show ?thesis using miss(1) by simp
  qed
qed

text \<open>The theorem of claim C6 at the one-note list \<open>C4\<close>.\<close>

theorem C6_null_exactly_when_empty_witness:
  "[''C4''] \<noteq> [] \<and> length [''C4''] = 1 \<and>
   detectChord [] None = Inr None \<and>
   detectChord [''C4''] None = Inr (Some ''C'') \<and> ''C'' \<in> set (note_table None)"
proof -
  have res: "detectChord [''C4''] None = Inr (Some ''C'')"
    by (simp add: detectChord_def formulas_value noteToMidi_eval midiToNoteName_def js_rem_def)
  from C6_null_exactly_when_empty [of None "[''C4'']"] obtain s where
    s: "detectChord [''C4''] None = Inr (Some s)" "s \<in> set (note_table None)"
    by auto
  from s(1) res have "s = ''C''" by simp
  with s(2) have "''C'' \<in> set (note_table None)" by simp
  moreover from C6_null_exactly_when_empty [of None "[''C4'']"] have "detectChord [] None = Inr None" by blast
  ultimately show ?thesis using res by simp
qed

end
